theory Spec2Isabelle
  imports Complex_Main "HOL-Library.Multiset"
begin

section \<open>The browser benchmark of the layers models\<close>

text \<open>
  The test \<open>Benchmark models\<close> of \<open>integration_tests/benchmarks\<close> reads a reference log
  (a \<open>SuiteLog\<close>, written by the Python benchmarks), benchmarks every (model, function) pair
  of it with the models loaded in the browser, and hands run records to a datastore. This
  theory embeds the functions \<open>getChronologicalModelNames\<close>, \<open>getRandomInputsAndOutputs\<close>,
  \<open>syncDataAndDispose\<close>, \<open>getBrowserEnvironmentType\<close>, \<open>getBrowserEnvironmentInfo\<close>,
  \<open>checkBatchSize\<close>, \<open>loadModel\<close> and the body of the test.

  \<^item> Numbers. The numbers of a reference log come from JSON, so they are finite. A batch size
    is a rational, since the code itself tests whether it is an integer; the two iteration
    counts are natural numbers; a timestamp is an integer number of milliseconds, which
    \<open>new Date(t).getTime()\<close> returns unchanged inside the range of dates and turns into
    \<open>NaN\<close> outside it; clock readings and durations are rationals. Arithmetic is exact: the
    rounding of floating point is not part of the model. The type \<open>number\<close> adds the values
    that a division or a date conversion can produce beside the finite ones.
  \<^item> Objects. An object used as a dictionary is the list of its entries, in the order in
    which \<open>for ... in\<close> and \<open>Object.keys\<close> enumerate its keys. The keys of an object are
    distinct; a property that looks a name up in such a list assumes it.
  \<^item> Effects. Every call that leaves the harness (datastore, network, framework, clock,
    console warning) appends an event to the trace of the state. What the outside answers
    is given by a \<open>World\<close>: each of its functions gets the trace before the call, so an
    answer may depend on everything that happened so far. The calls of \<open>console.log\<close>
    are left out.
  \<^item> Errors. A function that can throw, or whose promise can be rejected, returns
    \<open>Inl\<close> of an error together with the state it leaves; nothing is caught anywhere in
    the harness, so an error ends the run.
  \<^item> Tensors. A tensor is its identifier. The state holds the identifiers of the live
    tensors and the next fresh identifier; disposing a tensor that is not live does nothing.
\<close>

section \<open>Data model\<close>

text \<open>
  The values of a number of the source language that is the result of a division, of a
  subtraction or of a date conversion.
\<close>

datatype number = Finite rat | PosInfinity | NegInfinity | NaN

text \<open>
  Modelled from the spec: the declarations of \<open>ModelBenchmarkRun\<close> and of
  \<open>ModelTrainingBenchmarkRun\<close> (module \<open>../types\<close>) are not among the sources. A run
  record holds the batch size, the two iteration counts, the average time, the optional
  per-iteration timings, a timestamp and the identifiers of its task, version set and
  environment; the fields are those that the test reads from a reference run and writes
  into the records it builds. An identifier that is not set yet, the timings of a \<open>fit\<close>
  record and the \<open>loss\<close> and \<open>optimizer\<close> of a record that is not a training record are
  \<open>None\<close>.
\<close>

record ModelBenchmarkRun =
  taskId :: "string option"
  taskType :: string
  modelName :: string
  functionName :: string
  batchSize :: rat
  versionSetId :: "string option"
  environmentId :: "string option"
  numWarmUpIterations :: nat
  numBenchmarkedIterations :: nat
  timesMs :: "rat list option"
  averageTimeMs :: number
  endingTimestampMs :: int
  loss :: "string option"
  optimizer :: "string option"

text \<open>\<open>{[taskName: string]: ModelBenchmarkRun}\<close>, as its entries in key order.\<close>

type_synonym MultiFunctionModelTaskLog = "(string \<times> ModelBenchmarkRun) list"

text \<open>
  Modelled from the spec: \<open>BrowserEnvironmentInfo\<close> and \<open>PythonEnvironmentInfo\<close> (module
  \<open>../types\<close>) are not among the sources. A browser environment has the two fields that
  \<open>getBrowserEnvironmentInfo\<close> sets, \<open>type\<close> and \<open>userAgent\<close>; the environment of the
  reference log is only passed on, and is kept as one opaque string.
\<close>

datatype EnvironmentInfo =
    BrowserEnvironmentInfo string string
  | PythonEnvironmentInfo string

record SuiteLog =
  data :: "(string \<times> MultiFunctionModelTaskLog) list"
  environmentInfo :: EnvironmentInfo

text \<open>
  Of a model, the harness uses the shapes of its symbolic inputs and outputs. A dimension
  may be \<open>null\<close> (the batch dimension is).
\<close>

type_synonym Shape = "rat option list"

record Model =
  inputs :: "Shape list"
  outputs :: "Shape list"

text \<open>\<open>tf.Tensor|tf.Tensor[]\<close>: one tensor, or an array of tensors.\<close>

type_synonym Tensor = nat

datatype Tensors = Single Tensor | Many "Tensor list"

text \<open>
  The errors of a run: a property read on \<open>null\<close> or \<open>undefined\<close> (named by the property);
  the error of \<open>checkBatchSize\<close>; the error \<open>No task is found for model\<close>; the error of
  \<open>math.mean\<close> on an empty array; and a call out of the harness that throws or whose promise
  is rejected (named by the call).
\<close>

datatype Error =
    TypeError string
  | BatchSizeError rat
  | NoTaskError string
  | MeanOfEmptyArray
  | Rejected string

text \<open>The calls that leave the harness, with their arguments.\<close>

datatype Event =
    AddEnvironmentInfoToFirestore EnvironmentInfo
  | AddVersionSetToFirestore string
  | Fetch string
  | ModelFromJSON string
  | AddOrGetTaskId string string string
  | RandomUniform Shape
  | Predict Tensors
  | Data Tensor
  | Dispose "Tensor list"
  | Compile "string option" "string option"
  | Fit Tensors Tensors nat
  | Now
  | Warn string
  | AddBenchmarkRunsToFirestore "ModelBenchmarkRun list"

text \<open>
  The outside world. \<open>None\<close> or \<open>False\<close> means that the call throws or that its promise
  is rejected. The four datastore functions (module \<open>../firestore\<close>) are not among the
  sources and are parameters here, like the network, the framework (\<open>tf.randomUniform\<close>,
  \<open>model.predict\<close>, \<open>tensor.data\<close>, \<open>model.compile\<close>, \<open>model.fit\<close>,
  \<open>tf.models.modelFromJSON\<close>), the browser detection and the two clocks (\<open>tf.util.now\<close>
  and \<open>new Date().getTime()\<close>). A call of \<open>model.predict\<close> throws, or returns one new
  tensor, or an array of new tensors.
\<close>

datatype PredictResult = Throws | ReturnsTensor | ReturnsArray nat

record World =
  userAgent :: string
  detectOS :: "string \<Rightarrow> string option"
  detect :: "string option"
  tfVersion :: string
  fetchSuiteLog :: "Event list \<Rightarrow> string \<Rightarrow> SuiteLog option"
  fetchModelJSON :: "Event list \<Rightarrow> string \<Rightarrow> string option"
  modelFromJSON :: "Event list \<Rightarrow> string \<Rightarrow> Model option"
  addEnvironmentInfoToFirestore :: "Event list \<Rightarrow> EnvironmentInfo \<Rightarrow> string option"
  addVersionSetToFirestore :: "Event list \<Rightarrow> string \<Rightarrow> string option"
  addOrGetTaskId :: "Event list \<Rightarrow> string \<Rightarrow> string \<Rightarrow> string \<Rightarrow> string option"
  addBenchmarkRunsToFirestore :: "Event list \<Rightarrow> ModelBenchmarkRun list \<Rightarrow> bool"
  randomUniform :: "Event list \<Rightarrow> Shape \<Rightarrow> bool"
  predict :: "Event list \<Rightarrow> Model \<Rightarrow> Tensors \<Rightarrow> PredictResult"
  tensorData :: "Event list \<Rightarrow> Tensor \<Rightarrow> bool"
  compile :: "Event list \<Rightarrow> Model \<Rightarrow> string option \<Rightarrow> string option \<Rightarrow> bool"
  fit :: "Event list \<Rightarrow> Model \<Rightarrow> Tensors \<Rightarrow> Tensors \<Rightarrow> nat \<Rightarrow> bool"
  now :: "Event list \<Rightarrow> rat"
  dateNow :: "Event list \<Rightarrow> int"

record State =
  trace :: "Event list"
  nextTensorId :: nat
  liveTensors :: "Tensor list"



section \<open>Chronological ordering\<close>

text \<open>
  \<open>dateGetTime\<close> is \<open>new Date(t).getTime()\<close> on an integer \<open>t\<close>: the time value of a date
  is confined to 8.64e15 milliseconds on either side of the epoch, and a date made from a
  number outside this range has the time value \<open>NaN\<close>. \<open>numberMinus\<close> is the subtraction of
  the source language.
\<close>

definition dateGetTime :: "int \<Rightarrow> number" where
  "dateGetTime t = (if \<bar>t\<bar> \<le> 8640000000000000 then Finite (of_int t) else NaN)"

fun numberMinus :: "number \<Rightarrow> number \<Rightarrow> number" where
  "numberMinus (Finite a) (Finite b) = Finite (a - b)"
| "numberMinus NaN y = NaN"
| "numberMinus x NaN = NaN"
| "numberMinus PosInfinity PosInfinity = NaN"
| "numberMinus NegInfinity NegInfinity = NaN"
| "numberMinus PosInfinity y = PosInfinity"
| "numberMinus NegInfinity y = NegInfinity"
| "numberMinus x PosInfinity = NegInfinity"
| "numberMinus x NegInfinity = PosInfinity"

text \<open>
  \<open>Array.prototype.sort\<close> with a comparison function. The language fixes how the result of
  the comparison function is read (\<open>sortCompare\<close>: \<open>NaN\<close> counts as \<open>+0\<close>) and that the sort
  is stable; so the sorted array is determined whenever the comparison function is
  consistent, as \<open>x.timestamp - y.timestamp\<close> is on timestamps that are not \<open>NaN\<close>. For a
  comparison function that is not consistent the language leaves the order to the engine.
  The functions below are the sort of the V8 engine on an array of fewer than 64 elements:
  \<open>countAndMakeRun\<close> finds the longest run at the start of the array that ascends, or that
  descends strictly (it is then reversed), and \<open>binaryInsertionSort\<close> inserts the elements
  that follow, one by one, at the place that a binary search (\<open>insertionPoint\<close>) finds in
  the sorted part. On a longer array the engine sorts pieces in this way and merges them,
  which gives the same array whenever the comparison function is consistent.
\<close>

definition sortCompare :: "('a \<Rightarrow> 'a \<Rightarrow> number) \<Rightarrow> 'a \<Rightarrow> 'a \<Rightarrow> number" where
  "sortCompare comparefn x y = (case comparefn x y of NaN \<Rightarrow> Finite 0 | v \<Rightarrow> v)"

fun lessThanZero :: "number \<Rightarrow> bool" where
  "lessThanZero (Finite q) = (q < 0)"
| "lessThanZero NegInfinity = True"
| "lessThanZero v = False"

fun countRun :: "('a \<Rightarrow> 'a \<Rightarrow> number) \<Rightarrow> bool \<Rightarrow> 'a \<Rightarrow> 'a list \<Rightarrow> nat" where
  "countRun comparefn isDescending previousElement [] = 0"
| "countRun comparefn isDescending previousElement (currentElement # rest) =
     (if lessThanZero (sortCompare comparefn currentElement previousElement) = isDescending
      then Suc (countRun comparefn isDescending currentElement rest)
      else 0)"

definition countAndMakeRun :: "('a \<Rightarrow> 'a \<Rightarrow> number) \<Rightarrow> 'a list \<Rightarrow> 'a list \<times> 'a list" where
  "countAndMakeRun comparefn workArray =
     (case workArray of
        elementHigh # elementLow # rest \<Rightarrow>
          (let isDescending = lessThanZero (sortCompare comparefn elementLow elementHigh);
               runLength = 2 + countRun comparefn isDescending elementLow rest
           in (if isDescending then rev (take runLength workArray)
               else take runLength workArray,
               drop runLength workArray))
      | _ \<Rightarrow> (workArray, []))"

function insertionPoint :: "('a \<Rightarrow> 'a \<Rightarrow> number) \<Rightarrow> 'a \<Rightarrow> 'a list \<Rightarrow> nat \<Rightarrow> nat \<Rightarrow> nat" where
  "insertionPoint comparefn pivot workArray left right =
     (if left < right
      then (let mid = left + (right - left) div 2 in
            if lessThanZero (sortCompare comparefn pivot (workArray ! mid))
            then insertionPoint comparefn pivot workArray left mid
            else insertionPoint comparefn pivot workArray (mid + 1) right)
      else left)"
  by pat_completeness auto
termination
  by (relation "measure (\<lambda>(comparefn, pivot, workArray, left, right). right - left)") auto

declare insertionPoint.simps [simp del]

fun binaryInsertionSort :: "('a \<Rightarrow> 'a \<Rightarrow> number) \<Rightarrow> 'a list \<Rightarrow> 'a list \<Rightarrow> 'a list" where
  "binaryInsertionSort comparefn sortedPart [] = sortedPart"
| "binaryInsertionSort comparefn sortedPart (pivot # rest) =
     (let left = insertionPoint comparefn pivot sortedPart 0 (length sortedPart)
      in binaryInsertionSort comparefn (take left sortedPart @ pivot # drop left sortedPart)
           rest)"

definition arraySort :: "('a \<Rightarrow> 'a \<Rightarrow> number) \<Rightarrow> 'a list \<Rightarrow> 'a list" where
  "arraySort comparefn array =
     (if length array < 2 then array
      else (case countAndMakeRun comparefn array of
              (run, rest) \<Rightarrow> binaryInsertionSort comparefn run rest))"

text \<open>
  The loop of \<open>getChronologicalModelNames\<close>: a model without function names is skipped;
  for the others, \<open>taskGroupLog[functionNames[0]]\<close> is the record of the first entry, and the
  timestamp kept is the time value of the date made from its \<open>endingTimestampMs\<close>. The
  entries are sorted with the comparison function \<open>x.timestamp - y.timestamp\<close>.
\<close>

fun modelNamesAndTimestamps ::
  "(string \<times> MultiFunctionModelTaskLog) list \<Rightarrow> (string \<times> number) list" where
  "modelNamesAndTimestamps [] = []"
| "modelNamesAndTimestamps ((mName, []) # rest) = modelNamesAndTimestamps rest"
| "modelNamesAndTimestamps ((mName, (f0, run) # others) # rest) =
     (mName, dateGetTime (endingTimestampMs run)) # modelNamesAndTimestamps rest"

definition getChronologicalModelNames :: "SuiteLog \<Rightarrow> string list" where
  "getChronologicalModelNames suiteLog =
     map fst (arraySort (\<lambda>x y. numberMinus (snd x) (snd y))
                (modelNamesAndTimestamps (data suiteLog)))"

section \<open>Tensors and framework calls\<close>

text \<open>
  \<open>emit\<close> records a call; \<open>allocate\<close> makes \<open>k\<close> fresh tensors live; \<open>dispose\<close> is
  \<open>tf.dispose\<close>. \<open>randomTensors\<close> is the loop over \<open>model.inputs\<close> (or \<open>model.outputs\<close>)
  of \<open>getRandomInputsAndOutputs\<close>, each tensor of shape
  \<open>[batchSize].concat(shape.slice(1))\<close>; \<open>unwrapSingle\<close> is the replacement of an array of
  length one by its element. The function runs inside \<open>tf.tidy\<close>, which keeps the tensors
  that are returned and, when the function throws, disposes those made so far
  (\<open>tidyAbort\<close>).
\<close>

definition emit :: "Event \<Rightarrow> State \<Rightarrow> State" where
  "emit e st = st\<lparr>trace := trace st @ [e]\<rparr>"

definition fresh :: "nat \<Rightarrow> State \<Rightarrow> Tensor list" where
  "fresh k st = [nextTensorId st ..< nextTensorId st + k]"

definition allocate :: "nat \<Rightarrow> State \<Rightarrow> State" where
  "allocate k st =
     st\<lparr>nextTensorId := nextTensorId st + k, liveTensors := liveTensors st @ fresh k st\<rparr>"

definition dispose :: "Tensor list \<Rightarrow> State \<Rightarrow> State" where
  "dispose ts st =
     emit (Dispose ts) (st\<lparr>liveTensors := filter (\<lambda>t. t \<notin> set ts) (liveTensors st)\<rparr>)"

fun tensorList :: "Tensors \<Rightarrow> Tensor list" where
  "tensorList (Single t) = [t]"
| "tensorList (Many ts) = ts"

definition randomUniformCall :: "World \<Rightarrow> Shape \<Rightarrow> State \<Rightarrow> (Error + Tensor) \<times> State" where
  "randomUniformCall w shape st =
     (let st1 = emit (RandomUniform shape) st in
      if randomUniform w (trace st) shape
      then (Inr (nextTensorId st1), allocate 1 st1)
      else (Inl (Rejected ''randomUniform''), st1))"

fun randomTensors ::
  "World \<Rightarrow> rat \<Rightarrow> Shape list \<Rightarrow> State \<Rightarrow> (Error + Tensor list) \<times> State" where
  "randomTensors w b [] st = (Inr [], st)"
| "randomTensors w b (shape # rest) st =
     (case randomUniformCall w (Some b # drop 1 shape) st of
        (Inl e, st1) \<Rightarrow> (Inl e, st1)
      | (Inr t, st1) \<Rightarrow>
          (case randomTensors w b rest st1 of
             (Inl e, st2) \<Rightarrow> (Inl e, st2)
           | (Inr ts, st2) \<Rightarrow> (Inr (t # ts), st2)))"

definition unwrapSingle :: "Tensor list \<Rightarrow> Tensors" where
  "unwrapSingle ts = (if length ts = 1 then Single (ts ! 0) else Many ts)"

definition tidyAbort :: "State \<Rightarrow> State \<Rightarrow> State" where
  "tidyAbort st0 st1 = dispose [nextTensorId st0 ..< nextTensorId st1] st1"

definition getRandomInputsAndOutputs ::
  "World \<Rightarrow> Model \<Rightarrow> rat \<Rightarrow> State \<Rightarrow> (Error + Tensors \<times> Tensors) \<times> State" where
  "getRandomInputsAndOutputs w model b st =
     (case randomTensors w b (inputs model) st of
        (Inl e, st1) \<Rightarrow> (Inl e, tidyAbort st st1)
      | (Inr xs, st1) \<Rightarrow>
          (case randomTensors w b (outputs model) st1 of
             (Inl e, st2) \<Rightarrow> (Inl e, tidyAbort st st2)
           | (Inr ys, st2) \<Rightarrow> (Inr (unwrapSingle xs, unwrapSingle ys), st2)))"

definition dataCall :: "World \<Rightarrow> Tensor \<Rightarrow> State \<Rightarrow> (Error + unit) \<times> State" where
  "dataCall w t st =
     (if tensorData w (trace st) t then Inr () else Inl (Rejected ''data''), emit (Data t) st)"

fun syncData :: "World \<Rightarrow> Tensor list \<Rightarrow> State \<Rightarrow> (Error + unit) \<times> State" where
  "syncData w [] st = (Inr (), st)"
| "syncData w (out # rest) st =
     (case dataCall w out st of
        (Inl e, st1) \<Rightarrow> (Inl e, st1)
      | (Inr u, st1) \<Rightarrow> syncData w rest st1)"

definition syncDataAndDispose :: "World \<Rightarrow> Tensors \<Rightarrow> State \<Rightarrow> (Error + unit) \<times> State" where
  "syncDataAndDispose w tensors st =
     (case (case tensors of Many ts \<Rightarrow> syncData w ts st | Single t \<Rightarrow> dataCall w t st) of
        (Inl e, st1) \<Rightarrow> (Inl e, st1)
      | (Inr u, st1) \<Rightarrow> (Inr (), dispose (tensorList tensors) st1))"

definition predictCall :: "World \<Rightarrow> Model \<Rightarrow> Tensors \<Rightarrow> State \<Rightarrow> (Error + Tensors) \<times> State" where
  "predictCall w model xs st =
     (let st1 = emit (Predict xs) st in
      case predict w (trace st) model xs of
        Throws \<Rightarrow> (Inl (Rejected ''predict''), st1)
      | ReturnsTensor \<Rightarrow> (Inr (Single (nextTensorId st1)), allocate 1 st1)
      | ReturnsArray k \<Rightarrow> (Inr (Many (fresh k st1)), allocate k st1))"

definition compileCall ::
  "World \<Rightarrow> Model \<Rightarrow> string option \<Rightarrow> string option \<Rightarrow> State \<Rightarrow> (Error + unit) \<times> State" where
  "compileCall w model l opt st =
     (if compile w (trace st) model l opt then Inr () else Inl (Rejected ''compile''),
      emit (Compile l opt) st)"

definition fitCall ::
  "World \<Rightarrow> Model \<Rightarrow> Tensors \<Rightarrow> Tensors \<Rightarrow> nat \<Rightarrow> State \<Rightarrow> (Error + unit) \<times> State" where
  "fitCall w model xs ys epochs st =
     (if fit w (trace st) model xs ys epochs then Inr () else Inl (Rejected ''fit''),
      emit (Fit xs ys epochs) st)"

definition utilNow :: "World \<Rightarrow> State \<Rightarrow> rat \<times> State" where
  "utilNow w st = (now w (trace st), emit Now st)"

section \<open>Validation and arithmetic\<close>

text \<open>
  \<open>isInteger\<close> is \<open>Number.isInteger\<close> on a finite number. \<open>mean\<close> is \<open>math.mean\<close> of the
  mathjs library on an array of numbers: the sum divided by the count, and an error on the
  empty array. \<open>numberDivide\<close> is the division of the source language on finite numbers.
  \<open>lookupName\<close> reads a property of one of the two name tables; a missing field reads
  the property \<open>undefined\<close>, which the tables do not have.
\<close>

definition isInteger :: "rat \<Rightarrow> bool" where
  "isInteger q = (q = of_int \<lfloor>q\<rfloor>)"

definition checkBatchSize :: "rat \<Rightarrow> Error + unit" where
  "checkBatchSize b =
     (if \<not> (isInteger b \<and> b > 0) then Inl (BatchSizeError b) else Inr ())"

definition mean :: "rat list \<Rightarrow> Error + number" where
  "mean ts =
     (if ts = [] then Inl MeanOfEmptyArray
      else Inr (Finite (sum_list ts / of_nat (length ts))))"

definition numberDivide :: "rat \<Rightarrow> rat \<Rightarrow> number" where
  "numberDivide a b =
     (if b \<noteq> 0 then Finite (a / b)
      else if a > 0 then PosInfinity
      else if a < 0 then NegInfinity
      else NaN)"

definition OPTIMIZER_MAP :: "(string \<times> string) list" where
  "OPTIMIZER_MAP =
     [(''AdamOptimizer'', ''adam''),
      (''RMSPropOptimizer'', ''rmsprop''),
      (''GradientDescentOptimizer'', ''sgd'')]"

definition LOSS_MAP :: "(string \<times> string) list" where
  "LOSS_MAP =
     [(''mean_squared_error'', ''meanSquaredError''),
      (''categorical_crossentropy'', ''categoricalCrossentropy'')]"

definition lookupName :: "(string \<times> string) list \<Rightarrow> string option \<Rightarrow> string option" where
  "lookupName table pyName = (case pyName of None \<Rightarrow> None | Some n \<Rightarrow> map_of table n)"


section \<open>The benchmark of one (model, function) pair\<close>

text \<open>
  \<open>Context\<close> holds the three identifiers obtained before the loops. \<open>warmUpPredict\<close> and
  \<open>benchmarkedPredict\<close> are the two loops of the \<open>predict\<close> branch, counting the iterations
  that remain; \<open>benchmarkPredict\<close> and \<open>benchmarkFit\<close> are the two branches up to the record
  they build, \<open>skipTask\<close> is the branch of the warning. \<open>benchmarkPair\<close> is the body of the
  inner loop: it returns the entry for \<open>tfjsRuns\<close> (\<open>None\<close> for \<open>undefined\<close>) and the
  reference run with its two identifiers set. The assignments to \<open>pyRun\<close> change the record
  inside the reference log, which is not read again for this pair.
\<close>

record Context =
  ctxVersionSetId :: string
  tfjsEnvironmentId :: string
  pyEnvironmentId :: string

definition taskTypeModel :: string where
  "taskTypeModel = ''model''"

fun warmUpPredict ::
  "World \<Rightarrow> Model \<Rightarrow> Tensors \<Rightarrow> nat \<Rightarrow> State \<Rightarrow> (Error + unit) \<times> State" where
  "warmUpPredict w model xs 0 st = (Inr (), st)"
| "warmUpPredict w model xs (Suc n) st =
     (case predictCall w model xs st of
        (Inl e, st1) \<Rightarrow> (Inl e, st1)
      | (Inr out, st1) \<Rightarrow>
          (case syncDataAndDispose w out st1 of
             (Inl e, st2) \<Rightarrow> (Inl e, st2)
           | (Inr u, st2) \<Rightarrow> warmUpPredict w model xs n st2))"

fun benchmarkedPredict ::
  "World \<Rightarrow> Model \<Rightarrow> Tensors \<Rightarrow> nat \<Rightarrow> rat list \<Rightarrow> State \<Rightarrow> (Error + rat list) \<times> State" where
  "benchmarkedPredict w model xs 0 ts st = (Inr ts, st)"
| "benchmarkedPredict w model xs (Suc n) ts st =
     (case utilNow w st of
        (t0, st1) \<Rightarrow>
          (case predictCall w model xs st1 of
             (Inl e, st2) \<Rightarrow> (Inl e, st2)
           | (Inr out, st2) \<Rightarrow>
               (case syncDataAndDispose w out st2 of
                  (Inl e, st3) \<Rightarrow> (Inl e, st3)
                | (Inr u, st3) \<Rightarrow>
                    (case utilNow w st3 of
                       (t1, st4) \<Rightarrow> benchmarkedPredict w model xs n (ts @ [t1 - t0]) st4))))"

definition benchmarkPredict ::
  "World \<Rightarrow> Context \<Rightarrow> Model \<Rightarrow> string \<Rightarrow> string \<Rightarrow> string \<Rightarrow> ModelBenchmarkRun \<Rightarrow> Tensors \<Rightarrow>
   State \<Rightarrow> (Error + ModelBenchmarkRun option) \<times> State" where
  "benchmarkPredict w ctx model tId mName fName pyRun xs st =
     (case warmUpPredict w model xs (numWarmUpIterations pyRun) st of
        (Inl e, st1) \<Rightarrow> (Inl e, st1)
      | (Inr u, st1) \<Rightarrow>
          (case benchmarkedPredict w model xs (numBenchmarkedIterations pyRun) [] st1 of
             (Inl e, st2) \<Rightarrow> (Inl e, st2)
           | (Inr ts, st2) \<Rightarrow>
               (case mean ts of
                  Inl e \<Rightarrow> (Inl e, st2)
                | Inr avg \<Rightarrow>
                    (Inr (Some \<lparr>taskId = Some tId,
                                taskType = taskTypeModel,
                                modelName = mName,
                                functionName = fName,
                                batchSize = batchSize pyRun,
                                versionSetId = Some (ctxVersionSetId ctx),
                                environmentId = Some (tfjsEnvironmentId ctx),
                                numWarmUpIterations = numWarmUpIterations pyRun,
                                numBenchmarkedIterations = numBenchmarkedIterations pyRun,
                                timesMs = Some ts,
                                averageTimeMs = avg,
                                endingTimestampMs = dateNow w (trace st2),
                                loss = None,
                                optimizer = None\<rparr>), st2))))"

definition benchmarkFit ::
  "World \<Rightarrow> Context \<Rightarrow> Model \<Rightarrow> string \<Rightarrow> string \<Rightarrow> string \<Rightarrow> ModelBenchmarkRun \<Rightarrow> Tensors \<Rightarrow>
   Tensors \<Rightarrow> State \<Rightarrow> (Error + ModelBenchmarkRun option) \<times> State" where
  "benchmarkFit w ctx model tId mName fName pyRun xs ys st =
     (case compileCall w model (lookupName LOSS_MAP (loss pyRun))
             (lookupName OPTIMIZER_MAP (optimizer pyRun)) st of
        (Inl e, st1) \<Rightarrow> (Inl e, st1)
      | (Inr u, st1) \<Rightarrow>
          (case fitCall w model xs ys (numWarmUpIterations pyRun) st1 of
             (Inl e, st2) \<Rightarrow> (Inl e, st2)
           | (Inr u, st2) \<Rightarrow>
               (case utilNow w st2 of
                  (t0, st3) \<Rightarrow>
                    (case fitCall w model xs ys (numBenchmarkedIterations pyRun) st3 of
                       (Inl e, st4) \<Rightarrow> (Inl e, st4)
                     | (Inr u, st4) \<Rightarrow>
                         (case utilNow w st4 of
                            (t1, st5) \<Rightarrow>
                              (Inr (Some \<lparr>taskId = Some tId,
                                          taskType = taskTypeModel,
                                          modelName = mName,
                                          functionName = fName,
                                          batchSize = batchSize pyRun,
                                          versionSetId = Some (ctxVersionSetId ctx),
                                          environmentId = Some (tfjsEnvironmentId ctx),
                                          numWarmUpIterations = numWarmUpIterations pyRun,
                                          numBenchmarkedIterations =
                                            numBenchmarkedIterations pyRun,
                                          timesMs = None,
                                          averageTimeMs =
                                            numberDivide (t1 - t0)
                                              (of_nat (numBenchmarkedIterations pyRun)),
                                          endingTimestampMs = dateNow w (trace st5),
                                          loss = None,
                                          optimizer = None\<rparr>), st5))))))"

definition skipTask ::
  "string \<Rightarrow> string \<Rightarrow> State \<Rightarrow> (Error + ModelBenchmarkRun option) \<times> State" where
  "skipTask mName fName st =
     (Inr None,
      emit (Warn (''Skipping task '' @ [CHR 0x22] @ fName @ [CHR 0x22] @ '' of model '' @
                  [CHR 0x22] @ mName @ [CHR 0x22])) st)"

definition addOrGetTaskIdCall ::
  "World \<Rightarrow> string \<Rightarrow> string \<Rightarrow> string \<Rightarrow> State \<Rightarrow> (Error + string) \<times> State" where
  "addOrGetTaskIdCall w tType mName fName st =
     (case addOrGetTaskId w (trace st) tType mName fName of
        None \<Rightarrow> Inl (Rejected ''addOrGetTaskId'')
      | Some tId \<Rightarrow> Inr tId,
      emit (AddOrGetTaskId tType mName fName) st)"

definition benchmarkPair ::
  "World \<Rightarrow> Context \<Rightarrow> string \<Rightarrow> Model \<Rightarrow> string \<Rightarrow> ModelBenchmarkRun \<Rightarrow> State \<Rightarrow>
   (Error + ModelBenchmarkRun option \<times> ModelBenchmarkRun) \<times> State" where
  "benchmarkPair w ctx mName model fName pyRun st =
     (case addOrGetTaskIdCall w taskTypeModel mName fName st of
        (Inl e, st1) \<Rightarrow> (Inl e, st1)
      | (Inr tId, st1) \<Rightarrow>
          (case checkBatchSize (batchSize pyRun) of
             Inl e \<Rightarrow> (Inl e, st1)
           | Inr u \<Rightarrow>
               (case getRandomInputsAndOutputs w model (batchSize pyRun) st1 of
                  (Inl e, st2) \<Rightarrow> (Inl e, st2)
                | (Inr (xs, ys), st2) \<Rightarrow>
                    (case (if fName = ''predict''
                           then benchmarkPredict w ctx model tId mName fName pyRun xs st2
                           else if fName = ''fit''
                           then benchmarkFit w ctx model tId mName fName pyRun xs ys st2
                           else skipTask mName fName st2) of
                       (Inl e, st3) \<Rightarrow> (Inl e, st3)
                     | (Inr tfjsRun, st3) \<Rightarrow>
                         (Inr (tfjsRun,
                               pyRun\<lparr>taskId := Some tId,
                                     environmentId := Some (pyEnvironmentId ctx)\<rparr>),
                          dispose (tensorList xs @ tensorList ys) st3)))))"

section \<open>The benchmark run\<close>

text \<open>
  \<open>benchmarkFunctions\<close> is the loop over the function names of a model, where
  \<open>taskGroupLog[functionNames[j]]\<close> is the record of the \<open>j\<close>-th entry; it threads the two
  lists \<open>pyRuns\<close> and \<open>tfjsRuns\<close>. \<open>benchmarkSortedModels\<close> is the loop over the sorted
  model names, and \<open>benchmarkModels\<close> the whole test.
\<close>

type_synonym Runs = "ModelBenchmarkRun list \<times> ModelBenchmarkRun option list"

fun benchmarkFunctions ::
  "World \<Rightarrow> Context \<Rightarrow> string \<Rightarrow> Model \<Rightarrow> MultiFunctionModelTaskLog \<Rightarrow> Runs \<Rightarrow> State \<Rightarrow>
   (Error + Runs) \<times> State" where
  "benchmarkFunctions w ctx mName model [] runs st = (Inr runs, st)"
| "benchmarkFunctions w ctx mName model ((fName, pyRun) # rest) (pyRuns, tfjsRuns) st =
     (case benchmarkPair w ctx mName model fName pyRun st of
        (Inl e, st1) \<Rightarrow> (Inl e, st1)
      | (Inr (tfjsRun, pyRun'), st1) \<Rightarrow>
          benchmarkFunctions w ctx mName model rest
            (pyRuns @ [pyRun'], tfjsRuns @ [tfjsRun]) st1)"

definition DATA_SERVER_ROOT :: string where
  "DATA_SERVER_ROOT = ''./base/data''"

definition BENCHMARKS_JSON_URL :: string where
  "BENCHMARKS_JSON_URL = DATA_SERVER_ROOT @ ''/benchmarks.json''"

definition loadModel :: "World \<Rightarrow> string \<Rightarrow> State \<Rightarrow> (Error + Model) \<times> State" where
  "loadModel w mName st =
     (let modelJSONPath = DATA_SERVER_ROOT @ ''/'' @ mName @ ''/model.json'';
          st1 = emit (Fetch modelJSONPath) st in
      case fetchModelJSON w (trace st) modelJSONPath of
        None \<Rightarrow> (Inl (Rejected ''fetch''), st1)
      | Some topology \<Rightarrow>
          (case modelFromJSON w (trace st1) topology of
             None \<Rightarrow> Inl (Rejected ''modelFromJSON'')
           | Some model \<Rightarrow> Inr model,
           emit (ModelFromJSON topology) st1))"

fun benchmarkSortedModels ::
  "World \<Rightarrow> Context \<Rightarrow> SuiteLog \<Rightarrow> string list \<Rightarrow> Runs \<Rightarrow> State \<Rightarrow> (Error + Runs) \<times> State" where
  "benchmarkSortedModels w ctx suiteLog [] runs st = (Inr runs, st)"
| "benchmarkSortedModels w ctx suiteLog (mName # rest) runs st =
     (case loadModel w mName st of
        (Inl e, st1) \<Rightarrow> (Inl e, st1)
      | (Inr model, st1) \<Rightarrow>
          (case map_of (data suiteLog) mName of
             None \<Rightarrow> (Inl (TypeError ''Object.keys''), st1)
           | Some taskGroupLog \<Rightarrow>
               if length (map fst taskGroupLog) = 0
               then (Inl (NoTaskError mName), st1)
               else (case benchmarkFunctions w ctx mName model taskGroupLog runs st1 of
                       (Inl e, st2) \<Rightarrow> (Inl e, st2)
                     | (Inr runs', st2) \<Rightarrow>
                         benchmarkSortedModels w ctx suiteLog rest runs' st2)))"

definition toLowerCase :: "string \<Rightarrow> string" where
  "toLowerCase s =
     map (\<lambda>c. let n = (of_char c :: nat) in
               if 65 \<le> n \<and> n \<le> 90 then char_of (n + 32) else c) s"

definition getBrowserEnvironmentType :: "World \<Rightarrow> Error + string" where
  "getBrowserEnvironmentType w =
     (case detectOS w (userAgent w) of
        None \<Rightarrow> Inl (TypeError ''toLowerCase'')
      | Some os \<Rightarrow>
          (case detect w of
             None \<Rightarrow> Inl (TypeError ''name'')
           | Some browser \<Rightarrow> Inr (toLowerCase browser @ ''-'' @ toLowerCase os)))"

definition getBrowserEnvironmentInfo :: "World \<Rightarrow> Error + EnvironmentInfo" where
  "getBrowserEnvironmentInfo w =
     (case getBrowserEnvironmentType w of
        Inl e \<Rightarrow> Inl e
      | Inr ty \<Rightarrow> Inr (BrowserEnvironmentInfo ty (userAgent w)))"

definition addEnvironmentInfoCall ::
  "World \<Rightarrow> EnvironmentInfo \<Rightarrow> State \<Rightarrow> (Error + string) \<times> State" where
  "addEnvironmentInfoCall w info st =
     (case addEnvironmentInfoToFirestore w (trace st) info of
        None \<Rightarrow> Inl (Rejected ''addEnvironmentInfoToFirestore'')
      | Some envId \<Rightarrow> Inr envId,
      emit (AddEnvironmentInfoToFirestore info) st)"

definition addVersionSetCall :: "World \<Rightarrow> string \<Rightarrow> State \<Rightarrow> (Error + string) \<times> State" where
  "addVersionSetCall w versions st =
     (case addVersionSetToFirestore w (trace st) versions of
        None \<Rightarrow> Inl (Rejected ''addVersionSetToFirestore'')
      | Some vId \<Rightarrow> Inr vId,
      emit (AddVersionSetToFirestore versions) st)"

definition fetchSuiteLogCall :: "World \<Rightarrow> State \<Rightarrow> (Error + SuiteLog) \<times> State" where
  "fetchSuiteLogCall w st =
     (case fetchSuiteLog w (trace st) BENCHMARKS_JSON_URL of
        None \<Rightarrow> Inl (Rejected ''fetch'')
      | Some suiteLog \<Rightarrow> Inr suiteLog,
      emit (Fetch BENCHMARKS_JSON_URL) st)"

definition addBenchmarkRunsCall ::
  "World \<Rightarrow> ModelBenchmarkRun list \<Rightarrow> State \<Rightarrow> (Error + unit) \<times> State" where
  "addBenchmarkRunsCall w runs st =
     (if addBenchmarkRunsToFirestore w (trace st) runs then Inr ()
      else Inl (Rejected ''addBenchmarkRunsToFirestore''),
      emit (AddBenchmarkRunsToFirestore runs) st)"

definition benchmarkModels :: "World \<Rightarrow> State \<Rightarrow> (Error + Runs) \<times> State" where
  "benchmarkModels w st =
     (case getBrowserEnvironmentInfo w of
        Inl e \<Rightarrow> (Inl e, st)
      | Inr info \<Rightarrow>
     (case addEnvironmentInfoCall w info st of
        (Inl e, st1) \<Rightarrow> (Inl e, st1)
      | (Inr tfjsEnvId, st1) \<Rightarrow>
     (case addVersionSetCall w (tfVersion w) st1 of
        (Inl e, st2) \<Rightarrow> (Inl e, st2)
      | (Inr vId, st2) \<Rightarrow>
     (case fetchSuiteLogCall w st2 of
        (Inl e, st3) \<Rightarrow> (Inl e, st3)
      | (Inr suiteLog, st3) \<Rightarrow>
     (case addEnvironmentInfoCall w (environmentInfo suiteLog) st3 of
        (Inl e, st4) \<Rightarrow> (Inl e, st4)
      | (Inr pyEnvId, st4) \<Rightarrow>
     (case benchmarkSortedModels w
             \<lparr>ctxVersionSetId = vId, tfjsEnvironmentId = tfjsEnvId, pyEnvironmentId = pyEnvId\<rparr>
             suiteLog (getChronologicalModelNames suiteLog) ([], []) st4 of
        (Inl e, st5) \<Rightarrow> (Inl e, st5)
      | (Inr (pyRuns, tfjsRuns), st5) \<Rightarrow>
     (case addBenchmarkRunsCall w pyRuns st5 of
        (Inl e, st6) \<Rightarrow> (Inl e, st6)
      | (Inr u, st6) \<Rightarrow> (Inr (pyRuns, tfjsRuns), st6))))))))"

definition initialState :: State where
  "initialState = \<lparr>trace = [], nextTensorId = 0, liveTensors = []\<rparr>"
section \<open>Notions used to state the properties\<close>



definition timeValue :: "int \<Rightarrow> bool" where
  "timeValue t = (- 8640000000000000 \<le> t \<and> t \<le> 8640000000000000)"

definition timestampsInDateRange :: "SuiteLog \<Rightarrow> bool" where
  "timestampsInDateRange suiteLog =
     list_all (\<lambda>(m, tgl). case tgl of [] \<Rightarrow> True
                          | (f0, run) # others \<Rightarrow> timeValue (endingTimestampMs run))
       (data suiteLog)"

text \<open>
  Two views of a trace: the calls to the model together with the readings of the clock
  \<open>tf.util.now\<close>, and the requests to the datastore.
\<close>

fun isCallOrNow :: "Event \<Rightarrow> bool" where
  "isCallOrNow (Predict xs) = True"
| "isCallOrNow (Fit xs ys epochs) = True"
| "isCallOrNow Now = True"
| "isCallOrNow e = False"

fun isDatastoreEvent :: "Event \<Rightarrow> bool" where
  "isDatastoreEvent (AddEnvironmentInfoToFirestore info) = True"
| "isDatastoreEvent (AddVersionSetToFirestore versions) = True"
| "isDatastoreEvent (AddOrGetTaskId tType mName fName) = True"
| "isDatastoreEvent (AddBenchmarkRunsToFirestore runs) = True"
| "isDatastoreEvent e = False"

text \<open>
  In a well-formed state the live tensors are older than the next fresh identifier. A step
  from \<open>st\<close> to \<open>st'\<close> is neutral when it only uses up fresh identifiers and, from a
  well-formed state, leaves the live tensors as they were.
\<close>

definition wellFormed :: "State \<Rightarrow> bool" where
  "wellFormed st = (\<forall>t \<in> set (liveTensors st). t < nextTensorId st)"

definition tensorNeutral :: "State \<Rightarrow> State \<Rightarrow> bool" where
  "tensorNeutral st st' =
     (nextTensorId st \<le> nextTensorId st' \<and>
      (wellFormed st \<longrightarrow> wellFormed st' \<and> liveTensors st' = liveTensors st))"

text \<open>The expression \<open>syncDataAndDispose(model.predict(xs))\<close> of the two loops.\<close>

definition predictAndSync :: "World \<Rightarrow> Model \<Rightarrow> Tensors \<Rightarrow> State \<Rightarrow> (Error + unit) \<times> State" where
  "predictAndSync w model xs st =
     (case predictCall w model xs st of
        (Inl e, st1) \<Rightarrow> (Inl e, st1)
      | (Inr out, st1) \<Rightarrow> syncDataAndDispose w out st1)"

text \<open>
  Assumptions on the outside world: no call of \<open>model.predict\<close> or \<open>tensor.data\<close> fails;
  no call of \<open>tf.randomUniform\<close> fails; every request of a task identifier is answered; no
  call of \<open>model.compile\<close> or \<open>model.fit\<close> fails.
\<close>

definition predictSucceeds :: "World \<Rightarrow> bool" where
  "predictSucceeds w =
     ((\<forall>h model xs. predict w h model xs \<noteq> Throws) \<and> (\<forall>h t. tensorData w h t))"

definition tensorsConstructible :: "World \<Rightarrow> bool" where
  "tensorsConstructible w = (\<forall>h shape. randomUniform w h shape)"

definition taskIdsAvailable :: "World \<Rightarrow> bool" where
  "taskIdsAvailable w = (\<forall>h tType mName fName. addOrGetTaskId w h tType mName fName \<noteq> None)"

definition fitSucceeds :: "World \<Rightarrow> bool" where
  "fitSucceeds w =
     ((\<forall>h model l opt. compile w h model l opt) \<and> (\<forall>h model xs ys n. fit w h model xs ys n))"

text \<open>
  The events of the construction of the tensors of one list of shapes; the events of the
  \<open>fit\<close> branch; the dispatch on the function name inside \<open>benchmarkPair\<close>; the warning of
  a skipped pair.
\<close>

definition randomShapes :: "rat \<Rightarrow> Shape list \<Rightarrow> Event list" where
  "randomShapes b shapes = map (\<lambda>shape. RandomUniform (Some b # drop 1 shape)) shapes"

definition fitEvents :: "ModelBenchmarkRun \<Rightarrow> Tensors \<Rightarrow> Tensors \<Rightarrow> Event list" where
  "fitEvents pyRun xs ys =
     [Compile (lookupName LOSS_MAP (loss pyRun)) (lookupName OPTIMIZER_MAP (optimizer pyRun)),
      Fit xs ys (numWarmUpIterations pyRun), Now,
      Fit xs ys (numBenchmarkedIterations pyRun), Now]"

definition benchmarkTask ::
  "World \<Rightarrow> Context \<Rightarrow> Model \<Rightarrow> string \<Rightarrow> string \<Rightarrow> string \<Rightarrow> ModelBenchmarkRun \<Rightarrow> Tensors \<Rightarrow>
   Tensors \<Rightarrow> State \<Rightarrow> (Error + ModelBenchmarkRun option) \<times> State" where
  "benchmarkTask w ctx model tId mName fName pyRun xs ys st =
     (if fName = ''predict'' then benchmarkPredict w ctx model tId mName fName pyRun xs st
      else if fName = ''fit'' then benchmarkFit w ctx model tId mName fName pyRun xs ys st
      else skipTask mName fName st)"

definition skipWarning :: "string \<Rightarrow> string \<Rightarrow> Event" where
  "skipWarning mName fName =
     Warn (''Skipping task '' @ [CHR 0x22] @ fName @ [CHR 0x22] @ '' of model '' @
           [CHR 0x22] @ mName @ [CHR 0x22])"

text \<open>A valid batch size, in the words of the specification: a positive integer.\<close>

definition validBatchSize :: "rat \<Rightarrow> bool" where
  "validBatchSize b = (b \<in> \<int> \<and> 0 < b)"

text \<open>
  The tensors that \<open>getRandomInputsAndOutputs\<close> constructs from a given state: all of them,
  the value \<open>xs\<close>, and the value \<open>ys\<close>. \<open>predictCalls\<close> is the sequence of calls and clock
  readings of the \<open>predict\<close> branch, and \<open>fitElapsed\<close> the difference of the two clock
  readings of the \<open>fit\<close> branch when the trace before the warm-up call is \<open>h\<close>.
\<close>

definition inputsAndOutputs :: "Model \<Rightarrow> State \<Rightarrow> Tensor list" where
  "inputsAndOutputs model st =
     [nextTensorId st ..< nextTensorId st + length (inputs model) + length (outputs model)]"

definition inputTensors :: "Model \<Rightarrow> State \<Rightarrow> Tensors" where
  "inputTensors model st =
     unwrapSingle [nextTensorId st ..< nextTensorId st + length (inputs model)]"

definition predictCalls :: "ModelBenchmarkRun \<Rightarrow> Tensors \<Rightarrow> Event list" where
  "predictCalls pyRun xs =
     replicate (numWarmUpIterations pyRun) (Predict xs) @
     concat (replicate (numBenchmarkedIterations pyRun) [Now, Predict xs, Now])"

definition outputTensors :: "Model \<Rightarrow> State \<Rightarrow> Tensors" where
  "outputTensors model st =
     unwrapSingle [nextTensorId st + length (inputs model) ..<
                   nextTensorId st + length (inputs model) + length (outputs model)]"

definition fitElapsed ::
  "World \<Rightarrow> Event list \<Rightarrow> ModelBenchmarkRun \<Rightarrow> Tensors \<Rightarrow> Tensors \<Rightarrow> rat" where
  "fitElapsed w h pyRun xs ys =
     now w (h @ [Fit xs ys (numWarmUpIterations pyRun), Now,
                 Fit xs ys (numBenchmarkedIterations pyRun)]) -
     now w (h @ [Fit xs ys (numWarmUpIterations pyRun)])"

text \<open>
  The (model name, function name, reference run) triples in the order in which the run
  processes them; what a reference run looks like when it is handed to the datastore (its
  task identifier is an answer of the datastore for the pair, its environment identifier is
  the given one); what the entry of the measured runs is for a pair; the requests of task
  identifiers of a list of pairs; and the four events before the loop over the models.
\<close>

definition persistedForm ::
  "World \<Rightarrow> string \<Rightarrow> string \<times> string \<times> ModelBenchmarkRun \<Rightarrow> ModelBenchmarkRun \<Rightarrow> bool" where
  "persistedForm w pyEnvId p persisted =
     (case p of (mName, fName, pyRun) \<Rightarrow>
        (\<exists>h tId. addOrGetTaskId w h taskTypeModel mName fName = Some tId \<and>
                 persisted = pyRun\<lparr>taskId := Some tId, environmentId := Some pyEnvId\<rparr>))"

definition measuredForm ::
  "string \<times> string \<times> ModelBenchmarkRun \<Rightarrow> ModelBenchmarkRun option \<Rightarrow> bool" where
  "measuredForm p measured =
     (case p of (mName, fName, pyRun) \<Rightarrow>
        (if fName = ''predict'' \<or> fName = ''fit'' then measured \<noteq> None else measured = None))"

definition pairsOfModel ::
  "string \<Rightarrow> MultiFunctionModelTaskLog \<Rightarrow> (string \<times> string \<times> ModelBenchmarkRun) list" where
  "pairsOfModel mName taskGroupLog = map (\<lambda>(fName, pyRun). (mName, fName, pyRun)) taskGroupLog"

fun pairsInOrder :: "SuiteLog \<Rightarrow> string list \<Rightarrow> (string \<times> string \<times> ModelBenchmarkRun) list" where
  "pairsInOrder suiteLog [] = []"
| "pairsInOrder suiteLog (mName # rest) =
     (case map_of (data suiteLog) mName of
        None \<Rightarrow> []
      | Some taskGroupLog \<Rightarrow> pairsOfModel mName taskGroupLog) @ pairsInOrder suiteLog rest"

definition taskIdRequests :: "(string \<times> string \<times> ModelBenchmarkRun) list \<Rightarrow> Event list" where
  "taskIdRequests ps = map (\<lambda>(mName, fName, pyRun). AddOrGetTaskId taskTypeModel mName fName) ps"

definition prelude :: "World \<Rightarrow> EnvironmentInfo \<Rightarrow> SuiteLog \<Rightarrow> Event list" where
  "prelude w info suiteLog =
     [AddEnvironmentInfoToFirestore info,
      AddVersionSetToFirestore (tfVersion w),
      Fetch BENCHMARKS_JSON_URL,
      AddEnvironmentInfoToFirestore (environmentInfo suiteLog)]"

text \<open>
  \<open>harmless\<close>: a step only extends the trace and does not end in the missing-task error;
  \<open>grows\<close>: a step only extends the trace. \<open>afterBrowserEnvironment\<close> is the rest of the
  run after the browser environment has been stored.
\<close>

fun isNoTaskError :: "Error \<Rightarrow> bool" where
  "isNoTaskError (NoTaskError mName) = True"
| "isNoTaskError e = False"

definition harmless :: "State \<Rightarrow> (Error + 'a) \<times> State \<Rightarrow> bool" where
  "harmless st res =
     ((\<exists>evs. trace (snd res) = trace st @ evs) \<and>
      (\<forall>e. fst res = Inl e \<longrightarrow> \<not> isNoTaskError e))"

definition grows :: "State \<Rightarrow> (Error + 'a) \<times> State \<Rightarrow> bool" where
  "grows st res = (\<exists>evs. trace (snd res) = trace st @ evs)"

definition afterBrowserEnvironment ::
  "World \<Rightarrow> string \<Rightarrow> State \<Rightarrow> (Error + Runs) \<times> State" where
  "afterBrowserEnvironment w tfjsEnvId st1 =
     (case addVersionSetCall w (tfVersion w) st1 of
        (Inl e, st2) \<Rightarrow> (Inl e, st2)
      | (Inr vId, st2) \<Rightarrow>
     (case fetchSuiteLogCall w st2 of
        (Inl e, st3) \<Rightarrow> (Inl e, st3)
      | (Inr suiteLog, st3) \<Rightarrow>
     (case addEnvironmentInfoCall w (environmentInfo suiteLog) st3 of
        (Inl e, st4) \<Rightarrow> (Inl e, st4)
      | (Inr pyEnvId, st4) \<Rightarrow>
     (case benchmarkSortedModels w
             \<lparr>ctxVersionSetId = vId, tfjsEnvironmentId = tfjsEnvId, pyEnvironmentId = pyEnvId\<rparr>
             suiteLog (getChronologicalModelNames suiteLog) ([], []) st4 of
        (Inl e, st5) \<Rightarrow> (Inl e, st5)
      | (Inr (pyRuns, tfjsRuns), st5) \<Rightarrow>
     (case addBenchmarkRunsCall w pyRuns st5 of
        (Inl e, st6) \<Rightarrow> (Inl e, st6)
      | (Inr u, st6) \<Rightarrow> (Inr (pyRuns, tfjsRuns), st6))))))"

text \<open>
  A step keeps the live tensors when it only uses up fresh identifiers and, from a
  well-formed state, releases none of the tensors that were live before it. The errors that
  a pair can raise before its benchmark starts are the validation error, the rejection of
  the request for the task identifier and the failure of the construction of a tensor.
\<close>

definition keepsLive :: "State \<Rightarrow> State \<Rightarrow> bool" where
  "keepsLive st st' =
     (nextTensorId st \<le> nextTensorId st' \<and>
      (wellFormed st \<longrightarrow> wellFormed st' \<and> set (liveTensors st) \<subseteq> set (liveTensors st')))"

fun raisedBeforeBenchmark :: "Error \<Rightarrow> bool" where
  "raisedBeforeBenchmark (BatchSizeError b) = True"
| "raisedBeforeBenchmark (Rejected name) = (name = ''addOrGetTaskId'' \<or> name = ''randomUniform'')"
| "raisedBeforeBenchmark e = False"

text \<open>
  The readings of the clock \<open>tf.util.now\<close> that a list of events takes when it follows the
  history \<open>h\<close>, in order; and the differences of the readings taken two by two (the second
  minus the first, the fourth minus the third, and so on).
\<close>

fun clockReadings :: "World \<Rightarrow> Event list \<Rightarrow> Event list \<Rightarrow> rat list" where
  "clockReadings w h [] = []"
| "clockReadings w h (e # evs) =
     (if e = Now then [now w h] else []) @ clockReadings w (h @ [e]) evs"

fun elapsedTimes :: "rat list \<Rightarrow> rat list" where
  "elapsedTimes (t0 # t1 # rest) = (t1 - t0) # elapsedTimes rest"
| "elapsedTimes ts = []"

text \<open>
  The answers of the datastore to the requests of task identifiers that a list of events
  makes when it follows the history \<open>h\<close>, in order (\<open>None\<close> for a rejected request); and
  a reference run with a given task identifier and the environment identifier of the
  reference log set.
\<close>

fun taskIdAnswers :: "World \<Rightarrow> Event list \<Rightarrow> Event list \<Rightarrow> string option list" where
  "taskIdAnswers w h [] = []"
| "taskIdAnswers w h (e # evs) =
     (case e of
        AddOrGetTaskId tType mName fName \<Rightarrow> [addOrGetTaskId w h tType mName fName]
      | _ \<Rightarrow> []) @ taskIdAnswers w (h @ [e]) evs"

definition stampedRun ::
  "string \<Rightarrow> string \<times> string \<times> ModelBenchmarkRun \<Rightarrow> string option \<Rightarrow> ModelBenchmarkRun" where
  "stampedRun pyEnvId p tId =
     (case p of (mName, fName, pyRun) \<Rightarrow>
        pyRun\<lparr>taskId := tId, environmentId := Some pyEnvId\<rparr>)"

section \<open>Sample inputs\<close>

text \<open>
  A reference run with a given function name, batch size, iteration counts and ending timestamp; reference
  logs; a model with one input and one output; and a world in which every call succeeds,
  except that \<open>model.predict\<close> does what the parameter says. Its clock \<open>tf.util.now\<close> reads
  the square of the number of events so far.
\<close>

definition sampleRun :: "string \<Rightarrow> rat \<Rightarrow> nat \<Rightarrow> nat \<Rightarrow> int \<Rightarrow> ModelBenchmarkRun" where
  "sampleRun fName b nWarm nBench t =
     \<lparr>taskId = None, taskType = ''model'', modelName = ''m'', functionName = fName,
      batchSize = b, versionSetId = None, environmentId = None,
      numWarmUpIterations = nWarm, numBenchmarkedIterations = nBench,
      timesMs = None, averageTimeMs = Finite (51 / 5), endingTimestampMs = t,
      loss = Some ''mean_squared_error'', optimizer = Some ''AdamOptimizer''\<rparr>"

definition suiteThree :: SuiteLog where
  "suiteThree =
     \<lparr>data = [(''late'', [(''predict'', sampleRun ''predict'' 32 2 5 30)]),
              (''none'', []),
              (''early'', [(''fit'', sampleRun ''fit'' 32 2 5 10), (''predict'', sampleRun ''predict'' 32 2 5 40)])],
      environmentInfo = PythonEnvironmentInfo ''py''\<rparr>"

definition sampleModel :: Model where
  "sampleModel = \<lparr>inputs = [[None, Some 4]], outputs = [[None, Some 2]]\<rparr>"

definition sampleContext :: Context where
  "sampleContext = \<lparr>ctxVersionSetId = ''v1'', tfjsEnvironmentId = ''envJS'', pyEnvironmentId = ''envPy''\<rparr>"

definition sampleWorld :: "SuiteLog \<Rightarrow> PredictResult \<Rightarrow> World" where
  "sampleWorld suiteLog predicted =
     \<lparr>userAgent = ''UA'',
      detectOS = (\<lambda>ua. Some ''linux''),
      detect = Some ''chrome'',
      tfVersion = ''1.0'',
      fetchSuiteLog = (\<lambda>h url. Some suiteLog),
      fetchModelJSON = (\<lambda>h path. Some ''topology''),
      modelFromJSON = (\<lambda>h topology. Some sampleModel),
      addEnvironmentInfoToFirestore =
        (\<lambda>h info. Some (case info of BrowserEnvironmentInfo ty ua \<Rightarrow> ''envJS''
                                        | PythonEnvironmentInfo py \<Rightarrow> ''envPy'')),
      addVersionSetToFirestore = (\<lambda>h versions. Some ''v1''),
      addOrGetTaskId = (\<lambda>h tType mName fName. Some (mName @ ''/'' @ fName)),
      addBenchmarkRunsToFirestore = (\<lambda>h runs. True),
      randomUniform = (\<lambda>h shape. True),
      predict = (\<lambda>h model xs. predicted),
      tensorData = (\<lambda>h t. True),
      compile = (\<lambda>h model l opt. True),
      fit = (\<lambda>h model xs ys epochs. True),
      now = (\<lambda>h. of_nat (length h * length h)),
      dateNow = (\<lambda>h. 1000 + int (length h))\<rparr>"

definition suiteFit :: SuiteLog where
  "suiteFit =
     \<lparr>data = [(''m'', [(''fit'', sampleRun ''fit'' 32 2 5 10)])],
      environmentInfo = PythonEnvironmentInfo ''py''\<rparr>"



definition suiteEmptyModel :: SuiteLog where
  "suiteEmptyModel =
     \<lparr>data = [(''m'', [])], environmentInfo = PythonEnvironmentInfo ''py''\<rparr>"

definition suiteOutOfRange :: SuiteLog where
  "suiteOutOfRange =
     \<lparr>data = [(''b'', [(''predict'', sampleRun ''predict'' 32 2 5 5)]),
              (''a'', [(''predict'', sampleRun ''predict'' 32 2 5 9000000000000000)]),
              (''c'', [(''predict'', sampleRun ''predict'' 32 2 5 1)])],
      environmentInfo = PythonEnvironmentInfo ''py''\<rparr>"

section \<open>Effects of the framework calls\<close>

lemma tensorNeutral_refl: "tensorNeutral st st"
  by (simp add: tensorNeutral_def)

lemma tensorNeutral_trans:
  "tensorNeutral st st1 \<Longrightarrow> tensorNeutral st1 st2 \<Longrightarrow> tensorNeutral st st2"
  by (auto simp: tensorNeutral_def)

lemma tensorNeutral_emit: "tensorNeutral st (emit e st)"
  by (simp add: tensorNeutral_def emit_def wellFormed_def)

lemma emit_fields [simp]:
  "trace (emit e st) = trace st @ [e]"
  "nextTensorId (emit e st) = nextTensorId st"
  "liveTensors (emit e st) = liveTensors st"
  by (simp_all add: emit_def)

lemma allocate_fields [simp]:
  "trace (allocate k st) = trace st"
  "nextTensorId (allocate k st) = nextTensorId st + k"
  "liveTensors (allocate k st) = liveTensors st @ [nextTensorId st ..< nextTensorId st + k]"
  by (simp_all add: allocate_def fresh_def)

lemma dispose_fields [simp]:
  "trace (dispose ts st) = trace st @ [Dispose ts]"
  "nextTensorId (dispose ts st) = nextTensorId st"
  "liveTensors (dispose ts st) = filter (\<lambda>t. t \<notin> set ts) (liveTensors st)"
  by (simp_all add: dispose_def)

lemma dataCall_Inr:
  "dataCall w t st = (Inr u, st') \<Longrightarrow> st' = emit (Data t) st"
  by (auto simp: dataCall_def split: if_splits)

lemma syncData_Inr:
  "syncData w ts st = (Inr u, st') \<Longrightarrow>
   trace st' = trace st @ map Data ts \<and> nextTensorId st' = nextTensorId st \<and>
   liveTensors st' = liveTensors st"
proof (induction ts arbitrary: st)
  case Nil
  then show ?case by simp
next
  case (Cons t ts)
  then show ?case
    by (auto split: prod.splits sum.splits dest!: dataCall_Inr)
qed

lemma syncDataAndDispose_Inr:
  assumes "syncDataAndDispose w out st = (Inr u, st')"
  shows "trace st' = trace st @ map Data (tensorList out) @ [Dispose (tensorList out)]"
    and "nextTensorId st' = nextTensorId st"
    and "liveTensors st' = filter (\<lambda>t. t \<notin> set (tensorList out)) (liveTensors st)"
  using assms
  by (auto simp: syncDataAndDispose_def split: prod.splits sum.splits Tensors.splits
           dest!: dataCall_Inr syncData_Inr)

lemma predictCall_Inr:
  assumes "predictCall w model xs st = (Inr out, st')"
  shows "trace st' = trace st @ [Predict xs]"
    and "\<exists>k. tensorList out = [nextTensorId st ..< nextTensorId st + k] \<and>
             nextTensorId st' = nextTensorId st + k \<and>
             liveTensors st' = liveTensors st @ [nextTensorId st ..< nextTensorId st + k]"
  using assms
  by (auto simp: predictCall_def Let_def fresh_def split: PredictResult.splits)

lemma filter_fresh:
  "\<forall>t \<in> set live. t < n \<Longrightarrow> filter (\<lambda>t. t \<notin> set [n ..< n + k]) (live @ [n ..< n + k]) = live"
  by (induction live) auto

lemma predictAndSync_Inr:
  assumes "predictAndSync w model xs st = (Inr u, st')"
  shows "\<exists>evs. trace st' = trace st @ Predict xs # evs \<and> filter isCallOrNow evs = [] \<and>
           filter isDatastoreEvent evs = []"
    and "tensorNeutral st st'"
proof -
  from assms obtain out st1 where
    p: "predictCall w model xs st = (Inr out, st1)" and
    s: "syncDataAndDispose w out st1 = (Inr u, st')"
    by (auto simp: predictAndSync_def split: prod.splits sum.splits)
  from predictCall_Inr[OF p] obtain k where
    t1: "trace st1 = trace st @ [Predict xs]" and
    out: "tensorList out = [nextTensorId st ..< nextTensorId st + k]" and
    n1: "nextTensorId st1 = nextTensorId st + k" and
    l1: "liveTensors st1 = liveTensors st @ [nextTensorId st ..< nextTensorId st + k]"
    by blast
  note s' = syncDataAndDispose_Inr[OF s]
  have "trace st' = trace st @ Predict xs # (map Data (tensorList out) @ [Dispose (tensorList out)])"
    using s'(1) t1 by simp
  moreover have "filter isCallOrNow (map Data (tensorList out) @ [Dispose (tensorList out)]) = []"
    by (simp add: filter_empty_conv)
  moreover have
    "filter isDatastoreEvent (map Data (tensorList out) @ [Dispose (tensorList out)]) = []"
    by (simp add: filter_empty_conv)
  ultimately show "\<exists>evs. trace st' = trace st @ Predict xs # evs \<and>
      filter isCallOrNow evs = [] \<and> filter isDatastoreEvent evs = []"
    by blast
  show "tensorNeutral st st'"
    unfolding tensorNeutral_def
  proof (intro conjI impI)
    show "nextTensorId st \<le> nextTensorId st'" using s'(2) n1 by simp
  next
    assume wf: "wellFormed st"
    then have "liveTensors st' = liveTensors st"
      using s'(3) out l1 filter_fresh[of "liveTensors st" "nextTensorId st" k]
      by (simp add: wellFormed_def)
    then show "liveTensors st' = liveTensors st" .
    with wf show "wellFormed st'" using s'(2) n1 by (auto simp: wellFormed_def)
  qed
qed

lemma predictAndSync_total:
  assumes "predictSucceeds w"
  shows "\<exists>st'. predictAndSync w model xs st = (Inr (), st')"
proof -
  have d: "syncData w ts s = (Inr (), s\<lparr>trace := trace s @ map Data ts\<rparr>)" for ts s
    using assms
    by (induction ts arbitrary: s) (auto simp: predictSucceeds_def dataCall_def emit_def)
  have "\<exists>st'. syncDataAndDispose w out s = (Inr (), st')" for out s
    using assms d
    by (cases out) (auto simp: syncDataAndDispose_def dataCall_def predictSucceeds_def)
  moreover have "\<exists>out st1. predictCall w model xs st = (Inr out, st1)"
    using assms
    by (cases "predict w (trace st) model xs")
       (auto simp: predictCall_def Let_def predictSucceeds_def)
  ultimately show ?thesis
    by (auto simp: predictAndSync_def)
qed

lemma warmUpPredict_Suc:
  "warmUpPredict w model xs (Suc n) st =
     (case predictAndSync w model xs st of
        (Inl e, st2) \<Rightarrow> (Inl e, st2)
      | (Inr u, st2) \<Rightarrow> warmUpPredict w model xs n st2)"
  by (simp add: predictAndSync_def split: prod.splits sum.splits)

lemma benchmarkedPredict_Suc:
  "benchmarkedPredict w model xs (Suc n) ts st =
     (case predictAndSync w model xs (emit Now st) of
        (Inl e, st3) \<Rightarrow> (Inl e, st3)
      | (Inr u, st3) \<Rightarrow>
          benchmarkedPredict w model xs n (ts @ [now w (trace st3) - now w (trace st)])
            (emit Now st3))"
  by (simp add: predictAndSync_def utilNow_def split: prod.splits sum.splits)

lemma warmUpPredict_Inr:
  "warmUpPredict w model xs n st = (Inr u, st') \<Longrightarrow>
   (\<exists>evs. trace st' = trace st @ evs \<and> filter isCallOrNow evs = replicate n (Predict xs) \<and>
          filter isDatastoreEvent evs = []) \<and>
   tensorNeutral st st'"
proof (induction n arbitrary: st)
  case 0
  then show ?case by (simp add: tensorNeutral_refl)
next
  case (Suc n)
  from Suc.prems obtain st2 where
    a: "predictAndSync w model xs st = (Inr (), st2)" and
    b: "warmUpPredict w model xs n st2 = (Inr u, st')"
    by (auto simp: warmUpPredict_Suc simp del: warmUpPredict.simps split: prod.splits sum.splits)
  from predictAndSync_Inr[OF a] obtain evs1 where
    e1: "trace st2 = trace st @ Predict xs # evs1" "filter isCallOrNow evs1 = []"
        "filter isDatastoreEvent evs1 = []"
    and n1: "tensorNeutral st st2" by blast
  from Suc.IH[OF b] obtain evs2 where
    e2: "trace st' = trace st2 @ evs2" "filter isCallOrNow evs2 = replicate n (Predict xs)"
        "filter isDatastoreEvent evs2 = []"
    and n2: "tensorNeutral st2 st'" by blast
  have "trace st' = trace st @ (Predict xs # evs1 @ evs2)" using e1 e2 by simp
  moreover have "filter isCallOrNow (Predict xs # evs1 @ evs2) = replicate (Suc n) (Predict xs)"
    using e1 e2 by simp
  moreover have "filter isDatastoreEvent (Predict xs # evs1 @ evs2) = []"
    using e1 e2 by simp
  ultimately show ?case using tensorNeutral_trans[OF n1 n2] by blast
qed

lemma warmUpPredict_total:
  assumes "predictSucceeds w"
  shows "\<exists>st'. warmUpPredict w model xs n st = (Inr (), st')"
proof (induction n arbitrary: st)
  case 0
  then show ?case by simp
next
  case (Suc n)
  from predictAndSync_total[OF assms] obtain st2 where
    "predictAndSync w model xs st = (Inr (), st2)" by blast
  with Suc.IH[of st2] show ?case
    by (simp add: warmUpPredict_Suc del: warmUpPredict.simps)
qed

lemma benchmarkedPredict_Inr:
  "benchmarkedPredict w model xs n ts0 st = (Inr ts', st') \<Longrightarrow>
   (\<exists>ts. ts' = ts0 @ ts \<and> length ts = n) \<and>
   (\<exists>evs. trace st' = trace st @ evs \<and>
          filter isCallOrNow evs = concat (replicate n [Now, Predict xs, Now]) \<and>
          filter isDatastoreEvent evs = []) \<and>
   tensorNeutral st st'"
proof (induction n arbitrary: st ts0)
  case 0
  then show ?case by (simp add: tensorNeutral_refl)
next
  case (Suc n)
  from Suc.prems obtain st3 where
    a: "predictAndSync w model xs (emit Now st) = (Inr (), st3)" and
    b: "benchmarkedPredict w model xs n (ts0 @ [now w (trace st3) - now w (trace st)])
          (emit Now st3) = (Inr ts', st')"
    by (auto simp: benchmarkedPredict_Suc simp del: benchmarkedPredict.simps
             split: prod.splits sum.splits)
  from predictAndSync_Inr[OF a] obtain evs1 where
    e1: "trace st3 = trace (emit Now st) @ Predict xs # evs1" "filter isCallOrNow evs1 = []"
        "filter isDatastoreEvent evs1 = []"
    and n1: "tensorNeutral (emit Now st) st3" by blast
  from Suc.IH[OF b] obtain ts evs2 where
    t2: "ts' = (ts0 @ [now w (trace st3) - now w (trace st)]) @ ts" "length ts = n" and
    e2: "trace st' = trace (emit Now st3) @ evs2"
        "filter isCallOrNow evs2 = concat (replicate n [Now, Predict xs, Now])"
        "filter isDatastoreEvent evs2 = []"
    and n2: "tensorNeutral (emit Now st3) st'" by blast
  have "ts' = ts0 @ ((now w (trace st3) - now w (trace st)) # ts) \<and>
        length ((now w (trace st3) - now w (trace st)) # ts) = Suc n"
    using t2 by simp
  moreover have "trace st' = trace st @ (Now # Predict xs # evs1 @ Now # evs2)"
    using e1 e2 by simp
  moreover have "filter isCallOrNow (Now # Predict xs # evs1 @ Now # evs2) =
                 concat (replicate (Suc n) [Now, Predict xs, Now])"
    using e1 e2 by simp
  moreover have "filter isDatastoreEvent (Now # Predict xs # evs1 @ Now # evs2) = []"
    using e1 e2 by simp
  moreover have "tensorNeutral st st'"
    using tensorNeutral_trans[OF tensorNeutral_emit
            tensorNeutral_trans[OF n1 tensorNeutral_trans[OF tensorNeutral_emit n2]]] .
  ultimately show ?case by blast
qed

lemma benchmarkedPredict_total:
  assumes "predictSucceeds w"
  shows "\<exists>ts' st'. benchmarkedPredict w model xs n ts0 st = (Inr ts', st')"
proof (induction n arbitrary: st ts0)
  case 0
  then show ?case by simp
next
  case (Suc n)
  from predictAndSync_total[OF assms] obtain st3 where
    "predictAndSync w model xs (emit Now st) = (Inr (), st3)" by blast
  with Suc.IH[of _ "emit Now st3"] show ?case
    by (simp add: benchmarkedPredict_Suc del: benchmarkedPredict.simps)
qed

section \<open>Tensor construction and the two benchmarks\<close>

lemma tensorList_unwrapSingle [simp]: "tensorList (unwrapSingle ts) = ts"
  by (cases ts) (auto simp: unwrapSingle_def)

lemma randomUniformCall_Inr:
  "randomUniformCall w shape st = (Inr t, st') \<Longrightarrow>
   t = nextTensorId st \<and> trace st' = trace st @ [RandomUniform shape] \<and>
   nextTensorId st' = Suc (nextTensorId st) \<and>
   liveTensors st' = liveTensors st @ [nextTensorId st]"
  by (auto simp: randomUniformCall_def Let_def split: if_splits)

lemma randomTensors_Inr:
  "randomTensors w b shapes st = (Inr ts, st') \<Longrightarrow>
   ts = [nextTensorId st ..< nextTensorId st + length shapes] \<and>
   trace st' = trace st @ randomShapes b shapes \<and>
   nextTensorId st' = nextTensorId st + length shapes \<and>
   liveTensors st' = liveTensors st @ ts"
proof (induction shapes arbitrary: st ts)
  case Nil
  then show ?case by (simp add: randomShapes_def)
next
  case (Cons shape rest)
  from Cons.prems obtain t st1 ts1 where
    a: "randomUniformCall w (Some b # drop 1 shape) st = (Inr t, st1)" and
    b: "randomTensors w b rest st1 = (Inr ts1, st')" and
    c: "ts = t # ts1"
    by (auto split: prod.splits sum.splits)
  have "[nextTensorId st ..< nextTensorId st + Suc (length rest)] =
        nextTensorId st # [Suc (nextTensorId st) ..< Suc (nextTensorId st) + length rest]"
    by (simp add: upt_conv_Cons del: upt_Suc)
  with randomUniformCall_Inr[OF a] Cons.IH[OF b] c show ?case
    by (simp add: randomShapes_def del: upt_Suc)
qed

lemma randomTensors_total:
  assumes "tensorsConstructible w"
  shows "\<exists>ts st'. randomTensors w b shapes st = (Inr ts, st')"
proof (induction shapes arbitrary: st)
  case Nil
  then show ?case by simp
next
  case (Cons shape rest)
  have "\<exists>t st1. randomUniformCall w (Some b # drop 1 shape) st = (Inr t, st1)"
    using assms by (simp add: randomUniformCall_def Let_def tensorsConstructible_def)
  then obtain t st1 where "randomUniformCall w (Some b # drop 1 shape) st = (Inr t, st1)"
    by blast
  with Cons.IH[of st1] show ?case by auto
qed

lemma getRandomInputsAndOutputs_Inr:
  assumes "getRandomInputsAndOutputs w model b st = (Inr (xs, ys), st')"
  shows "tensorList xs = [nextTensorId st ..< nextTensorId st + length (inputs model)]"
    and "tensorList ys = [nextTensorId st + length (inputs model) ..<
                          nextTensorId st + length (inputs model) + length (outputs model)]"
    and "trace st' = trace st @ randomShapes b (inputs model) @ randomShapes b (outputs model)"
    and "nextTensorId st' = nextTensorId st + length (inputs model) + length (outputs model)"
    and "liveTensors st' = liveTensors st @ tensorList xs @ tensorList ys"
    and "xs = unwrapSingle [nextTensorId st ..< nextTensorId st + length (inputs model)]"
    and "ys = unwrapSingle [nextTensorId st + length (inputs model) ..<
                            nextTensorId st + length (inputs model) + length (outputs model)]"
proof -
  from assms obtain xl st1 yl where
    a: "randomTensors w b (inputs model) st = (Inr xl, st1)" and
    b: "randomTensors w b (outputs model) st1 = (Inr yl, st')" and
    c: "xs = unwrapSingle xl" "ys = unwrapSingle yl"
    by (auto simp: getRandomInputsAndOutputs_def split: prod.splits sum.splits)
  note A = randomTensors_Inr[OF a] and B = randomTensors_Inr[OF b]
  show "tensorList xs = [nextTensorId st ..< nextTensorId st + length (inputs model)]"
    using A c by simp
  show "tensorList ys = [nextTensorId st + length (inputs model) ..<
                          nextTensorId st + length (inputs model) + length (outputs model)]"
    using A B c by simp
  show "trace st' = trace st @ randomShapes b (inputs model) @ randomShapes b (outputs model)"
    using A B by simp
  show "nextTensorId st' = nextTensorId st + length (inputs model) + length (outputs model)"
    using A B by simp
  show "liveTensors st' = liveTensors st @ tensorList xs @ tensorList ys"
    using A B c by simp
  show "xs = unwrapSingle [nextTensorId st ..< nextTensorId st + length (inputs model)]"
    using A c by simp
  show "ys = unwrapSingle [nextTensorId st + length (inputs model) ..<
                            nextTensorId st + length (inputs model) + length (outputs model)]"
    using A B c by simp
qed

lemma getRandomInputsAndOutputs_total:
  assumes "tensorsConstructible w"
  shows "\<exists>xs ys st'. getRandomInputsAndOutputs w model b st = (Inr (xs, ys), st')"
proof -
  from randomTensors_total[OF assms] obtain xl st1 where
    a: "randomTensors w b (inputs model) st = (Inr xl, st1)" by blast
  from randomTensors_total[OF assms] obtain yl st2 where
    "randomTensors w b (outputs model) st1 = (Inr yl, st2)" by blast
  with a show ?thesis by (simp add: getRandomInputsAndOutputs_def)
qed

lemma filter_isCallOrNow_randomShapes [simp]: "filter isCallOrNow (randomShapes b shapes) = []"
  by (simp add: randomShapes_def filter_empty_conv)

lemma filter_isDatastoreEvent_randomShapes [simp]:
  "filter isDatastoreEvent (randomShapes b shapes) = []"
  by (simp add: randomShapes_def filter_empty_conv)


lemma mean_Inr:
  "mean ts = Inr avg \<Longrightarrow> ts \<noteq> [] \<and> avg = Finite (sum_list ts / of_nat (length ts))"
  by (auto simp: mean_def split: if_splits)

lemma benchmarkPredict_Inr:
  assumes "benchmarkPredict w ctx model tId mName fName pyRun xs st = (Inr r, st')"
  shows "\<exists>run ts. r = Some run \<and> timesMs run = Some ts \<and>
           length ts = numBenchmarkedIterations pyRun \<and>
           averageTimeMs run = Finite (sum_list ts / of_nat (length ts)) \<and>
           taskId run = Some tId \<and> environmentId run = Some (tfjsEnvironmentId ctx)"
    and "\<exists>evs. trace st' = trace st @ evs \<and>
           filter isCallOrNow evs =
             replicate (numWarmUpIterations pyRun) (Predict xs) @
             concat (replicate (numBenchmarkedIterations pyRun) [Now, Predict xs, Now]) \<and>
           filter isDatastoreEvent evs = []"
    and "tensorNeutral st st'"
proof -
  from assms obtain st1 ts avg where
    a: "warmUpPredict w model xs (numWarmUpIterations pyRun) st = (Inr (), st1)" and
    b: "benchmarkedPredict w model xs (numBenchmarkedIterations pyRun) [] st1 = (Inr ts, st')" and
    c: "mean ts = Inr avg" and
    r: "r = Some \<lparr>taskId = Some tId, taskType = taskTypeModel, modelName = mName,
                  functionName = fName, batchSize = batchSize pyRun,
                  versionSetId = Some (ctxVersionSetId ctx),
                  environmentId = Some (tfjsEnvironmentId ctx),
                  numWarmUpIterations = numWarmUpIterations pyRun,
                  numBenchmarkedIterations = numBenchmarkedIterations pyRun,
                  timesMs = Some ts, averageTimeMs = avg,
                  endingTimestampMs = dateNow w (trace st'), loss = None, optimizer = None\<rparr>"
    by (auto simp: benchmarkPredict_def split: prod.splits sum.splits)
  note A = warmUpPredict_Inr[OF a] and B = benchmarkedPredict_Inr[OF b]
  from B have len: "length ts = numBenchmarkedIterations pyRun" by auto
  show "\<exists>run ts. r = Some run \<and> timesMs run = Some ts \<and>
           length ts = numBenchmarkedIterations pyRun \<and>
           averageTimeMs run = Finite (sum_list ts / of_nat (length ts)) \<and>
           taskId run = Some tId \<and> environmentId run = Some (tfjsEnvironmentId ctx)"
    using r len mean_Inr[OF c] by simp
  from A obtain evs1 where
    e1: "trace st1 = trace st @ evs1"
        "filter isCallOrNow evs1 = replicate (numWarmUpIterations pyRun) (Predict xs)"
        "filter isDatastoreEvent evs1 = []"
    by blast
  from B obtain evs2 where
    e2: "trace st' = trace st1 @ evs2"
        "filter isCallOrNow evs2 =
           concat (replicate (numBenchmarkedIterations pyRun) [Now, Predict xs, Now])"
        "filter isDatastoreEvent evs2 = []"
    by blast
  have "trace st' = trace st @ (evs1 @ evs2)" using e1 e2 by simp
  moreover have "filter isCallOrNow (evs1 @ evs2) =
      replicate (numWarmUpIterations pyRun) (Predict xs) @
      concat (replicate (numBenchmarkedIterations pyRun) [Now, Predict xs, Now])"
    using e1 e2 by simp
  moreover have "filter isDatastoreEvent (evs1 @ evs2) = []"
    using e1 e2 by simp
  ultimately show "\<exists>evs. trace st' = trace st @ evs \<and>
           filter isCallOrNow evs =
             replicate (numWarmUpIterations pyRun) (Predict xs) @
             concat (replicate (numBenchmarkedIterations pyRun) [Now, Predict xs, Now]) \<and>
           filter isDatastoreEvent evs = []"
    by blast
  show "tensorNeutral st st'"
    using A B tensorNeutral_trans by blast
qed

lemma benchmarkPredict_loops:
  assumes "predictSucceeds w"
  shows "\<exists>st1 ts st2.
           warmUpPredict w model xs (numWarmUpIterations pyRun) st = (Inr (), st1) \<and>
           benchmarkedPredict w model xs (numBenchmarkedIterations pyRun) [] st1 = (Inr ts, st2) \<and>
           length ts = numBenchmarkedIterations pyRun \<and>
           snd (benchmarkPredict w ctx model tId mName fName pyRun xs st) = st2 \<and>
           (ts \<noteq> [] \<longrightarrow> (\<exists>run. fst (benchmarkPredict w ctx model tId mName fName pyRun xs st) =
                                  Inr (Some run))) \<and>
           (ts = [] \<longrightarrow> fst (benchmarkPredict w ctx model tId mName fName pyRun xs st) =
                          Inl MeanOfEmptyArray)"
proof -
  from warmUpPredict_total[OF assms] obtain st1 where
    a: "warmUpPredict w model xs (numWarmUpIterations pyRun) st = (Inr (), st1)" by blast
  from benchmarkedPredict_total[OF assms] obtain ts st2 where
    b: "benchmarkedPredict w model xs (numBenchmarkedIterations pyRun) [] st1 = (Inr ts, st2)"
    by blast
  from benchmarkedPredict_Inr[OF b] have "length ts = numBenchmarkedIterations pyRun" by auto
  with a b show ?thesis
    by (auto simp: benchmarkPredict_def mean_def)
qed

lemma benchmarkPredict_trace:
  assumes "predictSucceeds w"
  shows "\<exists>evs. trace (snd (benchmarkPredict w ctx model tId mName fName pyRun xs st)) =
                 trace st @ evs \<and>
           filter isCallOrNow evs =
             replicate (numWarmUpIterations pyRun) (Predict xs) @
             concat (replicate (numBenchmarkedIterations pyRun) [Now, Predict xs, Now]) \<and>
           filter isDatastoreEvent evs = []"
proof -
  from benchmarkPredict_loops[OF assms, of model xs pyRun st ctx tId mName fName]
  obtain st1 ts st2 where
    a: "warmUpPredict w model xs (numWarmUpIterations pyRun) st = (Inr (), st1)" and
    b: "benchmarkedPredict w model xs (numBenchmarkedIterations pyRun) [] st1 = (Inr ts, st2)" and
    c: "snd (benchmarkPredict w ctx model tId mName fName pyRun xs st) = st2"
    by blast
  from warmUpPredict_Inr[OF a] obtain evs1 where
    e1: "trace st1 = trace st @ evs1"
        "filter isCallOrNow evs1 = replicate (numWarmUpIterations pyRun) (Predict xs)"
        "filter isDatastoreEvent evs1 = []"
    by blast
  from benchmarkedPredict_Inr[OF b] obtain evs2 where
    e2: "trace st2 = trace st1 @ evs2"
        "filter isCallOrNow evs2 =
           concat (replicate (numBenchmarkedIterations pyRun) [Now, Predict xs, Now])"
        "filter isDatastoreEvent evs2 = []"
    by blast
  have "trace st2 = trace st @ (evs1 @ evs2)" using e1 e2 by simp
  moreover have "filter isCallOrNow (evs1 @ evs2) =
      replicate (numWarmUpIterations pyRun) (Predict xs) @
      concat (replicate (numBenchmarkedIterations pyRun) [Now, Predict xs, Now])"
    using e1 e2 by simp
  moreover have "filter isDatastoreEvent (evs1 @ evs2) = []"
    using e1 e2 by simp
  ultimately show ?thesis using c by blast
qed

lemma benchmarkFit_Inr:
  assumes "benchmarkFit w ctx model tId mName fName pyRun xs ys st = (Inr r, st')"
  shows "trace st' = trace st @ fitEvents pyRun xs ys"
    and "nextTensorId st' = nextTensorId st"
    and "liveTensors st' = liveTensors st"
    and "\<exists>run. r = Some run \<and> timesMs run = None \<and>
           averageTimeMs run =
             numberDivide (now w (trace st @ take 4 (fitEvents pyRun xs ys)) -
                           now w (trace st @ take 2 (fitEvents pyRun xs ys)))
               (of_nat (numBenchmarkedIterations pyRun)) \<and>
           taskId run = Some tId \<and> environmentId run = Some (tfjsEnvironmentId ctx)"
  using assms
  by (auto simp: benchmarkFit_def compileCall_def fitCall_def utilNow_def fitEvents_def
           split: prod.splits sum.splits if_splits)

lemma benchmarkFit_total:
  assumes "fitSucceeds w"
  shows "\<exists>run st'. benchmarkFit w ctx model tId mName fName pyRun xs ys st = (Inr (Some run), st')"
  using assms
  by (simp add: benchmarkFit_def compileCall_def fitCall_def utilNow_def fitSucceeds_def)

section \<open>The structure of one pair\<close>

lemma isInteger_iff: "isInteger q = (q \<in> \<int>)"
  by (auto simp: isInteger_def Ints_def intro: sym)

lemma checkBatchSize_Inr: "(checkBatchSize b = Inr u) = validBatchSize b"
  by (simp add: checkBatchSize_def validBatchSize_def isInteger_iff)

lemma checkBatchSize_Inl:
  "(checkBatchSize b = Inl e) = (\<not> validBatchSize b \<and> e = BatchSizeError b)"
  by (auto simp: checkBatchSize_def validBatchSize_def isInteger_iff)

lemma benchmarkPair_unfold:
  "benchmarkPair w ctx mName model fName pyRun st =
     (case addOrGetTaskId w (trace st) taskTypeModel mName fName of
        None \<Rightarrow> (Inl (Rejected ''addOrGetTaskId''),
                 emit (AddOrGetTaskId taskTypeModel mName fName) st)
      | Some tId \<Rightarrow>
          if \<not> validBatchSize (batchSize pyRun)
          then (Inl (BatchSizeError (batchSize pyRun)),
                emit (AddOrGetTaskId taskTypeModel mName fName) st)
          else (case getRandomInputsAndOutputs w model (batchSize pyRun)
                       (emit (AddOrGetTaskId taskTypeModel mName fName) st) of
                  (Inl e, st2) \<Rightarrow> (Inl e, st2)
                | (Inr (xs, ys), st2) \<Rightarrow>
                    (case benchmarkTask w ctx model tId mName fName pyRun xs ys st2 of
                       (Inl e, st3) \<Rightarrow> (Inl e, st3)
                     | (Inr tfjsRun, st3) \<Rightarrow>
                         (Inr (tfjsRun,
                               pyRun\<lparr>taskId := Some tId,
                                     environmentId := Some (pyEnvironmentId ctx)\<rparr>),
                          dispose (tensorList xs @ tensorList ys) st3))))"
proof (cases "checkBatchSize (batchSize pyRun)")
  case (Inl e)
  then have "\<not> validBatchSize (batchSize pyRun)" "e = BatchSizeError (batchSize pyRun)"
    by (simp_all add: checkBatchSize_Inl)
  then show ?thesis
    by (simp add: benchmarkPair_def addOrGetTaskIdCall_def Inl split: option.splits)
next
  case (Inr u)
  then have "validBatchSize (batchSize pyRun)" by (simp add: checkBatchSize_Inr)
  then show ?thesis
    unfolding benchmarkPair_def addOrGetTaskIdCall_def benchmarkTask_def
    by (simp add: Inr split: option.splits)
qed

lemma skipTask_eq: "skipTask mName fName st = (Inr None, emit (skipWarning mName fName) st)"
  by (simp add: skipTask_def skipWarning_def)

lemma benchmarkTask_Inr:
  assumes "benchmarkTask w ctx model tId mName fName pyRun xs ys st = (Inr r, st')"
  shows "tensorNeutral st st'"
    and "\<exists>evs. trace st' = trace st @ evs \<and> filter isDatastoreEvent evs = []"
proof -
  consider (p) "fName = ''predict''" | (f) "fName \<noteq> ''predict''" "fName = ''fit''"
    | (s) "fName \<noteq> ''predict''" "fName \<noteq> ''fit''" by blast
  then have "tensorNeutral st st' \<and>
             (\<exists>evs. trace st' = trace st @ evs \<and> filter isDatastoreEvent evs = [])"
  proof cases
    case p
    with assms have "benchmarkPredict w ctx model tId mName fName pyRun xs st = (Inr r, st')"
      by (simp add: benchmarkTask_def)
    from benchmarkPredict_Inr(2,3)[OF this] show ?thesis by blast
  next
    case f
    with assms have "benchmarkFit w ctx model tId mName fName pyRun xs ys st = (Inr r, st')"
      by (simp add: benchmarkTask_def)
    note F = benchmarkFit_Inr[OF this]
    have "tensorNeutral st st'"
      using F(2,3) by (simp add: tensorNeutral_def wellFormed_def)
    moreover have "filter isDatastoreEvent (fitEvents pyRun xs ys) = []"
      by (simp add: fitEvents_def)
    ultimately show ?thesis using F(1) by blast
  next
    case s
    with assms have "st' = emit (skipWarning mName fName) st"
      by (simp add: benchmarkTask_def skipTask_eq)
    then show ?thesis
      by (simp add: tensorNeutral_emit skipWarning_def)
  qed
  then show "tensorNeutral st st'"
    and "\<exists>evs. trace st' = trace st @ evs \<and> filter isDatastoreEvent evs = []"
    by blast+
qed

lemma benchmarkPair_Inr:
  assumes "benchmarkPair w ctx mName model fName pyRun st = (Inr (tfjsRun, pyRun'), st')"
  shows "\<exists>tId xs ys st2 st3.
           addOrGetTaskId w (trace st) taskTypeModel mName fName = Some tId \<and>
           validBatchSize (batchSize pyRun) \<and>
           getRandomInputsAndOutputs w model (batchSize pyRun)
             (emit (AddOrGetTaskId taskTypeModel mName fName) st) = (Inr (xs, ys), st2) \<and>
           benchmarkTask w ctx model tId mName fName pyRun xs ys st2 = (Inr tfjsRun, st3) \<and>
           pyRun' = pyRun\<lparr>taskId := Some tId, environmentId := Some (pyEnvironmentId ctx)\<rparr> \<and>
           st' = dispose (tensorList xs @ tensorList ys) st3"
  using assms unfolding benchmarkPair_unfold
  by (auto split: option.splits if_splits prod.splits sum.splits)

lemma benchmarkPair_Inr_state:
  assumes "benchmarkPair w ctx mName model fName pyRun st = (Inr (tfjsRun, pyRun'), st')"
  shows "tensorNeutral st st'"
    and "\<exists>evs. trace st' = trace st @ AddOrGetTaskId taskTypeModel mName fName # evs @
                  [Dispose (inputsAndOutputs model st)] \<and>
               filter isDatastoreEvent evs = []"
proof -
  from benchmarkPair_Inr[OF assms] obtain tId xs ys st2 st3 where
    g: "getRandomInputsAndOutputs w model (batchSize pyRun)
          (emit (AddOrGetTaskId taskTypeModel mName fName) st) = (Inr (xs, ys), st2)" and
    t: "benchmarkTask w ctx model tId mName fName pyRun xs ys st2 = (Inr tfjsRun, st3)" and
    d: "st' = dispose (tensorList xs @ tensorList ys) st3"
    by blast
  note G = getRandomInputsAndOutputs_Inr[OF g] and T = benchmarkTask_Inr[OF t]
  have io: "tensorList xs @ tensorList ys = inputsAndOutputs model st"
    using G(1,2) by (simp add: inputsAndOutputs_def upt_add_eq_append[symmetric] del: upt_Suc)
  from T(2) obtain evs where
    e: "trace st3 = trace st2 @ evs" "filter isDatastoreEvent evs = []" by blast
  have "trace st' = trace st @ AddOrGetTaskId taskTypeModel mName fName #
          (randomShapes (batchSize pyRun) (inputs model) @
           randomShapes (batchSize pyRun) (outputs model) @ evs) @
          [Dispose (inputsAndOutputs model st)]"
    using d e G(3) io by simp
  moreover have "filter isDatastoreEvent
          (randomShapes (batchSize pyRun) (inputs model) @
           randomShapes (batchSize pyRun) (outputs model) @ evs) = []"
    using e by simp
  ultimately show "\<exists>evs. trace st' = trace st @ AddOrGetTaskId taskTypeModel mName fName # evs @
                  [Dispose (inputsAndOutputs model st)] \<and>
               filter isDatastoreEvent evs = []"
    by blast
  show "tensorNeutral st st'"
    unfolding tensorNeutral_def
  proof (intro conjI impI)
    have "nextTensorId st \<le> nextTensorId st2" using G(4) by simp
    moreover have "nextTensorId st2 \<le> nextTensorId st3" using T(1) by (simp add: tensorNeutral_def)
    ultimately show "nextTensorId st \<le> nextTensorId st'" using d by simp
  next
    assume wf: "wellFormed st"
    have l2: "liveTensors st2 = liveTensors st @ inputsAndOutputs model st"
      using G(5) io by simp
    have wf2: "wellFormed st2"
      using wf l2 G(4) by (auto simp: wellFormed_def inputsAndOutputs_def)
    with T(1) have l3: "liveTensors st3 = liveTensors st2" and wf3: "wellFormed st3"
      by (simp_all add: tensorNeutral_def)
    have "liveTensors st' = liveTensors st"
      using d l3 l2 io wf
        filter_fresh[of "liveTensors st" "nextTensorId st"
                        "length (inputs model) + length (outputs model)"]
      by (simp add: inputsAndOutputs_def wellFormed_def add.assoc)
    then show "liveTensors st' = liveTensors st" .
    have "nextTensorId st \<le> nextTensorId st'"
      using G(4) T(1) d by (simp add: tensorNeutral_def)
    with wf \<open>liveTensors st' = liveTensors st\<close> show "wellFormed st'"
      by (auto simp: wellFormed_def)
  qed
qed

section \<open>The loops over functions and models\<close>


lemma taskIdRequests_simps [simp]:
  "taskIdRequests [] = []"
  "taskIdRequests ((mName, fName, pyRun) # ps) =
     AddOrGetTaskId taskTypeModel mName fName # taskIdRequests ps"
  "taskIdRequests (ps @ qs) = taskIdRequests ps @ taskIdRequests qs"
  by (simp_all add: taskIdRequests_def)

lemma benchmarkPair_Inr_runs:
  assumes "benchmarkPair w ctx mName model fName pyRun st = (Inr (tfjsRun, pyRun'), st')"
  shows "persistedForm w (pyEnvironmentId ctx) (mName, fName, pyRun) pyRun'"
    and "measuredForm (mName, fName, pyRun) tfjsRun"
proof -
  from benchmarkPair_Inr[OF assms] obtain tId xs ys st2 st3 where
    t: "addOrGetTaskId w (trace st) taskTypeModel mName fName = Some tId" and
    b: "benchmarkTask w ctx model tId mName fName pyRun xs ys st2 = (Inr tfjsRun, st3)" and
    p: "pyRun' = pyRun\<lparr>taskId := Some tId, environmentId := Some (pyEnvironmentId ctx)\<rparr>"
    by blast
  from t p show "persistedForm w (pyEnvironmentId ctx) (mName, fName, pyRun) pyRun'"
    unfolding persistedForm_def by auto
  consider (p) "fName = ''predict''" | (f) "fName \<noteq> ''predict''" "fName = ''fit''"
    | (s) "fName \<noteq> ''predict''" "fName \<noteq> ''fit''" by blast
  then show "measuredForm (mName, fName, pyRun) tfjsRun"
  proof cases
    case p
    with b have "benchmarkPredict w ctx model tId mName fName pyRun xs st2 = (Inr tfjsRun, st3)"
      by (simp add: benchmarkTask_def)
    from benchmarkPredict_Inr(1)[OF this] p show ?thesis
      by (auto simp: measuredForm_def)
  next
    case f
    with b have "benchmarkFit w ctx model tId mName fName pyRun xs ys st2 = (Inr tfjsRun, st3)"
      by (simp add: benchmarkTask_def)
    from benchmarkFit_Inr(4)[OF this] f show ?thesis
      by (auto simp: measuredForm_def)
  next
    case s
    with b show ?thesis
      by (simp add: benchmarkTask_def skipTask_eq measuredForm_def)
  qed
qed

lemma benchmarkFunctions_Inr:
  "benchmarkFunctions w ctx mName model tgl (py0, tf0) st = (Inr (py, tf), st') \<Longrightarrow>
   (\<exists>new. py = py0 @ new \<and>
          list_all2 (persistedForm w (pyEnvironmentId ctx)) (pairsOfModel mName tgl) new) \<and>
   (\<exists>new. tf = tf0 @ new \<and> list_all2 measuredForm (pairsOfModel mName tgl) new) \<and>
   tensorNeutral st st' \<and>
   (\<exists>evs. trace st' = trace st @ evs \<and>
          filter isDatastoreEvent evs = taskIdRequests (pairsOfModel mName tgl))"
proof (induction tgl arbitrary: py0 tf0 st)
  case Nil
  then show ?case by (simp add: pairsOfModel_def tensorNeutral_refl)
next
  case (Cons entry rest)
  obtain fName pyRun where entry: "entry = (fName, pyRun)" by (cases entry)
  from Cons.prems entry obtain tfjsRun pyRun' st1 where
    a: "benchmarkPair w ctx mName model fName pyRun st = (Inr (tfjsRun, pyRun'), st1)" and
    b: "benchmarkFunctions w ctx mName model rest (py0 @ [pyRun'], tf0 @ [tfjsRun]) st1 =
          (Inr (py, tf), st')"
    by (auto split: prod.splits sum.splits)
  note R = benchmarkPair_Inr_runs[OF a] and S = benchmarkPair_Inr_state[OF a]
  from Cons.IH[OF b] obtain newP newT evs2 where
    ih: "py = (py0 @ [pyRun']) @ newP"
        "list_all2 (persistedForm w (pyEnvironmentId ctx)) (pairsOfModel mName rest) newP"
        "tf = (tf0 @ [tfjsRun]) @ newT"
        "list_all2 measuredForm (pairsOfModel mName rest) newT"
        "tensorNeutral st1 st'"
        "trace st' = trace st1 @ evs2"
        "filter isDatastoreEvent evs2 = taskIdRequests (pairsOfModel mName rest)"
    by blast
  from S(2) obtain evs1 where
    e1: "trace st1 = trace st @ AddOrGetTaskId taskTypeModel mName fName # evs1 @
           [Dispose (inputsAndOutputs model st)]"
        "filter isDatastoreEvent evs1 = []"
    by blast
  have pm: "pairsOfModel mName (entry # rest) = (mName, fName, pyRun) # pairsOfModel mName rest"
    by (simp add: pairsOfModel_def entry)
  have "py = py0 @ (pyRun' # newP) \<and>
        list_all2 (persistedForm w (pyEnvironmentId ctx)) (pairsOfModel mName (entry # rest))
          (pyRun' # newP)"
    using ih(1,2) R(1) pm by simp
  moreover have "tf = tf0 @ (tfjsRun # newT) \<and>
        list_all2 measuredForm (pairsOfModel mName (entry # rest)) (tfjsRun # newT)"
    using ih(3,4) R(2) pm by simp
  moreover have "tensorNeutral st st'"
    using tensorNeutral_trans[OF S(1) ih(5)] .
  moreover have "trace st' = trace st @
        (AddOrGetTaskId taskTypeModel mName fName # evs1 @
           [Dispose (inputsAndOutputs model st)] @ evs2) \<and>
      filter isDatastoreEvent
        (AddOrGetTaskId taskTypeModel mName fName # evs1 @
           [Dispose (inputsAndOutputs model st)] @ evs2) =
      taskIdRequests (pairsOfModel mName (entry # rest))"
    using e1 ih(6,7) pm by simp
  ultimately show ?case by blast
qed

lemma loadModel_Inr:
  assumes "loadModel w mName st = (Inr model, st')"
  shows "\<exists>evs. trace st' = trace st @ evs \<and> filter isDatastoreEvent evs = []"
    and "nextTensorId st' = nextTensorId st"
    and "liveTensors st' = liveTensors st"
  using assms
  by (auto simp: loadModel_def Let_def split: option.splits)

lemma benchmarkSortedModels_Inr:
  "benchmarkSortedModels w ctx suiteLog names (py0, tf0) st = (Inr (py, tf), st') \<Longrightarrow>
   (\<exists>new. py = py0 @ new \<and>
          list_all2 (persistedForm w (pyEnvironmentId ctx)) (pairsInOrder suiteLog names) new) \<and>
   (\<exists>new. tf = tf0 @ new \<and> list_all2 measuredForm (pairsInOrder suiteLog names) new) \<and>
   tensorNeutral st st' \<and>
   (\<exists>evs. trace st' = trace st @ evs \<and>
          filter isDatastoreEvent evs = taskIdRequests (pairsInOrder suiteLog names))"
proof (induction names arbitrary: py0 tf0 st)
  case Nil
  then show ?case by (simp add: tensorNeutral_refl)
next
  case (Cons mName rest)
  from Cons.prems obtain model st1 tgl py1 tf1 st2 where
    l: "loadModel w mName st = (Inr model, st1)" and
    m: "map_of (data suiteLog) mName = Some tgl" and
    f: "benchmarkFunctions w ctx mName model tgl (py0, tf0) st1 = (Inr (py1, tf1), st2)" and
    r: "benchmarkSortedModels w ctx suiteLog rest (py1, tf1) st2 = (Inr (py, tf), st')"
    by (auto split: prod.splits sum.splits option.splits if_splits)
  note L = loadModel_Inr[OF l]
  from L(1) obtain evs0 where
    e0: "trace st1 = trace st @ evs0" "filter isDatastoreEvent evs0 = []" by blast
  have n0: "tensorNeutral st st1"
    using L(2,3) by (simp add: tensorNeutral_def wellFormed_def)
  from benchmarkFunctions_Inr[OF f] obtain newP1 newT1 evs1 where
    f1: "py1 = py0 @ newP1"
        "list_all2 (persistedForm w (pyEnvironmentId ctx)) (pairsOfModel mName tgl) newP1"
        "tf1 = tf0 @ newT1"
        "list_all2 measuredForm (pairsOfModel mName tgl) newT1"
        "tensorNeutral st1 st2"
        "trace st2 = trace st1 @ evs1"
        "filter isDatastoreEvent evs1 = taskIdRequests (pairsOfModel mName tgl)"
    by blast
  from Cons.IH[OF r] obtain newP2 newT2 evs2 where
    f2: "py = py1 @ newP2"
        "list_all2 (persistedForm w (pyEnvironmentId ctx)) (pairsInOrder suiteLog rest) newP2"
        "tf = tf1 @ newT2"
        "list_all2 measuredForm (pairsInOrder suiteLog rest) newT2"
        "tensorNeutral st2 st'"
        "trace st' = trace st2 @ evs2"
        "filter isDatastoreEvent evs2 = taskIdRequests (pairsInOrder suiteLog rest)"
    by blast
  have po: "pairsInOrder suiteLog (mName # rest) =
              pairsOfModel mName tgl @ pairsInOrder suiteLog rest"
    using m by simp
  have "py = py0 @ (newP1 @ newP2) \<and>
        list_all2 (persistedForm w (pyEnvironmentId ctx)) (pairsInOrder suiteLog (mName # rest))
          (newP1 @ newP2)"
    using f1(1,2) f2(1,2) po by (simp add: list_all2_appendI)
  moreover have "tf = tf0 @ (newT1 @ newT2) \<and>
        list_all2 measuredForm (pairsInOrder suiteLog (mName # rest)) (newT1 @ newT2)"
    using f1(3,4) f2(3,4) po by (simp add: list_all2_appendI)
  moreover have "tensorNeutral st st'"
    using tensorNeutral_trans[OF n0 tensorNeutral_trans[OF f1(5) f2(5)]] .
  moreover have "trace st' = trace st @ (evs0 @ evs1 @ evs2) \<and>
      filter isDatastoreEvent (evs0 @ evs1 @ evs2) =
        taskIdRequests (pairsInOrder suiteLog (mName # rest))"
    using e0 f1(6,7) f2(6,7) po by simp
  ultimately show ?case by blast
qed

section \<open>Tensors that stay live when the benchmark fails\<close>

lemma keepsLive_refl: "keepsLive st st"
  by (simp add: keepsLive_def)

lemma keepsLive_trans: "keepsLive st st1 \<Longrightarrow> keepsLive st1 st2 \<Longrightarrow> keepsLive st st2"
  by (auto simp: keepsLive_def)

lemma keepsLive_emit: "keepsLive st (emit e st)"
  by (simp add: keepsLive_def wellFormed_def)

lemma tensorNeutral_keepsLive: "tensorNeutral st st' \<Longrightarrow> keepsLive st st'"
  by (auto simp: tensorNeutral_def keepsLive_def)

lemma dataCall_tensors:
  "nextTensorId (snd (dataCall w t st)) = nextTensorId st \<and>
   liveTensors (snd (dataCall w t st)) = liveTensors st"
  by (simp add: dataCall_def)

lemma syncData_tensors:
  "nextTensorId (snd (syncData w ts st)) = nextTensorId st \<and>
   liveTensors (snd (syncData w ts st)) = liveTensors st"
proof (induction ts arbitrary: st)
  case Nil
  then show ?case by simp
next
  case (Cons t ts)
  show ?case
  proof (cases "dataCall w t st")
    case (Pair r st1)
    with dataCall_tensors[of w t st] have
      s1: "nextTensorId st1 = nextTensorId st" "liveTensors st1 = liveTensors st" by simp_all
    show ?thesis
    proof (cases r)
      case (Inl e)
      with Pair s1 show ?thesis by simp
    next
      case (Inr u)
      with Pair s1 Cons.IH[of st1] show ?thesis by simp
    qed
  qed
qed

lemma syncDataAndDispose_Inl:
  assumes "syncDataAndDispose w out st = (Inl e, st')"
  shows "nextTensorId st' = nextTensorId st" and "liveTensors st' = liveTensors st"
proof -
  have "nextTensorId st' = nextTensorId st \<and> liveTensors st' = liveTensors st"
  proof (cases out)
    case (Single t)
    with assms have "st' = snd (dataCall w t st)"
      by (auto simp: syncDataAndDispose_def split: prod.splits sum.splits)
    with dataCall_tensors[of w t st] show ?thesis by simp
  next
    case (Many ts)
    with assms have "st' = snd (syncData w ts st)"
      by (auto simp: syncDataAndDispose_def split: prod.splits sum.splits)
    with syncData_tensors[of w ts st] show ?thesis by simp
  qed
  then show "nextTensorId st' = nextTensorId st" and "liveTensors st' = liveTensors st"
    by simp_all
qed

lemma predictAndSync_keepsLive:
  "keepsLive st (snd (predictAndSync w model xs st))"
proof (cases "predictAndSync w model xs st")
  case (Pair r st')
  show ?thesis
  proof (cases r)
    case (Inr u)
    with Pair predictAndSync_Inr(2)[of w model xs st u st'] show ?thesis
      by (simp add: tensorNeutral_keepsLive)
  next
    case (Inl e)
    show ?thesis
    proof (cases "predictCall w model xs st")
      case p: (Pair r1 st1)
      show ?thesis
      proof (cases r1)
        case l: (Inl e1)
        with p have s1: "st1 = emit (Predict xs) st"
          by (auto simp: predictCall_def Let_def split: PredictResult.splits)
        from p l Pair have "st' = st1"
          by (simp add: predictAndSync_def)
        with s1 Pair show ?thesis
          by (simp add: keepsLive_emit)
      next
        case r: (Inr out)
        from predictCall_Inr(2)[of w model xs st out st1] p r obtain k where
          n1: "nextTensorId st1 = nextTensorId st + k" and
          l1: "liveTensors st1 = liveTensors st @ [nextTensorId st ..< nextTensorId st + k]"
          by auto
        from p r Pair Inl have "syncDataAndDispose w out st1 = (Inl e, st')"
          by (simp add: predictAndSync_def)
        from syncDataAndDispose_Inl[OF this] n1 l1 have
          "nextTensorId st' = nextTensorId st + k"
          "liveTensors st' = liveTensors st @ [nextTensorId st ..< nextTensorId st + k]"
          by simp_all
        then have "keepsLive st st'"
          by (auto simp: keepsLive_def wellFormed_def)
        with Pair show ?thesis by simp
      qed
    qed
  qed
qed

lemma warmUpPredict_keepsLive:
  "keepsLive st (snd (warmUpPredict w model xs n st))"
proof (induction n arbitrary: st)
  case 0
  then show ?case by (simp add: keepsLive_refl)
next
  case (Suc n)
  show ?case
  proof (cases "predictAndSync w model xs st")
    case (Pair r st2)
    with predictAndSync_keepsLive[of st w model xs] have k: "keepsLive st st2" by simp
    show ?thesis
    proof (cases r)
      case (Inl e)
      with Pair k show ?thesis by (simp add: warmUpPredict_Suc del: warmUpPredict.simps)
    next
      case (Inr u)
      with Pair keepsLive_trans[OF k Suc.IH[of st2]] show ?thesis
        by (simp add: warmUpPredict_Suc del: warmUpPredict.simps)
    qed
  qed
qed

lemma benchmarkedPredict_keepsLive:
  "keepsLive st (snd (benchmarkedPredict w model xs n ts st))"
proof (induction n arbitrary: st ts)
  case 0
  then show ?case by (simp add: keepsLive_refl)
next
  case (Suc n)
  show ?case
  proof (cases "predictAndSync w model xs (emit Now st)")
    case (Pair r st3)
    with predictAndSync_keepsLive[of "emit Now st" w model xs]
    have k: "keepsLive st st3"
      using keepsLive_trans[OF keepsLive_emit] by simp
    show ?thesis
    proof (cases r)
      case (Inl e)
      with Pair k show ?thesis
        by (simp add: benchmarkedPredict_Suc del: benchmarkedPredict.simps)
    next
      case (Inr u)
      have "keepsLive st3
              (snd (benchmarkedPredict w model xs n
                      (ts @ [now w (trace st3) - now w (trace st)]) (emit Now st3)))"
        using keepsLive_trans[OF keepsLive_emit Suc.IH] .
      with Pair Inr keepsLive_trans[OF k] show ?thesis
        by (simp add: benchmarkedPredict_Suc del: benchmarkedPredict.simps)
    qed
  qed
qed

lemma benchmarkPredict_keepsLive:
  "keepsLive st (snd (benchmarkPredict w ctx model tId mName fName pyRun xs st))"
proof (cases "warmUpPredict w model xs (numWarmUpIterations pyRun) st")
  case (Pair r st1)
  with warmUpPredict_keepsLive[of st w model xs "numWarmUpIterations pyRun"]
  have k1: "keepsLive st st1" by simp
  show ?thesis
  proof (cases r)
    case (Inl e)
    with Pair k1 show ?thesis by (simp add: benchmarkPredict_def)
  next
    case (Inr u)
    show ?thesis
    proof (cases "benchmarkedPredict w model xs (numBenchmarkedIterations pyRun) [] st1")
      case b: (Pair r2 st2)
      with benchmarkedPredict_keepsLive[of st1 w model xs "numBenchmarkedIterations pyRun" "[]"]
      have "keepsLive st st2" using keepsLive_trans[OF k1] by simp
      with Pair Inr b show ?thesis
        by (simp add: benchmarkPredict_def split: sum.splits)
    qed
  qed
qed

lemma benchmarkFit_keepsLive:
  "keepsLive st (snd (benchmarkFit w ctx model tId mName fName pyRun xs ys st))"
  by (simp add: benchmarkFit_def compileCall_def fitCall_def utilNow_def keepsLive_def
        wellFormed_def split: prod.splits sum.splits)

lemma benchmarkTask_keepsLive:
  "keepsLive st (snd (benchmarkTask w ctx model tId mName fName pyRun xs ys st))"
  by (simp add: benchmarkTask_def benchmarkPredict_keepsLive benchmarkFit_keepsLive skipTask_eq
        keepsLive_emit)

lemma randomUniformCall_Inl:
  "randomUniformCall w shape st = (Inl e, st') \<Longrightarrow> e = Rejected ''randomUniform''"
  by (auto simp: randomUniformCall_def Let_def split: if_splits)

lemma randomTensors_Inl:
  "randomTensors w b shapes st = (Inl e, st') \<Longrightarrow> e = Rejected ''randomUniform''"
proof (induction shapes arbitrary: st)
  case Nil
  then show ?case by simp
next
  case (Cons shape rest)
  then show ?case
    by (auto split: prod.splits sum.splits dest: randomUniformCall_Inl)
qed

lemma getRandomInputsAndOutputs_Inl:
  "getRandomInputsAndOutputs w model b st = (Inl e, st') \<Longrightarrow> e = Rejected ''randomUniform''"
  by (auto simp: getRandomInputsAndOutputs_def split: prod.splits sum.splits
           dest: randomTensors_Inl)

lemma benchmarkPair_Inl_leak:
  assumes "benchmarkPair w ctx mName model fName pyRun st = (Inl e, st')"
    "\<not> raisedBeforeBenchmark e" "wellFormed st"
  shows "set (inputsAndOutputs model st) \<subseteq> set (liveTensors st')"
proof (cases "addOrGetTaskId w (trace st) taskTypeModel mName fName")
  case None
  with assms(1,2) show ?thesis unfolding benchmarkPair_unfold by auto
next
  case (Some tId)
  let ?st1 = "emit (AddOrGetTaskId taskTypeModel mName fName) st"
  show ?thesis
  proof (cases "validBatchSize (batchSize pyRun)")
    case False
    with Some assms(1,2) show ?thesis unfolding benchmarkPair_unfold by auto
  next
    case True
    show ?thesis
    proof (cases "getRandomInputsAndOutputs w model (batchSize pyRun) ?st1")
      case (Pair r st2)
      show ?thesis
      proof (cases r)
        case (Inl e2)
        with Pair getRandomInputsAndOutputs_Inl[of w model "batchSize pyRun" ?st1 e2 st2]
        have "e2 = Rejected ''randomUniform''" by simp
        with Some True Pair Inl assms(1,2) show ?thesis
          unfolding benchmarkPair_unfold by auto
      next
        case (Inr p)
        obtain xs ys where p: "p = (xs, ys)" by (cases p)
        from Pair Inr p have
          g: "getRandomInputsAndOutputs w model (batchSize pyRun) ?st1 = (Inr (xs, ys), st2)"
          by simp
        note G = getRandomInputsAndOutputs_Inr[OF g]
        have io: "tensorList xs @ tensorList ys = inputsAndOutputs model st"
          using G(1,2)
          by (simp add: inputsAndOutputs_def upt_add_eq_append[symmetric] del: upt_Suc)
        have l2: "liveTensors st2 = liveTensors st @ inputsAndOutputs model st"
          using G(5) io by simp
        have wf2: "wellFormed st2"
          using assms(3) l2 G(4) by (auto simp: wellFormed_def inputsAndOutputs_def)
        let ?t = "benchmarkTask w ctx model tId mName fName pyRun xs ys st2"
        from Some True g assms(1) have "snd ?t = st'"
          unfolding benchmarkPair_unfold by (auto split: prod.splits sum.splits)
        with benchmarkTask_keepsLive[of st2 w ctx model tId mName fName pyRun xs ys] wf2
        have "set (liveTensors st2) \<subseteq> set (liveTensors st')"
          by (simp add: keepsLive_def)
        with l2 show ?thesis by auto
      qed
    qed
  qed
qed

section \<open>Chronological ordering of the models\<close>

lemma mset_countAndMakeRun:
  "countAndMakeRun comparefn xs = (run, rest) \<Longrightarrow> mset run + mset rest = mset xs"
proof -
  have t: "mset (take n ys) + mset (drop n ys) = mset ys" for n and ys :: "'a list"
    by (metis append_take_drop_id mset_append)
  assume "countAndMakeRun comparefn xs = (run, rest)"
  then show ?thesis
    using t by (auto simp: countAndMakeRun_def Let_def split: list.splits if_splits)
qed

lemma mset_binaryInsertionSort:
  "mset (binaryInsertionSort comparefn sortedPart rest) = mset sortedPart + mset rest"
proof (induction rest arbitrary: sortedPart)
  case Nil
  then show ?case by simp
next
  case (Cons pivot rest)
  have "mset (take n sortedPart @ pivot # drop n sortedPart) = add_mset pivot (mset sortedPart)"
    for n
    by (metis append_take_drop_id mset_append mset.simps(2) union_mset_add_mset_right)
  with Cons show ?case by (simp add: Let_def)
qed

lemma mset_arraySort: "mset (arraySort comparefn xs) = mset xs"
proof (cases "countAndMakeRun comparefn xs")
  case (Pair run rest)
  with mset_countAndMakeRun[OF Pair] show ?thesis
    by (simp add: arraySort_def mset_binaryInsertionSort)
qed







lemma names_of_modelNamesAndTimestamps:
  "map fst (modelNamesAndTimestamps d) = map fst (filter (\<lambda>(m, tgl). tgl \<noteq> []) d)"
  by (induction d rule: modelNamesAndTimestamps.induct) simp_all

lemma fst_set_modelNamesAndTimestamps:
  "(m, t) \<in> set (modelNamesAndTimestamps d) \<Longrightarrow> m \<in> fst ` set d"
proof -
  assume "(m, t) \<in> set (modelNamesAndTimestamps d)"
  then have "m \<in> set (map fst (modelNamesAndTimestamps d))" by force
  then show ?thesis unfolding names_of_modelNamesAndTimestamps by auto
qed

lemma timestamp_of_modelNamesAndTimestamps:
  "distinct (map fst d) \<Longrightarrow> (m, t) \<in> set (modelNamesAndTimestamps d) \<Longrightarrow>
   (\<exists>f0 run others. map_of d m = Some ((f0, run) # others) \<and>
      t = dateGetTime (endingTimestampMs run))"
proof (induction d rule: modelNamesAndTimestamps.induct)
  case 1
  then show ?case by simp
next
  case (2 mName rest)
  then show ?case
    using fst_set_modelNamesAndTimestamps[of m t rest] by auto
next
  case (3 mName f0 run others rest)
  then show ?case
    using fst_set_modelNamesAndTimestamps[of m t rest] by auto
qed

lemma set_getChronologicalModelNames:
  "set (getChronologicalModelNames s) = fst ` set (modelNamesAndTimestamps (data s))"
proof -
  have "set (arraySort (\<lambda>x y. numberMinus (snd x) (snd y)) (modelNamesAndTimestamps (data s))) =
        set (modelNamesAndTimestamps (data s))"
    by (metis mset_arraySort set_mset_mset)
  then show ?thesis by (simp add: getChronologicalModelNames_def)
qed




lemma out_of_range_timestamp_order:
  "\<not> timestampsInDateRange suiteOutOfRange \<and>
   getChronologicalModelNames suiteOutOfRange = [''b'', ''a'', ''c'']"
  by (simp add: timestampsInDateRange_def timeValue_def getChronologicalModelNames_def
        suiteOutOfRange_def sampleRun_def dateGetTime_def arraySort_def countAndMakeRun_def
        sortCompare_def)



section \<open>Batch-size validation\<close>

lemma benchmarkPair_invalid:
  assumes "\<not> validBatchSize (batchSize pyRun)"
  shows "snd (benchmarkPair w ctx mName model fName pyRun st) =
           emit (AddOrGetTaskId taskTypeModel mName fName) st"
    and "\<exists>e. fst (benchmarkPair w ctx mName model fName pyRun st) = Inl e"
    and "addOrGetTaskId w (trace st) taskTypeModel mName fName \<noteq> None \<Longrightarrow>
         fst (benchmarkPair w ctx mName model fName pyRun st) =
           Inl (BatchSizeError (batchSize pyRun))"
  using assms unfolding benchmarkPair_unfold
  by (auto split: option.splits)

text \<open>
  Claim C3. The batch-size validation raises its validation error exactly when the batch
  size is not a positive integer. When the batch size of a pair is invalid, processing the
  pair ends in an error, and the state it leaves is the state before the pair with the
  task-identifier request as only new event: no tensor has been constructed (no
  \<open>RandomUniform\<close> event, same tensor counter, same live tensors).
\<close>

theorem checkBatchSize_rejects_before_allocation:
  "(checkBatchSize b = Inl (BatchSizeError b)) = (\<not> (b \<in> \<int> \<and> 0 < b)) \<and>
   (checkBatchSize b = Inr ()) = (b \<in> \<int> \<and> 0 < b) \<and>
   (\<not> (batchSize pyRun \<in> \<int> \<and> 0 < batchSize pyRun) \<longrightarrow>
      (\<exists>e. fst (benchmarkPair w ctx mName model fName pyRun st) = Inl e) \<and>
      (addOrGetTaskId w (trace st) taskTypeModel mName fName \<noteq> None \<longrightarrow>
         fst (benchmarkPair w ctx mName model fName pyRun st) =
           Inl (BatchSizeError (batchSize pyRun))) \<and>
      trace (snd (benchmarkPair w ctx mName model fName pyRun st)) =
        trace st @ [AddOrGetTaskId taskTypeModel mName fName] \<and>
      nextTensorId (snd (benchmarkPair w ctx mName model fName pyRun st)) = nextTensorId st \<and>
      liveTensors (snd (benchmarkPair w ctx mName model fName pyRun st)) = liveTensors st)"
proof (intro conjI impI)
  show "(checkBatchSize b = Inl (BatchSizeError b)) = (\<not> (b \<in> \<int> \<and> 0 < b))"
    by (simp add: checkBatchSize_Inl validBatchSize_def)
  show "(checkBatchSize b = Inr ()) = (b \<in> \<int> \<and> 0 < b)"
    by (simp add: checkBatchSize_Inr validBatchSize_def)
next
  assume "\<not> (batchSize pyRun \<in> \<int> \<and> 0 < batchSize pyRun)"
  then have inv: "\<not> validBatchSize (batchSize pyRun)" by (simp add: validBatchSize_def)
  note I = benchmarkPair_invalid[OF inv, where w = w and ctx = ctx and mName = mName and
      model = model and fName = fName and st = st]
  show "\<exists>e. fst (benchmarkPair w ctx mName model fName pyRun st) = Inl e" by (rule I(2))
  show "fst (benchmarkPair w ctx mName model fName pyRun st) =
          Inl (BatchSizeError (batchSize pyRun))"
    if "addOrGetTaskId w (trace st) taskTypeModel mName fName \<noteq> None"
    using I(3) that by simp
  show "trace (snd (benchmarkPair w ctx mName model fName pyRun st)) =
        trace st @ [AddOrGetTaskId taskTypeModel mName fName]"
    by (simp add: I(1))
  show "nextTensorId (snd (benchmarkPair w ctx mName model fName pyRun st)) = nextTensorId st"
    by (simp add: I(1))
  show "liveTensors (snd (benchmarkPair w ctx mName model fName pyRun st)) = liveTensors st"
    by (simp add: I(1))
qed

lemma not_integer_five_halves: "\<not> ((5 / 2 :: rat) \<in> \<int>)"
proof
  assume "(5 / 2 :: rat) \<in> \<int>"
  then obtain k :: int where "(5 / 2 :: rat) = of_int k" by (rule Ints_cases)
  then have "(of_int (2 * k) :: rat) = of_int 5" by simp
  then have "2 * k = 5" by (simp only: of_int_eq_iff)
  then show False by presburger
qed

theorem checkBatchSize_rejects_before_allocation_witness:
  "\<not> (batchSize (sampleRun ''predict'' (5 / 2) 2 5 0) \<in> \<int> \<and> 0 < batchSize (sampleRun ''predict'' (5 / 2) 2 5 0)) \<and>
   checkBatchSize (5 / 2) = Inl (BatchSizeError (5 / 2)) \<and>
   fst (benchmarkPair (sampleWorld suiteThree ReturnsTensor) sampleContext ''m'' sampleModel
          ''predict'' (sampleRun ''predict'' (5 / 2) 2 5 0) initialState) = Inl (BatchSizeError (5 / 2)) \<and>
   trace (snd (benchmarkPair (sampleWorld suiteThree ReturnsTensor) sampleContext ''m''
                 sampleModel ''predict'' (sampleRun ''predict'' (5 / 2) 2 5 0) initialState)) =
     [AddOrGetTaskId taskTypeModel ''m'' ''predict''] \<and>
   liveTensors (snd (benchmarkPair (sampleWorld suiteThree ReturnsTensor) sampleContext ''m''
                 sampleModel ''predict'' (sampleRun ''predict'' (5 / 2) 2 5 0) initialState)) = []"
  using checkBatchSize_rejects_before_allocation
          [of "5 / 2" "sampleRun ''predict'' (5 / 2) 2 5 0" "sampleWorld suiteThree ReturnsTensor"
              sampleContext "''m''" sampleModel "''predict''" initialState]
        not_integer_five_halves
  by (simp add: sampleRun_def sampleWorld_def initialState_def)

section \<open>The predict benchmark\<close>

lemma clockReadings_append:
  "clockReadings w h (evs1 @ evs2) = clockReadings w h evs1 @ clockReadings w (h @ evs1) evs2"
  by (induction evs1 arbitrary: h) simp_all

lemma clockReadings_no_reading:
  "Now \<notin> set evs \<Longrightarrow> clockReadings w h evs = []"
  by (induction evs arbitrary: h) auto

lemma no_reading_filter:
  "filter isCallOrNow evs = replicate n (Predict xs) \<Longrightarrow> Now \<notin> set evs"
proof
  assume a: "filter isCallOrNow evs = replicate n (Predict xs)" and b: "Now \<in> set evs"
  from b have "Now \<in> set (filter isCallOrNow evs)" by simp
  then have "Now \<in> set (replicate n (Predict xs))" unfolding a .
  then show False by auto
qed

lemma no_reading_filter_empty:
  "filter isCallOrNow evs = [] \<Longrightarrow> Now \<notin> set evs"
  using no_reading_filter[of evs 0] by simp

lemma benchmarkedPredict_timings:
  "benchmarkedPredict w model xs n ts0 st = (Inr ts', st') \<Longrightarrow>
   \<exists>evs. trace st' = trace st @ evs \<and>
         ts' = ts0 @ elapsedTimes (clockReadings w (trace st) evs)"
proof (induction n arbitrary: st ts0)
  case 0
  then show ?case by simp
next
  case (Suc n)
  from Suc.prems obtain st3 where
    a: "predictAndSync w model xs (emit Now st) = (Inr (), st3)" and
    b: "benchmarkedPredict w model xs n (ts0 @ [now w (trace st3) - now w (trace st)])
          (emit Now st3) = (Inr ts', st')"
    by (auto simp: benchmarkedPredict_Suc simp del: benchmarkedPredict.simps
             split: prod.splits sum.splits)
  from predictAndSync_Inr(1)[OF a] obtain evs1 where
    e1: "trace st3 = trace st @ Now # Predict xs # evs1" "filter isCallOrNow evs1 = []"
    by auto
  from Suc.IH[OF b] obtain evs2 where
    e2: "trace st' = trace st3 @ Now # evs2"
        "ts' = (ts0 @ [now w (trace st3) - now w (trace st)]) @
               elapsedTimes (clockReadings w (trace st3 @ [Now]) evs2)"
    by auto
  have n1: "Now \<notin> set (Predict xs # evs1)"
    using no_reading_filter_empty[OF e1(2)] by simp
  have "clockReadings w (trace st) ([Now] @ (Predict xs # evs1) @ [Now] @ evs2) =
        clockReadings w (trace st) [Now] @
        clockReadings w (trace st @ [Now]) (Predict xs # evs1) @
        clockReadings w (trace st @ [Now] @ (Predict xs # evs1)) [Now] @
        clockReadings w (trace st @ [Now] @ (Predict xs # evs1) @ [Now]) evs2"
    by (simp only: clockReadings_append append_assoc)
  also have "\<dots> = [now w (trace st)] @ [] @ [now w (trace st3)] @
                   clockReadings w (trace st3 @ [Now]) evs2"
    using e1(1) by (simp add: clockReadings_no_reading[OF n1] del: clockReadings.simps(2))
                   simp
  finally have "clockReadings w (trace st) (Now # (Predict xs # evs1) @ Now # evs2) =
        now w (trace st) # now w (trace st3) # clockReadings w (trace st3 @ [Now]) evs2"
    by simp
  then have "ts' = ts0 @ elapsedTimes (clockReadings w (trace st)
                                        (Now # (Predict xs # evs1) @ Now # evs2))"
    using e2(2) by simp
  moreover have "trace st' = trace st @ (Now # (Predict xs # evs1) @ Now # evs2)"
    using e1(1) e2(1) by simp
  ultimately show ?case by blast
qed

lemma taskIdsAvailableD:
  "taskIdsAvailable w \<Longrightarrow> \<exists>tId. addOrGetTaskId w h tType mName fName = Some tId"
  unfolding taskIdsAvailable_def by (metis not_Some_eq)

lemma benchmarkPair_predict_total:
  assumes "validBatchSize (batchSize pyRun)" "taskIdsAvailable w" "tensorsConstructible w"
    "predictSucceeds w"
  shows "\<exists>evs. trace (snd (benchmarkPair w ctx mName model ''predict'' pyRun st)) =
                 trace st @ evs \<and>
               filter isCallOrNow evs = predictCalls pyRun (inputTensors model st)"
    and "0 < numBenchmarkedIterations pyRun \<Longrightarrow>
         \<exists>run pyRun' st'. benchmarkPair w ctx mName model ''predict'' pyRun st =
                            (Inr (Some run, pyRun'), st')"
    and "numBenchmarkedIterations pyRun = 0 \<Longrightarrow>
         fst (benchmarkPair w ctx mName model ''predict'' pyRun st) = Inl MeanOfEmptyArray"
proof -
  let ?st1 = "emit (AddOrGetTaskId taskTypeModel mName ''predict'') st"
  from taskIdsAvailableD[OF assms(2)] obtain tId where
    t: "addOrGetTaskId w (trace st) taskTypeModel mName ''predict'' = Some tId"
    by blast
  from getRandomInputsAndOutputs_total[OF assms(3)] obtain xs ys st2 where
    g: "getRandomInputsAndOutputs w model (batchSize pyRun) ?st1 = (Inr (xs, ys), st2)"
    by blast
  note G = getRandomInputsAndOutputs_Inr[OF g]
  have xs: "xs = inputTensors model st" using G(6) by (simp add: inputTensors_def)
  let ?b = "benchmarkPredict w ctx model tId mName ''predict'' pyRun xs st2"
  have pair: "benchmarkPair w ctx mName model ''predict'' pyRun st =
      (case ?b of
         (Inl e, st3) \<Rightarrow> (Inl e, st3)
       | (Inr tfjsRun, st3) \<Rightarrow>
           (Inr (tfjsRun, pyRun\<lparr>taskId := Some tId,
                                environmentId := Some (pyEnvironmentId ctx)\<rparr>),
            dispose (tensorList xs @ tensorList ys) st3))"
    unfolding benchmarkPair_unfold using t g assms(1) by (simp add: benchmarkTask_def)
  from benchmarkPredict_trace[OF assms(4), of ctx model tId mName "''predict''" pyRun xs st2]
  obtain evs where
    e: "trace (snd ?b) = trace st2 @ evs" "filter isCallOrNow evs = predictCalls pyRun xs"
    by (auto simp: predictCalls_def)
  let ?pre = "AddOrGetTaskId taskTypeModel mName ''predict'' #
              randomShapes (batchSize pyRun) (inputs model) @
              randomShapes (batchSize pyRun) (outputs model)"
  have t2: "trace st2 = trace st @ ?pre" using G(3) by simp
  show "\<exists>evs. trace (snd (benchmarkPair w ctx mName model ''predict'' pyRun st)) =
                 trace st @ evs \<and>
               filter isCallOrNow evs = predictCalls pyRun (inputTensors model st)"
  proof (cases ?b)
    case (Pair r st3)
    show ?thesis
    proof (cases r)
      case (Inl err)
      with Pair pair e t2 have
        "trace (snd (benchmarkPair w ctx mName model ''predict'' pyRun st)) =
           trace st @ (?pre @ evs)" by simp
      moreover have "filter isCallOrNow (?pre @ evs) = predictCalls pyRun (inputTensors model st)"
        using e xs by simp
      ultimately show ?thesis by blast
    next
      case (Inr tfjsRun)
      with Pair pair e t2 have
        "trace (snd (benchmarkPair w ctx mName model ''predict'' pyRun st)) =
           trace st @ (?pre @ evs @ [Dispose (tensorList xs @ tensorList ys)])" by simp
      moreover have "filter isCallOrNow (?pre @ evs @ [Dispose (tensorList xs @ tensorList ys)]) =
                     predictCalls pyRun (inputTensors model st)"
        using e xs by simp
      ultimately show ?thesis by blast
    qed
  qed
  show "\<exists>run pyRun' st'. benchmarkPair w ctx mName model ''predict'' pyRun st =
                            (Inr (Some run, pyRun'), st')"
    if "0 < numBenchmarkedIterations pyRun"
  proof -
    from benchmarkPredict_loops[OF assms(4), of model xs pyRun st2 ctx tId mName "''predict''"]
      that
    obtain run where "fst ?b = Inr (Some run)" by auto
    then obtain st3 where "?b = (Inr (Some run), st3)" by (cases ?b) auto
    with pair show ?thesis by simp
  qed
  show "fst (benchmarkPair w ctx mName model ''predict'' pyRun st) = Inl MeanOfEmptyArray"
    if "numBenchmarkedIterations pyRun = 0"
  proof -
    from benchmarkPredict_loops[OF assms(4), of model xs pyRun st2 ctx tId mName "''predict''"]
      that
    have "fst ?b = Inl MeanOfEmptyArray" by auto
    then obtain st3 where "?b = (Inl MeanOfEmptyArray, st3)" by (cases ?b) auto
    with pair show ?thesis by simp
  qed
qed

lemma benchmarkPredict_timings:
  assumes "benchmarkPredict w ctx model tId mName fName pyRun xs st = (Inr r, st')"
  shows "\<exists>run ts evs. r = Some run \<and> timesMs run = Some ts \<and> ts \<noteq> [] \<and>
           trace st' = trace st @ evs \<and>
           ts = elapsedTimes (clockReadings w (trace st) evs)"
proof -
  from assms obtain st1 ts avg run where
    a: "warmUpPredict w model xs (numWarmUpIterations pyRun) st = (Inr (), st1)" and
    b: "benchmarkedPredict w model xs (numBenchmarkedIterations pyRun) [] st1 = (Inr ts, st')" and
    c: "mean ts = Inr avg" and
    r: "r = Some run" "timesMs run = Some ts"
    by (auto simp: benchmarkPredict_def split: prod.splits sum.splits)
  from warmUpPredict_Inr[OF a] obtain evs1 where
    e1: "trace st1 = trace st @ evs1"
        "filter isCallOrNow evs1 = replicate (numWarmUpIterations pyRun) (Predict xs)"
    by blast
  from benchmarkedPredict_timings[OF b] obtain evs2 where
    e2: "trace st' = trace st1 @ evs2"
        "ts = elapsedTimes (clockReadings w (trace st1) evs2)"
    by auto
  have "clockReadings w (trace st) (evs1 @ evs2) = clockReadings w (trace st1) evs2"
    using e1(1) clockReadings_no_reading[OF no_reading_filter[OF e1(2)]]
    by (simp add: clockReadings_append)
  with e2 have "ts = elapsedTimes (clockReadings w (trace st) (evs1 @ evs2))" by simp
  moreover have "trace st' = trace st @ (evs1 @ evs2)" using e1(1) e2(1) by simp
  moreover have "ts \<noteq> []" using mean_Inr[OF c] by simp
  ultimately show ?thesis using r by blast
qed

lemma no_reading_randomShapes: "Now \<notin> set (randomShapes b shapes)"
  by (auto simp: randomShapes_def)

lemma benchmarkPair_predict_timings:
  assumes "benchmarkPair w ctx mName model ''predict'' pyRun st = (Inr (tfjsRun, pyRun'), st')"
  shows "\<exists>run ts evs. tfjsRun = Some run \<and> timesMs run = Some ts \<and>
           trace st' = trace st @ evs \<and>
           filter isCallOrNow evs = predictCalls pyRun (inputTensors model st) \<and>
           ts = elapsedTimes (clockReadings w (trace st) evs) \<and>
           length ts = numBenchmarkedIterations pyRun \<and>
           0 < numBenchmarkedIterations pyRun \<and>
           averageTimeMs run = Finite (sum_list ts / of_nat (length ts))"
proof -
  let ?st1 = "emit (AddOrGetTaskId taskTypeModel mName ''predict'') st"
  from benchmarkPair_Inr[OF assms] obtain tId xs ys st2 st3 where
    g: "getRandomInputsAndOutputs w model (batchSize pyRun) ?st1 = (Inr (xs, ys), st2)" and
    t: "benchmarkTask w ctx model tId mName ''predict'' pyRun xs ys st2 = (Inr tfjsRun, st3)" and
    d: "st' = dispose (tensorList xs @ tensorList ys) st3"
    by blast
  note G = getRandomInputsAndOutputs_Inr[OF g]
  have xs: "xs = inputTensors model st" using G(6) by (simp add: inputTensors_def)
  from t have p: "benchmarkPredict w ctx model tId mName ''predict'' pyRun xs st2 =
                    (Inr tfjsRun, st3)"
    by (simp add: benchmarkTask_def)
  from benchmarkPredict_Inr(1)[OF p] obtain run ts where
    r: "tfjsRun = Some run" "timesMs run = Some ts"
       "length ts = numBenchmarkedIterations pyRun"
       "averageTimeMs run = Finite (sum_list ts / of_nat (length ts))"
    by blast
  from benchmarkPredict_Inr(2)[OF p] obtain evsA where
    ea: "trace st3 = trace st2 @ evsA"
        "filter isCallOrNow evsA =
           replicate (numWarmUpIterations pyRun) (Predict xs) @
           concat (replicate (numBenchmarkedIterations pyRun) [Now, Predict xs, Now])"
    by blast
  from benchmarkPredict_timings[OF p] r obtain evsB where
    eb: "trace st3 = trace st2 @ evsB" "ts \<noteq> []"
        "ts = elapsedTimes (clockReadings w (trace st2) evsB)"
    by auto
  from ea(1) eb(1) have same: "evsB = evsA" by simp
  let ?pre = "AddOrGetTaskId taskTypeModel mName ''predict'' #
              randomShapes (batchSize pyRun) (inputs model) @
              randomShapes (batchSize pyRun) (outputs model)"
  let ?evs = "?pre @ evsA @ [Dispose (tensorList xs @ tensorList ys)]"
  have t2: "trace st2 = trace st @ ?pre" using G(3) by simp
  have tr: "trace st' = trace st @ ?evs" using d ea(1) t2 by simp
  have pre: "Now \<notin> set ?pre" by (simp add: no_reading_randomShapes)
  have "clockReadings w (trace st) ?evs =
        clockReadings w (trace st) ?pre @ clockReadings w (trace st @ ?pre) evsA @
        clockReadings w (trace st @ ?pre @ evsA) [Dispose (tensorList xs @ tensorList ys)]"
    by (simp only: clockReadings_append append_assoc)
  also have "\<dots> = clockReadings w (trace st2) evsA"
    using t2 by (simp add: clockReadings_no_reading[OF pre] del: clockReadings.simps(2)) simp
  finally have cr: "ts = elapsedTimes (clockReadings w (trace st) ?evs)"
    using eb(3) same by simp
  have fl: "filter isCallOrNow ?evs = predictCalls pyRun (inputTensors model st)"
    using ea(2) xs by (simp add: predictCalls_def)
  have pos: "0 < numBenchmarkedIterations pyRun"
    using r(3)[symmetric] eb(2) by simp
  show ?thesis
    by (rule exI[of _ run], rule exI[of _ ts], rule exI[of _ ?evs])
       (use r tr fl cr pos in simp)
qed


lemmas predict_eval_defs =
  benchmarkPair_def addOrGetTaskIdCall_def checkBatchSize_def isInteger_def
  getRandomInputsAndOutputs_def randomUniformCall_def unwrapSingle_def
  benchmarkPredict_def predictCall_def syncDataAndDispose_def dataCall_def mean_def
  utilNow_def emit_def allocate_def fresh_def dispose_def
  taskTypeModel_def initialState_def sampleWorld_def sampleModel_def sampleRun_def
  sampleContext_def eval_nat_numeral

lemma sample_predict_pair:
  "benchmarkPair (sampleWorld suiteThree ReturnsTensor) sampleContext ''m'' sampleModel
     ''predict'' (sampleRun ''predict'' 32 1 2 0) initialState =
   (Inr (Some \<lparr>taskId = Some ''m/predict'', taskType = ''model'', modelName = ''m'',
                functionName = ''predict'', batchSize = 32, versionSetId = Some ''v1'',
                environmentId = Some ''envJS'', numWarmUpIterations = 1,
                numBenchmarkedIterations = 2, timesMs = Some [64, 104],
                averageTimeMs = Finite 84, endingTimestampMs = 1016,
                loss = None, optimizer = None\<rparr>,
         \<lparr>taskId = Some ''m/predict'', taskType = ''model'', modelName = ''m'',
           functionName = ''predict'', batchSize = 32, versionSetId = None,
           environmentId = Some ''envPy'', numWarmUpIterations = 1,
           numBenchmarkedIterations = 2, timesMs = None,
           averageTimeMs = Finite (51 / 5), endingTimestampMs = 0,
           loss = Some ''mean_squared_error'', optimizer = Some ''AdamOptimizer''\<rparr>),
    \<lparr>trace = [AddOrGetTaskId ''model'' ''m'' ''predict'',
              RandomUniform [Some 32, Some 4], RandomUniform [Some 32, Some 2],
              Predict (Single 0), Data 2, Dispose [2],
              Now, Predict (Single 0), Data 3, Dispose [3], Now,
              Now, Predict (Single 0), Data 4, Dispose [4], Now,
              Dispose [0, 1]],
     nextTensorId = 5,
     liveTensors = []\<rparr>)"
  by (simp add: predict_eval_defs)

text \<open>
  Claim C4 fails when \<open>numBenchmarkedIterations\<close> is 0. Here the batch size is valid and
  every call of the framework succeeds: the two warm-up calls are made, no timed call is
  made, and the mean of the empty list of timings raises an error, so the pair ends without
  a run record.
\<close>

theorem predict_without_timed_iterations_raises:
  "benchmarkPair (sampleWorld suiteThree ReturnsTensor) sampleContext ''m'' sampleModel
     ''predict'' (sampleRun ''predict'' 32 2 0 0) initialState =
   (Inl MeanOfEmptyArray,
    \<lparr>trace = [AddOrGetTaskId ''model'' ''m'' ''predict'',
              RandomUniform [Some 32, Some 4], RandomUniform [Some 32, Some 2],
              Predict (Single 0), Data 2, Dispose [2],
              Predict (Single 0), Data 3, Dispose [3]],
     nextTensorId = 4,
     liveTensors = [0, 1]\<rparr>)"
  by (simp add: predict_eval_defs)

text \<open>
  Claim C4, amended. For a pair whose function name is \<open>predict\<close> and whose batch size is
  valid, with a framework whose calls succeed: among the calls to the model and the readings
  of the clock, the pair makes \<open>numWarmUpIterations\<close> calls of \<open>predict\<close> with no clock
  reading around them, then \<open>numBenchmarkedIterations\<close> calls each between two clock
  readings, and nothing else; when \<open>numBenchmarkedIterations\<close> is positive a run record
  results, and when it is 0 the pair ends in the error of the mean of an empty list.
  Every run record that results from such a pair, in any world, comes with these calls and
  readings; its \<open>timesMs\<close> list holds, in order, the difference of the two clock readings
  around each timed call; the list has length \<open>numBenchmarkedIterations\<close>, which is
  positive; and its \<open>averageTimeMs\<close> is the sum of \<open>timesMs\<close> divided by its length.
\<close>

theorem predict_benchmark_timed_calls_and_mean:
  "(validBatchSize (batchSize pyRun) \<and> taskIdsAvailable w \<and> tensorsConstructible w \<and>
    predictSucceeds w \<longrightarrow>
      (\<exists>evs. trace (snd (benchmarkPair w ctx mName model ''predict'' pyRun st)) =
               trace st @ evs \<and>
             filter isCallOrNow evs =
               replicate (numWarmUpIterations pyRun) (Predict (inputTensors model st)) @
               concat (replicate (numBenchmarkedIterations pyRun)
                         [Now, Predict (inputTensors model st), Now])) \<and>
      (0 < numBenchmarkedIterations pyRun \<longrightarrow>
         (\<exists>run pyRun' st'. benchmarkPair w ctx mName model ''predict'' pyRun st =
                             (Inr (Some run, pyRun'), st'))) \<and>
      (numBenchmarkedIterations pyRun = 0 \<longrightarrow>
         fst (benchmarkPair w ctx mName model ''predict'' pyRun st) = Inl MeanOfEmptyArray)) \<and>
   (\<forall>tfjsRun pyRun' st'.
      benchmarkPair w ctx mName model ''predict'' pyRun st = (Inr (tfjsRun, pyRun'), st') \<longrightarrow>
      (\<exists>run ts evs. tfjsRun = Some run \<and> timesMs run = Some ts \<and>
         trace st' = trace st @ evs \<and>
         filter isCallOrNow evs =
           replicate (numWarmUpIterations pyRun) (Predict (inputTensors model st)) @
           concat (replicate (numBenchmarkedIterations pyRun)
                     [Now, Predict (inputTensors model st), Now]) \<and>
         ts = elapsedTimes (clockReadings w (trace st) evs) \<and>
         length ts = numBenchmarkedIterations pyRun \<and>
         0 < numBenchmarkedIterations pyRun \<and>
         averageTimeMs run = Finite (sum_list ts / of_nat (length ts))))"
proof (intro conjI impI allI)
  assume "validBatchSize (batchSize pyRun) \<and> taskIdsAvailable w \<and> tensorsConstructible w \<and>
          predictSucceeds w"
  then have a: "validBatchSize (batchSize pyRun)" "taskIdsAvailable w"
    "tensorsConstructible w" "predictSucceeds w"
    by simp_all
  note T = benchmarkPair_predict_total[OF a, of ctx mName model st]
  from T(1) show "\<exists>evs. trace (snd (benchmarkPair w ctx mName model ''predict'' pyRun st)) =
               trace st @ evs \<and>
             filter isCallOrNow evs =
               replicate (numWarmUpIterations pyRun) (Predict (inputTensors model st)) @
               concat (replicate (numBenchmarkedIterations pyRun)
                         [Now, Predict (inputTensors model st), Now])"
    by (simp add: predictCalls_def)
  show "\<exists>run pyRun' st'. benchmarkPair w ctx mName model ''predict'' pyRun st =
                             (Inr (Some run, pyRun'), st')"
    if "0 < numBenchmarkedIterations pyRun"
    using T(2)[OF that] .
  show "fst (benchmarkPair w ctx mName model ''predict'' pyRun st) = Inl MeanOfEmptyArray"
    if "numBenchmarkedIterations pyRun = 0"
    using T(3)[OF that] .
next
  fix tfjsRun pyRun' st'
  assume "benchmarkPair w ctx mName model ''predict'' pyRun st = (Inr (tfjsRun, pyRun'), st')"
  from benchmarkPair_predict_timings[OF this]
  show "\<exists>run ts evs. tfjsRun = Some run \<and> timesMs run = Some ts \<and>
         trace st' = trace st @ evs \<and>
         filter isCallOrNow evs =
           replicate (numWarmUpIterations pyRun) (Predict (inputTensors model st)) @
           concat (replicate (numBenchmarkedIterations pyRun)
                     [Now, Predict (inputTensors model st), Now]) \<and>
         ts = elapsedTimes (clockReadings w (trace st) evs) \<and>
         length ts = numBenchmarkedIterations pyRun \<and>
         0 < numBenchmarkedIterations pyRun \<and>
         averageTimeMs run = Finite (sum_list ts / of_nat (length ts))"
    by (simp add: predictCalls_def)
qed

theorem predict_benchmark_timed_calls_and_mean_witness:
  "validBatchSize (batchSize (sampleRun ''predict'' 32 1 2 0)) \<and>
   taskIdsAvailable (sampleWorld suiteThree ReturnsTensor) \<and>
   tensorsConstructible (sampleWorld suiteThree ReturnsTensor) \<and>
   predictSucceeds (sampleWorld suiteThree ReturnsTensor) \<and>
   0 < numBenchmarkedIterations (sampleRun ''predict'' 32 1 2 0) \<and>
   (\<exists>run pyRun' st' evs.
      benchmarkPair (sampleWorld suiteThree ReturnsTensor) sampleContext ''m'' sampleModel
        ''predict'' (sampleRun ''predict'' 32 1 2 0) initialState = (Inr (Some run, pyRun'), st') \<and>
      trace st' = trace initialState @ evs \<and>
      filter isCallOrNow evs =
        [Predict (Single 0), Now, Predict (Single 0), Now, Now, Predict (Single 0), Now] \<and>
      timesMs run = Some [64, 104] \<and>
      elapsedTimes (clockReadings (sampleWorld suiteThree ReturnsTensor) (trace initialState)
                      evs) = [64, 104] \<and>
      averageTimeMs run = Finite (sum_list [64, 104] / of_nat (length [64 :: rat, 104])))"
proof -
  let ?w = "sampleWorld suiteThree ReturnsTensor"
  let ?r = "sampleRun ''predict'' 32 1 2 0"
  have v: "validBatchSize (batchSize ?r)"
    by (simp add: validBatchSize_def sampleRun_def)
  have t: "taskIdsAvailable ?w" by (simp add: taskIdsAvailable_def sampleWorld_def)
  have c: "tensorsConstructible ?w" by (simp add: tensorsConstructible_def sampleWorld_def)
  have p: "predictSucceeds ?w" by (simp add: predictSucceeds_def sampleWorld_def)
  have n: "numWarmUpIterations ?r = 1" "numBenchmarkedIterations ?r = 2"
    by (simp_all add: sampleRun_def)
  have i: "inputTensors sampleModel initialState = Single 0"
    by (simp add: inputTensors_def sampleModel_def initialState_def unwrapSingle_def)
  note T = predict_benchmark_timed_calls_and_mean
             [of ?r ?w sampleContext "''m''" sampleModel initialState]
  from T v t c p n obtain run pyRun' st' where
    r: "benchmarkPair ?w sampleContext ''m'' sampleModel ''predict'' ?r initialState =
          (Inr (Some run, pyRun'), st')"
    by auto
  from T[THEN conjunct2, rule_format, OF r] obtain ts evs where
    e: "timesMs run = Some ts" "trace st' = trace initialState @ evs"
       "filter isCallOrNow evs =
          replicate (numWarmUpIterations ?r) (Predict (inputTensors sampleModel initialState)) @
          concat (replicate (numBenchmarkedIterations ?r)
                    [Now, Predict (inputTensors sampleModel initialState), Now])"
       "ts = elapsedTimes (clockReadings ?w (trace initialState) evs)"
       "averageTimeMs run = Finite (sum_list ts / of_nat (length ts))"
    by auto
  from r sample_predict_pair have "timesMs run = Some [64, 104]" by auto
  with e(1) have ts: "ts = [64, 104]" by simp
  have f: "filter isCallOrNow evs =
        [Predict (Single 0), Now, Predict (Single 0), Now, Now, Predict (Single 0), Now]"
    using e(3) n i by (simp add: eval_nat_numeral)
  from r e(2) f e(1) e(4) e(5) ts have
    "\<exists>run pyRun' st' evs.
      benchmarkPair ?w sampleContext ''m'' sampleModel ''predict'' ?r initialState =
        (Inr (Some run, pyRun'), st') \<and>
      trace st' = trace initialState @ evs \<and>
      filter isCallOrNow evs =
        [Predict (Single 0), Now, Predict (Single 0), Now, Now, Predict (Single 0), Now] \<and>
      timesMs run = Some [64, 104] \<and>
      elapsedTimes (clockReadings ?w (trace initialState) evs) = [64, 104] \<and>
      averageTimeMs run = Finite (sum_list [64, 104] / of_nat (length [64 :: rat, 104]))"
    by (intro exI[of _ run] exI[of _ pyRun'] exI[of _ st'] exI[of _ evs]) simp
  with v t c p n show ?thesis by simp
qed

section \<open>The fit benchmark\<close>

lemma numberDivide_pos: "0 < n \<Longrightarrow> numberDivide a (of_nat n) = Finite (a / of_nat n)"
  by (simp add: numberDivide_def)

lemma benchmarkPair_fit_Inr:
  assumes "benchmarkPair w ctx mName model ''fit'' pyRun st = (Inr (tfjsRun, pyRun'), st')"
  shows "\<exists>evs run.
           filter isCallOrNow evs = [] \<and>
           trace st' = trace st @ evs @
             [Fit (inputTensors model st) (outputTensors model st) (numWarmUpIterations pyRun),
              Now,
              Fit (inputTensors model st) (outputTensors model st)
                (numBenchmarkedIterations pyRun),
              Now,
              Dispose (inputsAndOutputs model st)] \<and>
           tfjsRun = Some run \<and>
           averageTimeMs run =
             numberDivide
               (fitElapsed w (trace st @ evs) pyRun (inputTensors model st)
                  (outputTensors model st))
               (of_nat (numBenchmarkedIterations pyRun))"
proof -
  let ?st1 = "emit (AddOrGetTaskId taskTypeModel mName ''fit'') st"
  from benchmarkPair_Inr[OF assms] obtain tId xs ys st2 st3 where
    g: "getRandomInputsAndOutputs w model (batchSize pyRun) ?st1 = (Inr (xs, ys), st2)" and
    t: "benchmarkTask w ctx model tId mName ''fit'' pyRun xs ys st2 = (Inr tfjsRun, st3)" and
    d: "st' = dispose (tensorList xs @ tensorList ys) st3"
    by blast
  note G = getRandomInputsAndOutputs_Inr[OF g]
  have xs: "xs = inputTensors model st" and ys: "ys = outputTensors model st"
    using G(6,7) by (simp_all add: inputTensors_def outputTensors_def)
  have io: "tensorList xs @ tensorList ys = inputsAndOutputs model st"
    using G(1,2) by (simp add: inputsAndOutputs_def upt_add_eq_append[symmetric] del: upt_Suc)
  from t have "benchmarkFit w ctx model tId mName ''fit'' pyRun xs ys st2 = (Inr tfjsRun, st3)"
    by (simp add: benchmarkTask_def)
  note F = benchmarkFit_Inr[OF this]
  from F(4) obtain run where
    r: "tfjsRun = Some run" and
    a: "averageTimeMs run =
          numberDivide (now w (trace st2 @ take 4 (fitEvents pyRun xs ys)) -
                        now w (trace st2 @ take 2 (fitEvents pyRun xs ys)))
            (of_nat (numBenchmarkedIterations pyRun))"
    by blast
  let ?evs = "AddOrGetTaskId taskTypeModel mName ''fit'' #
              randomShapes (batchSize pyRun) (inputs model) @
              randomShapes (batchSize pyRun) (outputs model) @
              [Compile (lookupName LOSS_MAP (loss pyRun))
                 (lookupName OPTIMIZER_MAP (optimizer pyRun))]"
  have t2: "trace st2 = trace st @ AddOrGetTaskId taskTypeModel mName ''fit'' #
              randomShapes (batchSize pyRun) (inputs model) @
              randomShapes (batchSize pyRun) (outputs model)"
    using G(3) by simp
  have "filter isCallOrNow ?evs = []" by simp
  moreover have "trace st' = trace st @ ?evs @
             [Fit (inputTensors model st) (outputTensors model st) (numWarmUpIterations pyRun),
              Now,
              Fit (inputTensors model st) (outputTensors model st)
                (numBenchmarkedIterations pyRun),
              Now,
              Dispose (inputsAndOutputs model st)]"
    using d F(1) t2 io xs ys by (simp add: fitEvents_def)
  moreover have "averageTimeMs run =
             numberDivide
               (fitElapsed w (trace st @ ?evs) pyRun (inputTensors model st)
                  (outputTensors model st))
               (of_nat (numBenchmarkedIterations pyRun))"
    using a t2 xs ys by (simp add: fitEvents_def fitElapsed_def)
  ultimately show ?thesis using r by blast
qed

lemma benchmarkPair_fit_total:
  assumes "validBatchSize (batchSize pyRun)" "taskIdsAvailable w" "tensorsConstructible w"
    "fitSucceeds w"
  shows "\<exists>run pyRun' st'. benchmarkPair w ctx mName model ''fit'' pyRun st =
                            (Inr (Some run, pyRun'), st')"
proof -
  let ?st1 = "emit (AddOrGetTaskId taskTypeModel mName ''fit'') st"
  from taskIdsAvailableD[OF assms(2)] obtain tId where
    t: "addOrGetTaskId w (trace st) taskTypeModel mName ''fit'' = Some tId"
    by blast
  from getRandomInputsAndOutputs_total[OF assms(3)] obtain xs ys st2 where
    g: "getRandomInputsAndOutputs w model (batchSize pyRun) ?st1 = (Inr (xs, ys), st2)"
    by blast
  from benchmarkFit_total[OF assms(4)] obtain run st3 where
    "benchmarkFit w ctx model tId mName ''fit'' pyRun xs ys st2 = (Inr (Some run), st3)"
    by blast
  then show ?thesis
    unfolding benchmarkPair_unfold using t g assms(1) by (simp add: benchmarkTask_def)
qed

text \<open>
  Claim C5. For a pair whose function name is \<open>fit\<close> and whose batch size is valid, with a
  framework whose calls succeed, a run record results. Whenever a run record results from
  such a pair, the calls to the model and the clock readings of the pair are, in this order:
  one training call of \<open>numWarmUpIterations\<close> epochs, a clock reading, one training call of
  \<open>numBenchmarkedIterations\<close> epochs, a clock reading; and \<open>averageTimeMs\<close> is the difference
  of the two readings divided by \<open>numBenchmarkedIterations\<close> (the quotient of the numbers
  of the source language, which is an ordinary quotient when the divisor is positive).
\<close>

theorem fit_benchmark_calls_and_average:
  "(validBatchSize (batchSize pyRun) \<and> taskIdsAvailable w \<and> tensorsConstructible w \<and>
    fitSucceeds w \<longrightarrow>
      (\<exists>run pyRun' st'. benchmarkPair w ctx mName model ''fit'' pyRun st =
                          (Inr (Some run, pyRun'), st'))) \<and>
   (\<forall>tfjsRun pyRun' st'.
      benchmarkPair w ctx mName model ''fit'' pyRun st = (Inr (tfjsRun, pyRun'), st') \<longrightarrow>
      (\<exists>evs run.
         filter isCallOrNow evs = [] \<and>
         trace st' = trace st @ evs @
           [Fit (inputTensors model st) (outputTensors model st) (numWarmUpIterations pyRun),
            Now,
            Fit (inputTensors model st) (outputTensors model st)
              (numBenchmarkedIterations pyRun),
            Now,
            Dispose (inputsAndOutputs model st)] \<and>
         tfjsRun = Some run \<and>
         averageTimeMs run =
           numberDivide
             (fitElapsed w (trace st @ evs) pyRun (inputTensors model st)
                (outputTensors model st))
             (of_nat (numBenchmarkedIterations pyRun)) \<and>
         (0 < numBenchmarkedIterations pyRun \<longrightarrow>
            averageTimeMs run =
              Finite (fitElapsed w (trace st @ evs) pyRun (inputTensors model st)
                        (outputTensors model st) /
                      of_nat (numBenchmarkedIterations pyRun)))))"
proof (intro conjI allI impI)
  assume "validBatchSize (batchSize pyRun) \<and> taskIdsAvailable w \<and> tensorsConstructible w \<and>
    fitSucceeds w"
  then show "\<exists>run pyRun' st'. benchmarkPair w ctx mName model ''fit'' pyRun st =
                          (Inr (Some run, pyRun'), st')"
    using benchmarkPair_fit_total by blast
next
  fix tfjsRun pyRun' st'
  assume "benchmarkPair w ctx mName model ''fit'' pyRun st = (Inr (tfjsRun, pyRun'), st')"
  from benchmarkPair_fit_Inr[OF this] obtain evs run where
    e: "filter isCallOrNow evs = []"
       "trace st' = trace st @ evs @
           [Fit (inputTensors model st) (outputTensors model st) (numWarmUpIterations pyRun),
            Now,
            Fit (inputTensors model st) (outputTensors model st)
              (numBenchmarkedIterations pyRun),
            Now,
            Dispose (inputsAndOutputs model st)]"
       "tfjsRun = Some run"
       "averageTimeMs run =
           numberDivide
             (fitElapsed w (trace st @ evs) pyRun (inputTensors model st)
                (outputTensors model st))
             (of_nat (numBenchmarkedIterations pyRun))"
    by blast
  have "0 < numBenchmarkedIterations pyRun \<longrightarrow>
            averageTimeMs run =
              Finite (fitElapsed w (trace st @ evs) pyRun (inputTensors model st)
                        (outputTensors model st) /
                      of_nat (numBenchmarkedIterations pyRun))"
    using e(4) by (simp add: numberDivide_pos)
  with e show "\<exists>evs run.
         filter isCallOrNow evs = [] \<and>
         trace st' = trace st @ evs @
           [Fit (inputTensors model st) (outputTensors model st) (numWarmUpIterations pyRun),
            Now,
            Fit (inputTensors model st) (outputTensors model st)
              (numBenchmarkedIterations pyRun),
            Now,
            Dispose (inputsAndOutputs model st)] \<and>
         tfjsRun = Some run \<and>
         averageTimeMs run =
           numberDivide
             (fitElapsed w (trace st @ evs) pyRun (inputTensors model st)
                (outputTensors model st))
             (of_nat (numBenchmarkedIterations pyRun)) \<and>
         (0 < numBenchmarkedIterations pyRun \<longrightarrow>
            averageTimeMs run =
              Finite (fitElapsed w (trace st @ evs) pyRun (inputTensors model st)
                        (outputTensors model st) /
                      of_nat (numBenchmarkedIterations pyRun)))"
    by - (rule exI[of _ evs], rule exI[of _ run], simp add: numberDivide_pos)
qed

theorem fit_benchmark_calls_and_average_witness:
  "validBatchSize (batchSize (sampleRun ''fit'' 32 2 5 0)) \<and>
   taskIdsAvailable (sampleWorld suiteThree ReturnsTensor) \<and>
   tensorsConstructible (sampleWorld suiteThree ReturnsTensor) \<and>
   fitSucceeds (sampleWorld suiteThree ReturnsTensor) \<and>
   0 < numBenchmarkedIterations (sampleRun ''fit'' 32 2 5 0) \<and>
   (\<exists>run pyRun' st' evs.
      benchmarkPair (sampleWorld suiteThree ReturnsTensor) sampleContext ''m'' sampleModel
        ''fit'' (sampleRun ''fit'' 32 2 5 0) initialState = (Inr (Some run, pyRun'), st') \<and>
      filter isCallOrNow evs = [] \<and>
      trace st' = trace initialState @ evs @
        [Fit (inputTensors sampleModel initialState) (outputTensors sampleModel initialState) 2,
         Now,
         Fit (inputTensors sampleModel initialState) (outputTensors sampleModel initialState) 5,
         Now,
         Dispose (inputsAndOutputs sampleModel initialState)] \<and>
      averageTimeMs run =
        Finite (fitElapsed (sampleWorld suiteThree ReturnsTensor) (trace initialState @ evs)
                  (sampleRun ''fit'' 32 2 5 0) (inputTensors sampleModel initialState)
                  (outputTensors sampleModel initialState) / 5))"
proof -
  have v: "validBatchSize (batchSize (sampleRun ''fit'' 32 2 5 0))"
    by (simp add: validBatchSize_def sampleRun_def)
  have t: "taskIdsAvailable (sampleWorld suiteThree ReturnsTensor)"
    by (simp add: taskIdsAvailable_def sampleWorld_def)
  have c: "tensorsConstructible (sampleWorld suiteThree ReturnsTensor)"
    by (simp add: tensorsConstructible_def sampleWorld_def)
  have p: "fitSucceeds (sampleWorld suiteThree ReturnsTensor)"
    by (simp add: fitSucceeds_def sampleWorld_def)
  have n: "numWarmUpIterations (sampleRun ''fit'' 32 2 5 0) = 2"
    "numBenchmarkedIterations (sampleRun ''fit'' 32 2 5 0) = 5"
    by (simp_all add: sampleRun_def)
  note T = fit_benchmark_calls_and_average
             [of "sampleRun ''fit'' 32 2 5 0" "sampleWorld suiteThree ReturnsTensor" sampleContext
                 "''m''" sampleModel initialState]
  from T v t c p obtain run pyRun' st' where
    r: "benchmarkPair (sampleWorld suiteThree ReturnsTensor) sampleContext ''m'' sampleModel
          ''fit'' (sampleRun ''fit'' 32 2 5 0) initialState = (Inr (Some run, pyRun'), st')"
    by blast
  with T n obtain evs where
    "filter isCallOrNow evs = []"
    "trace st' = trace initialState @ evs @
        [Fit (inputTensors sampleModel initialState) (outputTensors sampleModel initialState) 2,
         Now,
         Fit (inputTensors sampleModel initialState) (outputTensors sampleModel initialState) 5,
         Now,
         Dispose (inputsAndOutputs sampleModel initialState)]"
    "averageTimeMs run =
        Finite (fitElapsed (sampleWorld suiteThree ReturnsTensor) (trace initialState @ evs)
                  (sampleRun ''fit'' 32 2 5 0) (inputTensors sampleModel initialState)
                  (outputTensors sampleModel initialState) / 5)"
    by auto
  with r v t c p n show ?thesis by auto
qed

section \<open>Release of tensors and skipped functions\<close>

lemmas pair_eval_defs =
  benchmarkPair_def addOrGetTaskIdCall_def checkBatchSize_def isInteger_def
  getRandomInputsAndOutputs_def randomUniformCall_def unwrapSingle_def
  benchmarkPredict_def predictCall_def utilNow_def emit_def allocate_def fresh_def
  taskTypeModel_def initialState_def sampleWorld_def sampleModel_def sampleRun_def

lemma sample_predict_throws:
  "benchmarkPair (sampleWorld suiteThree Throws) sampleContext ''m'' sampleModel ''predict''
     (sampleRun ''predict'' 32 0 1 0) initialState =
   (Inl (Rejected ''predict''),
    \<lparr>trace = [AddOrGetTaskId ''model'' ''m'' ''predict'',
              RandomUniform [Some 32, Some 4], RandomUniform [Some 32, Some 2],
              Now, Predict (Single 0)],
     nextTensorId = 2,
     liveTensors = [0, 1]\<rparr>)"
  by (simp add: pair_eval_defs)

text \<open>
  Claim C6 fails on the failure path: when the timed call of \<open>predict\<close> throws, the error
  leaves the pair at once, and the two tensors constructed for the pair (0 and 1) are still
  live afterwards; the trace has no \<open>Dispose\<close> event.
\<close>

theorem tensors_leak_when_predict_throws:
  "benchmarkPair (sampleWorld suiteThree Throws) sampleContext ''m'' sampleModel ''predict''
     (sampleRun ''predict'' 32 0 1 0) initialState =
   (Inl (Rejected ''predict''),
    \<lparr>trace = [AddOrGetTaskId ''model'' ''m'' ''predict'',
              RandomUniform [Some 32, Some 4], RandomUniform [Some 32, Some 2],
              Now, Predict (Single 0)],
     nextTensorId = 2,
     liveTensors = [0, 1]\<rparr>)"
  by (simp add: pair_eval_defs)

text \<open>
  Claim C6, amended. Whenever a pair is processed without an error, from a state whose live
  tensors are older than its tensor counter, the last event of the pair releases the input
  and output tensors constructed for it, and the live tensors after the pair are the live
  tensors before it: every tensor allocated while the pair was processed has been released.
  Whenever the pair ends in an error of its benchmark (an error that is not raised before
  the benchmark starts), all the input and output tensors constructed for it are still live.
\<close>

theorem tensors_released_on_success_only:
  "(wellFormed st \<and> benchmarkPair w ctx mName model fName pyRun st = (Inr res, st') \<longrightarrow>
     liveTensors st' = liveTensors st \<and> wellFormed st' \<and>
     (\<exists>evs. trace st' = trace st @ evs @ [Dispose (inputsAndOutputs model st)]) \<and>
     set (inputsAndOutputs model st) \<inter> set (liveTensors st') = {}) \<and>
   (wellFormed st \<and> benchmarkPair w ctx mName model fName pyRun st = (Inl e, st1) \<and>
    \<not> raisedBeforeBenchmark e \<longrightarrow>
     set (inputsAndOutputs model st) \<subseteq> set (liveTensors st1))"
proof (intro conjI impI; elim conjE)
  assume wf: "wellFormed st"
    and ok: "benchmarkPair w ctx mName model fName pyRun st = (Inr res, st')"
  obtain tfjsRun pyRun' where "res = (tfjsRun, pyRun')" by (cases res)
  with ok have ok': "benchmarkPair w ctx mName model fName pyRun st =
                       (Inr (tfjsRun, pyRun'), st')" by simp
  note S = benchmarkPair_Inr_state[OF ok']
  from S(1) wf show l: "liveTensors st' = liveTensors st" and wf': "wellFormed st'"
    by (simp_all add: tensorNeutral_def)
  from S(2) obtain evs where
    "trace st' = trace st @ (AddOrGetTaskId taskTypeModel mName fName # evs) @
       [Dispose (inputsAndOutputs model st)]"
    by auto
  then show "\<exists>evs. trace st' = trace st @ evs @ [Dispose (inputsAndOutputs model st)]"
    by blast
  show "set (inputsAndOutputs model st) \<inter> set (liveTensors st') = {}"
    using wf l by (auto simp: wellFormed_def inputsAndOutputs_def)
next
  assume "wellFormed st" "benchmarkPair w ctx mName model fName pyRun st = (Inl e, st1)"
    "\<not> raisedBeforeBenchmark e"
  then show "set (inputsAndOutputs model st) \<subseteq> set (liveTensors st1)"
    using benchmarkPair_Inl_leak by blast
qed

theorem tensors_released_on_success_only_witness:
  "wellFormed initialState \<and>
   (\<exists>res st'.
      benchmarkPair (sampleWorld suiteThree ReturnsTensor) sampleContext ''m'' sampleModel
        ''predict'' (sampleRun ''predict'' 32 2 5 0) initialState = (Inr res, st') \<and>
      liveTensors st' = liveTensors initialState \<and> wellFormed st' \<and>
      (\<exists>evs. trace st' = trace initialState @ evs @
                 [Dispose (inputsAndOutputs sampleModel initialState)]) \<and>
      set (inputsAndOutputs sampleModel initialState) \<inter> set (liveTensors st') = {}) \<and>
   (\<exists>st1.
      benchmarkPair (sampleWorld suiteThree Throws) sampleContext ''m'' sampleModel ''predict''
        (sampleRun ''predict'' 32 0 1 0) initialState = (Inl (Rejected ''predict''), st1) \<and>
      \<not> raisedBeforeBenchmark (Rejected ''predict'') \<and>
      set (inputsAndOutputs sampleModel initialState) \<subseteq> set (liveTensors st1))"
proof -
  have wf: "wellFormed initialState" by (simp add: wellFormed_def initialState_def)
  have "validBatchSize (batchSize (sampleRun ''predict'' 32 2 5 0))"
    "taskIdsAvailable (sampleWorld suiteThree ReturnsTensor)"
    "tensorsConstructible (sampleWorld suiteThree ReturnsTensor)"
    "predictSucceeds (sampleWorld suiteThree ReturnsTensor)"
    "0 < numBenchmarkedIterations (sampleRun ''predict'' 32 2 5 0)"
    by (simp_all add: validBatchSize_def taskIdsAvailable_def tensorsConstructible_def
          predictSucceeds_def sampleWorld_def sampleRun_def)
  from benchmarkPair_predict_total(2)[OF this] obtain run pyRun' st' where
    ok: "benchmarkPair (sampleWorld suiteThree ReturnsTensor) sampleContext ''m'' sampleModel
           ''predict'' (sampleRun ''predict'' 32 2 5 0) initialState =
         (Inr (Some run, pyRun'), st')"
    by blast
  from tensors_released_on_success_only[THEN conjunct1, THEN mp, OF conjI[OF wf ok]] ok
  have first: "\<exists>res st'.
      benchmarkPair (sampleWorld suiteThree ReturnsTensor) sampleContext ''m'' sampleModel
        ''predict'' (sampleRun ''predict'' 32 2 5 0) initialState = (Inr res, st') \<and>
      liveTensors st' = liveTensors initialState \<and> wellFormed st' \<and>
      (\<exists>evs. trace st' = trace initialState @ evs @
                 [Dispose (inputsAndOutputs sampleModel initialState)]) \<and>
      set (inputsAndOutputs sampleModel initialState) \<inter> set (liveTensors st') = {}"
    by blast
  obtain st1 where
    bad: "benchmarkPair (sampleWorld suiteThree Throws) sampleContext ''m'' sampleModel
            ''predict'' (sampleRun ''predict'' 32 0 1 0) initialState =
          (Inl (Rejected ''predict''), st1)"
    using sample_predict_throws by blast
  have nb: "\<not> raisedBeforeBenchmark (Rejected ''predict'')" by simp
  from tensors_released_on_success_only
         [THEN conjunct2, THEN mp, OF conjI[OF wf conjI[OF bad nb]]] bad nb
  have second: "\<exists>st1.
      benchmarkPair (sampleWorld suiteThree Throws) sampleContext ''m'' sampleModel ''predict''
        (sampleRun ''predict'' 32 0 1 0) initialState = (Inl (Rejected ''predict''), st1) \<and>
      \<not> raisedBeforeBenchmark (Rejected ''predict'') \<and>
      set (inputsAndOutputs sampleModel initialState) \<subseteq> set (liveTensors st1)"
    by blast
  from wf first second show ?thesis by blast
qed

text \<open>
  Claim C8 fails as stated: the batch size is validated before the function name is looked
  at, so a pair with an unknown function name and an invalid batch size raises the
  validation error.
\<close>

theorem unknown_function_invalid_batch_raises:
  "benchmarkPair (sampleWorld suiteThree ReturnsTensor) sampleContext ''m'' sampleModel
     ''fitDataset'' (sampleRun ''fitDataset'' 0 2 5 0) initialState =
   (Inl (BatchSizeError 0),
    \<lparr>trace = [AddOrGetTaskId ''model'' ''m'' ''fitDataset''],
     nextTensorId = 0, liveTensors = []\<rparr>)"
  by (simp add: pair_eval_defs)

lemma benchmarkPair_skip:
  assumes "fName \<noteq> ''predict''" "fName \<noteq> ''fit''" "validBatchSize (batchSize pyRun)"
    "taskIdsAvailable w" "tensorsConstructible w"
  shows "\<exists>pyRun' st' evs.
           benchmarkPair w ctx mName model fName pyRun st = (Inr (None, pyRun'), st') \<and>
           trace st' = trace st @ evs @
             [skipWarning mName fName, Dispose (inputsAndOutputs model st)] \<and>
           filter isCallOrNow evs = []"
proof -
  let ?st1 = "emit (AddOrGetTaskId taskTypeModel mName fName) st"
  from taskIdsAvailableD[OF assms(4)] obtain tId where
    t: "addOrGetTaskId w (trace st) taskTypeModel mName fName = Some tId"
    by blast
  from getRandomInputsAndOutputs_total[OF assms(5)] obtain xs ys st2 where
    g: "getRandomInputsAndOutputs w model (batchSize pyRun) ?st1 = (Inr (xs, ys), st2)"
    by blast
  note G = getRandomInputsAndOutputs_Inr[OF g]
  have io: "tensorList xs @ tensorList ys = inputsAndOutputs model st"
    using G(1,2) by (simp add: inputsAndOutputs_def upt_add_eq_append[symmetric] del: upt_Suc)
  let ?evs = "AddOrGetTaskId taskTypeModel mName fName #
              randomShapes (batchSize pyRun) (inputs model) @
              randomShapes (batchSize pyRun) (outputs model)"
  let ?st' = "dispose (tensorList xs @ tensorList ys) (emit (skipWarning mName fName) st2)"
  have "benchmarkPair w ctx mName model fName pyRun st =
          (Inr (None, pyRun\<lparr>taskId := Some tId,
                              environmentId := Some (pyEnvironmentId ctx)\<rparr>), ?st')"
    unfolding benchmarkPair_unfold using t g assms(1-3)
    by (simp add: benchmarkTask_def skipTask_eq)
  moreover have "trace ?st' = trace st @ ?evs @
             [skipWarning mName fName, Dispose (inputsAndOutputs model st)]"
    using G(3) io by simp
  moreover have "filter isCallOrNow ?evs = []" by simp
  ultimately show ?thesis by blast
qed

text \<open>
  Claim C8, amended. A pair whose function name is neither \<open>predict\<close> nor \<open>fit\<close> and whose
  batch size is valid, when its task identifier is obtained and its tensors are constructed,
  raises no error: it makes no call to the model and reads no clock, logs the warning,
  releases its tensors, yields no measured run, and the loop over the functions of the model
  goes on with the next pair.
\<close>

theorem unknown_function_skipped_with_warning:
  "fName \<noteq> ''predict'' \<and> fName \<noteq> ''fit'' \<and> validBatchSize (batchSize pyRun) \<and>
   taskIdsAvailable w \<and> tensorsConstructible w \<longrightarrow>
     (\<exists>pyRun' st' evs.
        benchmarkPair w ctx mName model fName pyRun st = (Inr (None, pyRun'), st') \<and>
        trace st' = trace st @ evs @
          [skipWarning mName fName, Dispose (inputsAndOutputs model st)] \<and>
        filter isCallOrNow evs = [] \<and>
        benchmarkFunctions w ctx mName model ((fName, pyRun) # rest) (pyRuns, tfjsRuns) st =
          benchmarkFunctions w ctx mName model rest (pyRuns @ [pyRun'], tfjsRuns @ [None]) st')"
proof (intro impI, elim conjE)
  assume a: "fName \<noteq> ''predict''" "fName \<noteq> ''fit''" "validBatchSize (batchSize pyRun)"
    "taskIdsAvailable w" "tensorsConstructible w"
  from benchmarkPair_skip[OF a, of ctx mName model st] obtain pyRun' st' evs where
    s: "benchmarkPair w ctx mName model fName pyRun st = (Inr (None, pyRun'), st')"
       "trace st' = trace st @ evs @
          [skipWarning mName fName, Dispose (inputsAndOutputs model st)]"
       "filter isCallOrNow evs = []"
    by blast
  then have "benchmarkFunctions w ctx mName model ((fName, pyRun) # rest) (pyRuns, tfjsRuns) st =
          benchmarkFunctions w ctx mName model rest (pyRuns @ [pyRun'], tfjsRuns @ [None]) st'"
    by simp
  with s show "\<exists>pyRun' st' evs.
        benchmarkPair w ctx mName model fName pyRun st = (Inr (None, pyRun'), st') \<and>
        trace st' = trace st @ evs @
          [skipWarning mName fName, Dispose (inputsAndOutputs model st)] \<and>
        filter isCallOrNow evs = [] \<and>
        benchmarkFunctions w ctx mName model ((fName, pyRun) # rest) (pyRuns, tfjsRuns) st =
          benchmarkFunctions w ctx mName model rest (pyRuns @ [pyRun'], tfjsRuns @ [None]) st'"
    by blast
qed

theorem unknown_function_skipped_with_warning_witness:
  "''fitDataset'' \<noteq> ''predict'' \<and> ''fitDataset'' \<noteq> ''fit'' \<and>
   validBatchSize (batchSize (sampleRun ''fitDataset'' 32 2 5 0)) \<and>
   taskIdsAvailable (sampleWorld suiteThree ReturnsTensor) \<and>
   tensorsConstructible (sampleWorld suiteThree ReturnsTensor) \<and>
   (\<exists>pyRun' st' evs.
      benchmarkPair (sampleWorld suiteThree ReturnsTensor) sampleContext ''m'' sampleModel
        ''fitDataset'' (sampleRun ''fitDataset'' 32 2 5 0) initialState = (Inr (None, pyRun'), st') \<and>
      trace st' = trace initialState @ evs @
        [skipWarning ''m'' ''fitDataset'', Dispose (inputsAndOutputs sampleModel initialState)] \<and>
      filter isCallOrNow evs = [] \<and>
      benchmarkFunctions (sampleWorld suiteThree ReturnsTensor) sampleContext ''m'' sampleModel
        [(''fitDataset'', sampleRun ''fitDataset'' 32 2 5 0)] ([], []) initialState =
      benchmarkFunctions (sampleWorld suiteThree ReturnsTensor) sampleContext ''m'' sampleModel
        [] ([] @ [pyRun'], [] @ [None]) st')"
proof -
  have h: "''fitDataset'' \<noteq> ''predict''" "''fitDataset'' \<noteq> ''fit''"
    "validBatchSize (batchSize (sampleRun ''fitDataset'' 32 2 5 0))"
    "taskIdsAvailable (sampleWorld suiteThree ReturnsTensor)"
    "tensorsConstructible (sampleWorld suiteThree ReturnsTensor)"
    by (simp_all add: validBatchSize_def taskIdsAvailable_def tensorsConstructible_def
          sampleWorld_def sampleRun_def)
  from unknown_function_skipped_with_warning
         [of "''fitDataset''" "sampleRun ''fitDataset'' 32 2 5 0" "sampleWorld suiteThree ReturnsTensor"
             sampleContext "''m''" sampleModel initialState "[]" "[]" "[]"] h
  show ?thesis by blast
qed

section \<open>The write at the end of the run\<close>

lemma benchmarkModels_Inr:
  assumes "benchmarkModels w st = (Inr (pyRuns, tfjsRuns), st')"
  shows "\<exists>info suiteLog tfjsEnvId vId pyEnvId st4 st5.
           getBrowserEnvironmentInfo w = Inr info \<and>
           fetchSuiteLog w (trace st @ take 2 (prelude w info suiteLog)) BENCHMARKS_JSON_URL =
             Some suiteLog \<and>
           addEnvironmentInfoToFirestore w (trace st @ take 3 (prelude w info suiteLog))
             (environmentInfo suiteLog) = Some pyEnvId \<and>
           trace st4 = trace st @ prelude w info suiteLog \<and>
           nextTensorId st4 = nextTensorId st \<and> liveTensors st4 = liveTensors st \<and>
           benchmarkSortedModels w
             \<lparr>ctxVersionSetId = vId, tfjsEnvironmentId = tfjsEnvId, pyEnvironmentId = pyEnvId\<rparr>
             suiteLog (getChronologicalModelNames suiteLog) ([], []) st4 =
             (Inr (pyRuns, tfjsRuns), st5) \<and>
           addBenchmarkRunsToFirestore w (trace st5) pyRuns \<and>
           st' = emit (AddBenchmarkRunsToFirestore pyRuns) st5"
proof -
  from assms obtain info where i: "getBrowserEnvironmentInfo w = Inr info"
    by (auto simp: benchmarkModels_def split: sum.splits)
  let ?st1 = "emit (AddEnvironmentInfoToFirestore info) st"
  from assms i obtain tfjsEnvId where
    a: "addEnvironmentInfoToFirestore w (trace st) info = Some tfjsEnvId"
    by (auto simp: benchmarkModels_def addEnvironmentInfoCall_def split: option.splits)
  let ?st2 = "emit (AddVersionSetToFirestore (tfVersion w)) ?st1"
  from assms i a obtain vId where
    b: "addVersionSetToFirestore w (trace ?st1) (tfVersion w) = Some vId"
    by (auto simp: benchmarkModels_def addEnvironmentInfoCall_def addVersionSetCall_def
             split: option.splits)
  let ?st3 = "emit (Fetch BENCHMARKS_JSON_URL) ?st2"
  from assms i a b obtain suiteLog where
    c: "fetchSuiteLog w (trace ?st2) BENCHMARKS_JSON_URL = Some suiteLog"
    by (auto simp: benchmarkModels_def addEnvironmentInfoCall_def addVersionSetCall_def
               fetchSuiteLogCall_def
             split: option.splits)
  let ?st4 = "emit (AddEnvironmentInfoToFirestore (environmentInfo suiteLog)) ?st3"
  from assms i a b c obtain pyEnvId where
    d: "addEnvironmentInfoToFirestore w (trace ?st3) (environmentInfo suiteLog) = Some pyEnvId"
    by (auto simp: benchmarkModels_def addEnvironmentInfoCall_def addVersionSetCall_def
               fetchSuiteLogCall_def
             split: option.splits)
  let ?ctx = "\<lparr>ctxVersionSetId = vId, tfjsEnvironmentId = tfjsEnvId, pyEnvironmentId = pyEnvId\<rparr>"
  from assms i a b c d obtain st5 where
    e: "benchmarkSortedModels w ?ctx suiteLog (getChronologicalModelNames suiteLog) ([], [])
          ?st4 = (Inr (pyRuns, tfjsRuns), st5)" and
    f: "addBenchmarkRunsToFirestore w (trace st5) pyRuns" and
    g: "st' = emit (AddBenchmarkRunsToFirestore pyRuns) st5"
    by (auto simp: benchmarkModels_def addEnvironmentInfoCall_def addVersionSetCall_def
               fetchSuiteLogCall_def addBenchmarkRunsCall_def
             split: option.splits prod.splits sum.splits if_splits)
  have "trace ?st4 = trace st @ prelude w info suiteLog"
    by (simp add: prelude_def)
  moreover have "fetchSuiteLog w (trace st @ take 2 (prelude w info suiteLog))
                   BENCHMARKS_JSON_URL = Some suiteLog"
    using c by (simp add: prelude_def)
  moreover have "addEnvironmentInfoToFirestore w (trace st @ take 3 (prelude w info suiteLog))
             (environmentInfo suiteLog) = Some pyEnvId"
    using d by (simp add: prelude_def)
  moreover have "nextTensorId ?st4 = nextTensorId st" "liveTensors ?st4 = liveTensors st"
    by simp_all
  ultimately show ?thesis using i e f g by blast
qed

lemma benchmarkModels_Inr_summary:
  assumes "benchmarkModels w st = (Inr (pyRuns, tfjsRuns), st')"
  shows "\<exists>info suiteLog pyEnvId evs.
           fetchSuiteLog w (trace st @ take 2 (prelude w info suiteLog)) BENCHMARKS_JSON_URL =
             Some suiteLog \<and>
           addEnvironmentInfoToFirestore w (trace st @ take 3 (prelude w info suiteLog))
             (environmentInfo suiteLog) = Some pyEnvId \<and>
           trace st' = trace st @ prelude w info suiteLog @ evs @
             [AddBenchmarkRunsToFirestore pyRuns] \<and>
           filter isDatastoreEvent evs =
             taskIdRequests (pairsInOrder suiteLog (getChronologicalModelNames suiteLog)) \<and>
           list_all2 (persistedForm w pyEnvId)
             (pairsInOrder suiteLog (getChronologicalModelNames suiteLog)) pyRuns \<and>
           list_all2 measuredForm
             (pairsInOrder suiteLog (getChronologicalModelNames suiteLog)) tfjsRuns \<and>
           tensorNeutral st st'"
proof -
  from benchmarkModels_Inr[OF assms] obtain info suiteLog tfjsEnvId vId pyEnvId st4 st5 where
    a: "fetchSuiteLog w (trace st @ take 2 (prelude w info suiteLog)) BENCHMARKS_JSON_URL =
          Some suiteLog"
       "addEnvironmentInfoToFirestore w (trace st @ take 3 (prelude w info suiteLog))
          (environmentInfo suiteLog) = Some pyEnvId"
       "trace st4 = trace st @ prelude w info suiteLog"
       "nextTensorId st4 = nextTensorId st" "liveTensors st4 = liveTensors st" and
    b: "benchmarkSortedModels w
          \<lparr>ctxVersionSetId = vId, tfjsEnvironmentId = tfjsEnvId, pyEnvironmentId = pyEnvId\<rparr>
          suiteLog (getChronologicalModelNames suiteLog) ([], []) st4 =
          (Inr (pyRuns, tfjsRuns), st5)" and
    c: "st' = emit (AddBenchmarkRunsToFirestore pyRuns) st5"
    by blast
  from benchmarkSortedModels_Inr[OF b] obtain evs where
    s: "list_all2 (persistedForm w pyEnvId)
          (pairsInOrder suiteLog (getChronologicalModelNames suiteLog)) pyRuns"
       "list_all2 measuredForm
          (pairsInOrder suiteLog (getChronologicalModelNames suiteLog)) tfjsRuns"
       "tensorNeutral st4 st5"
       "trace st5 = trace st4 @ evs"
       "filter isDatastoreEvent evs =
          taskIdRequests (pairsInOrder suiteLog (getChronologicalModelNames suiteLog))"
    by auto
  have "tensorNeutral st st4" using a(4,5) by (simp add: tensorNeutral_def wellFormed_def)
  then have "tensorNeutral st st'"
    using tensorNeutral_trans[OF _ tensorNeutral_trans[OF s(3) tensorNeutral_emit]] c by blast
  moreover have "trace st' = trace st @ prelude w info suiteLog @ evs @
             [AddBenchmarkRunsToFirestore pyRuns]"
    using c s(4) a(3) by simp
  ultimately show ?thesis using a(1,2) s(1,2,5) by blast
qed


lemmas run_eval_defs =
  benchmarkModels_def getBrowserEnvironmentInfo_def getBrowserEnvironmentType_def
  addEnvironmentInfoCall_def addVersionSetCall_def fetchSuiteLogCall_def addBenchmarkRunsCall_def
  getChronologicalModelNames_def dateGetTime_def arraySort_def countAndMakeRun_def
  sortCompare_def toLowerCase_def loadModel_def
  BENCHMARKS_JSON_URL_def DATA_SERVER_ROOT_def
  benchmarkPair_def addOrGetTaskIdCall_def checkBatchSize_def isInteger_def
  getRandomInputsAndOutputs_def randomUniformCall_def unwrapSingle_def
  benchmarkFit_def compileCall_def fitCall_def lookupName_def LOSS_MAP_def OPTIMIZER_MAP_def
  numberDivide_def skipTask_def
  utilNow_def emit_def allocate_def fresh_def dispose_def
  taskTypeModel_def initialState_def sampleWorld_def sampleModel_def sampleRun_def

lemma sample_fit_run:
  "benchmarkModels (sampleWorld suiteFit ReturnsTensor) initialState =
   (Inr ([\<lparr>taskId = Some ''m/fit'', taskType = ''model'', modelName = ''m'',
            functionName = ''fit'', batchSize = 32, versionSetId = None,
            environmentId = Some ''envPy'', numWarmUpIterations = 2,
            numBenchmarkedIterations = 5, timesMs = None,
            averageTimeMs = Finite (51 / 5), endingTimestampMs = 10,
            loss = Some ''mean_squared_error'', optimizer = Some ''AdamOptimizer''\<rparr>],
         [Some \<lparr>taskId = Some ''m/fit'', taskType = ''model'', modelName = ''m'',
                 functionName = ''fit'', batchSize = 32, versionSetId = Some ''v1'',
                 environmentId = Some ''envJS'', numWarmUpIterations = 2,
                 numBenchmarkedIterations = 5, timesMs = None,
                 averageTimeMs = Finite (48 / 5), endingTimestampMs = 1014,
                 loss = None, optimizer = None\<rparr>]),
    \<lparr>trace =
       [AddEnvironmentInfoToFirestore (BrowserEnvironmentInfo ''chrome-linux'' ''UA''),
        AddVersionSetToFirestore ''1.0'',
        Fetch ''./base/data/benchmarks.json'',
        AddEnvironmentInfoToFirestore (PythonEnvironmentInfo ''py''),
        Fetch ''./base/data/m/model.json'', ModelFromJSON ''topology'',
        AddOrGetTaskId ''model'' ''m'' ''fit'',
        RandomUniform [Some 32, Some 4], RandomUniform [Some 32, Some 2],
        Compile (Some ''meanSquaredError'') (Some ''adam''),
        Fit (Single 0) (Single 1) 2, Now, Fit (Single 0) (Single 1) 5, Now,
        Dispose [0, 1],
        AddBenchmarkRunsToFirestore
          [\<lparr>taskId = Some ''m/fit'', taskType = ''model'', modelName = ''m'',
              functionName = ''fit'', batchSize = 32, versionSetId = None,
              environmentId = Some ''envPy'', numWarmUpIterations = 2,
              numBenchmarkedIterations = 5, timesMs = None,
              averageTimeMs = Finite (51 / 5), endingTimestampMs = 10,
              loss = Some ''mean_squared_error'', optimizer = Some ''AdamOptimizer''\<rparr>]],
     nextTensorId = 2, liveTensors = []\<rparr>)"
  by (simp add: run_eval_defs suiteFit_def)

text \<open>
  Claim C7 fails for the measured runs: the only batch written holds the reference runs.
  In this run of one model with one \<open>fit\<close> entry, the measured run (environment
  \<open>envJS\<close>, average 48/5) is returned in the second list and is not in the batch.
\<close>

theorem measured_runs_not_written:
  "benchmarkModels (sampleWorld suiteFit ReturnsTensor) initialState =
   (Inr ([\<lparr>taskId = Some ''m/fit'', taskType = ''model'', modelName = ''m'',
            functionName = ''fit'', batchSize = 32, versionSetId = None,
            environmentId = Some ''envPy'', numWarmUpIterations = 2,
            numBenchmarkedIterations = 5, timesMs = None,
            averageTimeMs = Finite (51 / 5), endingTimestampMs = 10,
            loss = Some ''mean_squared_error'', optimizer = Some ''AdamOptimizer''\<rparr>],
         [Some \<lparr>taskId = Some ''m/fit'', taskType = ''model'', modelName = ''m'',
                 functionName = ''fit'', batchSize = 32, versionSetId = Some ''v1'',
                 environmentId = Some ''envJS'', numWarmUpIterations = 2,
                 numBenchmarkedIterations = 5, timesMs = None,
                 averageTimeMs = Finite (48 / 5), endingTimestampMs = 1014,
                 loss = None, optimizer = None\<rparr>]),
    \<lparr>trace =
       [AddEnvironmentInfoToFirestore (BrowserEnvironmentInfo ''chrome-linux'' ''UA''),
        AddVersionSetToFirestore ''1.0'',
        Fetch ''./base/data/benchmarks.json'',
        AddEnvironmentInfoToFirestore (PythonEnvironmentInfo ''py''),
        Fetch ''./base/data/m/model.json'', ModelFromJSON ''topology'',
        AddOrGetTaskId ''model'' ''m'' ''fit'',
        RandomUniform [Some 32, Some 4], RandomUniform [Some 32, Some 2],
        Compile (Some ''meanSquaredError'') (Some ''adam''),
        Fit (Single 0) (Single 1) 2, Now, Fit (Single 0) (Single 1) 5, Now,
        Dispose [0, 1],
        AddBenchmarkRunsToFirestore
          [\<lparr>taskId = Some ''m/fit'', taskType = ''model'', modelName = ''m'',
              functionName = ''fit'', batchSize = 32, versionSetId = None,
              environmentId = Some ''envPy'', numWarmUpIterations = 2,
              numBenchmarkedIterations = 5, timesMs = None,
              averageTimeMs = Finite (51 / 5), endingTimestampMs = 10,
              loss = Some ''mean_squared_error'', optimizer = Some ''AdamOptimizer''\<rparr>]],
     nextTensorId = 2, liveTensors = []\<rparr>)"
  by (rule sample_fit_run)

lemma taskIdRequests_no_write:
  "AddBenchmarkRunsToFirestore runs \<notin> set (taskIdRequests ps)"
  by (auto simp: taskIdRequests_def)

lemma datastore_event_in_filter:
  "e \<in> set evs \<Longrightarrow> isDatastoreEvent e \<Longrightarrow> e \<in> set (filter isDatastoreEvent evs)"
  by simp

lemma no_write_before_end:
  assumes "filter isDatastoreEvent evs = taskIdRequests ps"
  shows "AddBenchmarkRunsToFirestore runs \<notin> set (prelude w info suiteLog @ evs)"
proof
  assume "AddBenchmarkRunsToFirestore runs \<in> set (prelude w info suiteLog @ evs)"
  then have "AddBenchmarkRunsToFirestore runs \<in> set evs"
    by (simp add: prelude_def)
  then have "AddBenchmarkRunsToFirestore runs \<in> set (filter isDatastoreEvent evs)"
    by simp
  with assms show False by (simp add: taskIdRequests_no_write)
qed

text \<open>
  Claim C7, amended. When the run completes, the reference runs of all pairs, in processing
  order and with their identifiers set, are written in one batch: the write is the last event
  of the run, it carries exactly the list of reference runs, and no other batch is written
  before it. The measured runs (one entry per pair) are returned in a list of their own,
  which is not written.
\<close>

theorem reference_runs_written_in_one_batch:
  "benchmarkModels w st = (Inr (pyRuns, tfjsRuns), st') \<longrightarrow>
     (\<exists>suiteLog pyEnvId h evs.
        fetchSuiteLog w h BENCHMARKS_JSON_URL = Some suiteLog \<and>
        trace st' = trace st @ evs @ [AddBenchmarkRunsToFirestore pyRuns] \<and>
        (\<forall>runs. AddBenchmarkRunsToFirestore runs \<notin> set evs) \<and>
        list_all2 (persistedForm w pyEnvId)
          (pairsInOrder suiteLog (getChronologicalModelNames suiteLog)) pyRuns \<and>
        length tfjsRuns = length pyRuns)"
proof
  assume "benchmarkModels w st = (Inr (pyRuns, tfjsRuns), st')"
  from benchmarkModels_Inr_summary[OF this] obtain info suiteLog pyEnvId evs where
    s: "fetchSuiteLog w (trace st @ take 2 (prelude w info suiteLog)) BENCHMARKS_JSON_URL =
          Some suiteLog"
       "trace st' = trace st @ prelude w info suiteLog @ evs @
          [AddBenchmarkRunsToFirestore pyRuns]"
       "filter isDatastoreEvent evs =
          taskIdRequests (pairsInOrder suiteLog (getChronologicalModelNames suiteLog))"
       "list_all2 (persistedForm w pyEnvId)
          (pairsInOrder suiteLog (getChronologicalModelNames suiteLog)) pyRuns"
       "list_all2 measuredForm
          (pairsInOrder suiteLog (getChronologicalModelNames suiteLog)) tfjsRuns"
    by blast
  have "trace st' = trace st @ (prelude w info suiteLog @ evs) @
          [AddBenchmarkRunsToFirestore pyRuns]"
    using s(2) by simp
  moreover have "\<forall>runs. AddBenchmarkRunsToFirestore runs \<notin> set (prelude w info suiteLog @ evs)"
    using no_write_before_end[OF s(3)] by blast
  moreover have "length tfjsRuns = length pyRuns"
    using s(4,5) by (simp add: list_all2_lengthD[symmetric])
  ultimately show "\<exists>suiteLog pyEnvId h evs.
        fetchSuiteLog w h BENCHMARKS_JSON_URL = Some suiteLog \<and>
        trace st' = trace st @ evs @ [AddBenchmarkRunsToFirestore pyRuns] \<and>
        (\<forall>runs. AddBenchmarkRunsToFirestore runs \<notin> set evs) \<and>
        list_all2 (persistedForm w pyEnvId)
          (pairsInOrder suiteLog (getChronologicalModelNames suiteLog)) pyRuns \<and>
        length tfjsRuns = length pyRuns"
    using s(1,4) by blast
qed

theorem reference_runs_written_in_one_batch_witness:
  "\<exists>pyRuns tfjsRuns st'.
     benchmarkModels (sampleWorld suiteFit ReturnsTensor) initialState =
       (Inr (pyRuns, tfjsRuns), st') \<and>
     (\<exists>suiteLog pyEnvId h evs.
        fetchSuiteLog (sampleWorld suiteFit ReturnsTensor) h BENCHMARKS_JSON_URL =
          Some suiteLog \<and>
        trace st' = trace initialState @ evs @ [AddBenchmarkRunsToFirestore pyRuns] \<and>
        (\<forall>runs. AddBenchmarkRunsToFirestore runs \<notin> set evs) \<and>
        list_all2 (persistedForm (sampleWorld suiteFit ReturnsTensor) pyEnvId)
          (pairsInOrder suiteLog (getChronologicalModelNames suiteLog)) pyRuns \<and>
        length tfjsRuns = length pyRuns)"
  using reference_runs_written_in_one_batch
          [of "sampleWorld suiteFit ReturnsTensor" initialState] sample_fit_run
  by blast

section \<open>Identifiers of the persisted runs\<close>

lemma benchmarkPair_Inr_ids:
  assumes "benchmarkPair w ctx mName model fName pyRun st = (Inr (tfjsRun, pyRun'), st')"
  shows "\<exists>tId.
           addOrGetTaskId w (trace st) taskTypeModel mName fName = Some tId \<and>
           pyRun' = pyRun\<lparr>taskId := Some tId, environmentId := Some (pyEnvironmentId ctx)\<rparr> \<and>
           (\<forall>run. tfjsRun = Some run \<longrightarrow>
              taskId run = Some tId \<and> environmentId run = Some (tfjsEnvironmentId ctx))"
proof -
  from benchmarkPair_Inr[OF assms] obtain tId xs ys st2 st3 where
    t: "addOrGetTaskId w (trace st) taskTypeModel mName fName = Some tId" and
    b: "benchmarkTask w ctx model tId mName fName pyRun xs ys st2 = (Inr tfjsRun, st3)" and
    p: "pyRun' = pyRun\<lparr>taskId := Some tId, environmentId := Some (pyEnvironmentId ctx)\<rparr>"
    by blast
  consider (p) "fName = ''predict''" | (f) "fName \<noteq> ''predict''" "fName = ''fit''"
    | (s) "fName \<noteq> ''predict''" "fName \<noteq> ''fit''" by blast
  then have "\<forall>run. tfjsRun = Some run \<longrightarrow>
              taskId run = Some tId \<and> environmentId run = Some (tfjsEnvironmentId ctx)"
  proof cases
    case p
    with b have "benchmarkPredict w ctx model tId mName fName pyRun xs st2 = (Inr tfjsRun, st3)"
      by (simp add: benchmarkTask_def)
    from benchmarkPredict_Inr(1)[OF this] show ?thesis by auto
  next
    case f
    with b have "benchmarkFit w ctx model tId mName fName pyRun xs ys st2 = (Inr tfjsRun, st3)"
      by (simp add: benchmarkTask_def)
    from benchmarkFit_Inr(4)[OF this] show ?thesis by auto
  next
    case s
    with b show ?thesis by (simp add: benchmarkTask_def skipTask_eq)
  qed
  with t p show ?thesis by blast
qed


lemma taskIdAnswers_append:
  "taskIdAnswers w h (evs1 @ evs2) = taskIdAnswers w h evs1 @ taskIdAnswers w (h @ evs1) evs2"
  by (induction evs1 arbitrary: h) simp_all

lemma taskIdAnswers_no_request:
  "filter isDatastoreEvent evs = [] \<Longrightarrow> taskIdAnswers w h evs = []"
proof (induction evs arbitrary: h)
  case Nil
  then show ?case by simp
next
  case (Cons e evs)
  then show ?case by (cases e) (simp_all split: if_splits)
qed

lemma benchmarkPair_Inr_answer:
  assumes "benchmarkPair w ctx mName model fName pyRun st = (Inr (tfjsRun, pyRun'), st')"
  shows "\<exists>evs. trace st' = trace st @ evs \<and> taskIdAnswers w (trace st) evs = [taskId pyRun']"
proof -
  from benchmarkPair_Inr_ids[OF assms] obtain tId where
    t: "addOrGetTaskId w (trace st) taskTypeModel mName fName = Some tId"
       "pyRun' = pyRun\<lparr>taskId := Some tId, environmentId := Some (pyEnvironmentId ctx)\<rparr>"
    by blast
  from benchmarkPair_Inr_state(2)[OF assms] obtain evs where
    e: "trace st' = trace st @ AddOrGetTaskId taskTypeModel mName fName # evs @
          [Dispose (inputsAndOutputs model st)]"
       "filter isDatastoreEvent evs = []"
    by blast
  have "filter isDatastoreEvent (evs @ [Dispose (inputsAndOutputs model st)]) = []"
    using e(2) by simp
  from taskIdAnswers_no_request[OF this]
  have "taskIdAnswers w (trace st)
          (AddOrGetTaskId taskTypeModel mName fName # evs @
             [Dispose (inputsAndOutputs model st)]) = [taskId pyRun']"
    using t by simp
  with e(1) show ?thesis by blast
qed

lemma benchmarkFunctions_answers:
  "benchmarkFunctions w ctx mName model tgl (py0, tf0) st = (Inr (py, tf), st') \<Longrightarrow>
   \<exists>evs new. trace st' = trace st @ evs \<and> py = py0 @ new \<and>
             map taskId new = taskIdAnswers w (trace st) evs"
proof (induction tgl arbitrary: py0 tf0 st)
  case Nil
  then show ?case by simp
next
  case (Cons entry rest)
  obtain fName pyRun where entry: "entry = (fName, pyRun)" by (cases entry)
  from Cons.prems entry obtain tfjsRun pyRun' st1 where
    a: "benchmarkPair w ctx mName model fName pyRun st = (Inr (tfjsRun, pyRun'), st1)" and
    b: "benchmarkFunctions w ctx mName model rest (py0 @ [pyRun'], tf0 @ [tfjsRun]) st1 =
          (Inr (py, tf), st')"
    by (auto split: prod.splits sum.splits)
  from benchmarkPair_Inr_answer[OF a] obtain evs1 where
    e1: "trace st1 = trace st @ evs1" "taskIdAnswers w (trace st) evs1 = [taskId pyRun']"
    by blast
  from Cons.IH[OF b] obtain evs2 new where
    e2: "trace st' = trace st1 @ evs2" "py = (py0 @ [pyRun']) @ new"
        "map taskId new = taskIdAnswers w (trace st1) evs2"
    by blast
  have "trace st' = trace st @ (evs1 @ evs2)" using e1(1) e2(1) by simp
  moreover have "py = py0 @ (pyRun' # new)" using e2(2) by simp
  moreover have "map taskId (pyRun' # new) = taskIdAnswers w (trace st) (evs1 @ evs2)"
    using e1 e2(3) by (simp add: taskIdAnswers_append)
  ultimately show ?case by blast
qed

lemma benchmarkSortedModels_answers:
  "benchmarkSortedModels w ctx suiteLog names (py0, tf0) st = (Inr (py, tf), st') \<Longrightarrow>
   \<exists>evs new. trace st' = trace st @ evs \<and> py = py0 @ new \<and>
             map taskId new = taskIdAnswers w (trace st) evs"
proof (induction names arbitrary: py0 tf0 st)
  case Nil
  then show ?case by simp
next
  case (Cons mName rest)
  from Cons.prems obtain model st1 tgl py1 tf1 st2 where
    l: "loadModel w mName st = (Inr model, st1)" and
    f: "benchmarkFunctions w ctx mName model tgl (py0, tf0) st1 = (Inr (py1, tf1), st2)" and
    r: "benchmarkSortedModels w ctx suiteLog rest (py1, tf1) st2 = (Inr (py, tf), st')"
    by (auto split: prod.splits sum.splits option.splits if_splits)
  from loadModel_Inr(1)[OF l] obtain evs0 where
    e0: "trace st1 = trace st @ evs0" "filter isDatastoreEvent evs0 = []" by blast
  from benchmarkFunctions_answers[OF f] obtain evs1 new1 where
    e1: "trace st2 = trace st1 @ evs1" "py1 = py0 @ new1"
        "map taskId new1 = taskIdAnswers w (trace st1) evs1"
    by blast
  from Cons.IH[OF r] obtain evs2 new2 where
    e2: "trace st' = trace st2 @ evs2" "py = py1 @ new2"
        "map taskId new2 = taskIdAnswers w (trace st2) evs2"
    by blast
  have "trace st' = trace st @ (evs0 @ evs1 @ evs2)" using e0(1) e1(1) e2(1) by simp
  moreover have "py = py0 @ (new1 @ new2)" using e1(2) e2(2) by simp
  moreover have "map taskId (new1 @ new2) = taskIdAnswers w (trace st) (evs0 @ evs1 @ evs2)"
    using e0 e1(1,3) e2(3)
    by (simp add: taskIdAnswers_append taskIdAnswers_no_request[OF e0(2)])
  ultimately show ?case by blast
qed

lemma persisted_runs_stamped:
  "list_all2 (persistedForm w pyEnvId) ps pyRuns \<Longrightarrow>
   pyRuns = map2 (stampedRun pyEnvId) ps (map taskId pyRuns) \<and>
   None \<notin> set (map taskId pyRuns)"
proof (induction rule: list_all2_induct)
  case Nil
  then show ?case by simp
next
  case (Cons p ps r rs)
  then show ?case
    by (cases p) (auto simp: persistedForm_def stampedRun_def)
qed

lemma sample_fit_pair:
  "\<exists>run pyRun' st1.
     benchmarkPair (sampleWorld suiteFit ReturnsTensor) sampleContext ''m'' sampleModel ''fit''
       (sampleRun ''fit'' 32 2 5 10) initialState = (Inr (Some run, pyRun'), st1)"
proof -
  have "validBatchSize (batchSize (sampleRun ''fit'' 32 2 5 10))"
    "taskIdsAvailable (sampleWorld suiteFit ReturnsTensor)"
    "tensorsConstructible (sampleWorld suiteFit ReturnsTensor)"
    "fitSucceeds (sampleWorld suiteFit ReturnsTensor)"
    by (simp_all add: validBatchSize_def taskIdsAvailable_def tensorsConstructible_def
          fitSucceeds_def sampleWorld_def sampleRun_def)
  from benchmarkPair_fit_total[OF this] show ?thesis .
qed



lemma benchmarkModels_Inr_stamped:
  assumes "benchmarkModels w st = (Inr (pyRuns, tfjsRuns), st')"
  shows "\<exists>info suiteLog pyEnvId evs.
           getBrowserEnvironmentInfo w = Inr info \<and>
           fetchSuiteLog w (trace st @ take 2 (prelude w info suiteLog)) BENCHMARKS_JSON_URL =
             Some suiteLog \<and>
           addEnvironmentInfoToFirestore w (trace st @ take 3 (prelude w info suiteLog))
             (environmentInfo suiteLog) = Some pyEnvId \<and>
           trace st' = trace st @ prelude w info suiteLog @ evs @
             [AddBenchmarkRunsToFirestore pyRuns] \<and>
           filter isDatastoreEvent evs =
             taskIdRequests (pairsInOrder suiteLog (getChronologicalModelNames suiteLog)) \<and>
           length (taskIdAnswers w (trace st @ prelude w info suiteLog) evs) =
             length (pairsInOrder suiteLog (getChronologicalModelNames suiteLog)) \<and>
           None \<notin> set (taskIdAnswers w (trace st @ prelude w info suiteLog) evs) \<and>
           pyRuns = map2 (stampedRun pyEnvId)
                      (pairsInOrder suiteLog (getChronologicalModelNames suiteLog))
                      (taskIdAnswers w (trace st @ prelude w info suiteLog) evs)"
proof -
  from benchmarkModels_Inr[OF assms] obtain info suiteLog tfjsEnvId vId pyEnvId st4 st5 where
    a: "getBrowserEnvironmentInfo w = Inr info"
       "fetchSuiteLog w (trace st @ take 2 (prelude w info suiteLog)) BENCHMARKS_JSON_URL =
          Some suiteLog"
       "addEnvironmentInfoToFirestore w (trace st @ take 3 (prelude w info suiteLog))
          (environmentInfo suiteLog) = Some pyEnvId"
       "trace st4 = trace st @ prelude w info suiteLog" and
    b: "benchmarkSortedModels w
          \<lparr>ctxVersionSetId = vId, tfjsEnvironmentId = tfjsEnvId, pyEnvironmentId = pyEnvId\<rparr>
          suiteLog (getChronologicalModelNames suiteLog) ([], []) st4 =
          (Inr (pyRuns, tfjsRuns), st5)" and
    c: "st' = emit (AddBenchmarkRunsToFirestore pyRuns) st5"
    by blast
  let ?ps = "pairsInOrder suiteLog (getChronologicalModelNames suiteLog)"
  from benchmarkSortedModels_Inr[OF b] obtain evs where
    s: "list_all2 (persistedForm w pyEnvId) ?ps pyRuns"
       "trace st5 = trace st4 @ evs"
       "filter isDatastoreEvent evs = taskIdRequests ?ps"
    by auto
  from benchmarkSortedModels_answers[OF b] obtain evs' where
    "trace st5 = trace st4 @ evs'" "map taskId pyRuns = taskIdAnswers w (trace st4) evs'"
    by auto
  with s(2) have ans: "map taskId pyRuns = taskIdAnswers w (trace st4) evs" by simp
  note P = persisted_runs_stamped[OF s(1)]
  have len: "length (taskIdAnswers w (trace st4) evs) = length ?ps"
    using list_all2_lengthD[OF s(1)] ans[symmetric] by simp
  have "trace st' = trace st @ prelude w info suiteLog @ evs @
          [AddBenchmarkRunsToFirestore pyRuns]"
    using c s(2) a(4) by simp
  moreover have "pyRuns = map2 (stampedRun pyEnvId) ?ps
                   (taskIdAnswers w (trace st @ prelude w info suiteLog) evs)"
    using P ans a(4) by simp
  moreover have "None \<notin> set (taskIdAnswers w (trace st @ prelude w info suiteLog) evs)"
    using P ans a(4) by simp
  moreover have "length (taskIdAnswers w (trace st @ prelude w info suiteLog) evs) = length ?ps"
    using len a(4) by simp
  ultimately show ?thesis using a(1,2,3) s(3) by blast
qed

text \<open>
  Claim C9. When a run completes, the batch it writes is tied to the requests of this run.
  The reference log is the one that the run fetched, after the two requests that store the
  browser environment and the version set. The environment identifier is the answer of the
  datastore to the request that stores the environment of that log, made right after the
  fetch. Between that request and the final write, the requests to the datastore are the
  requests of the task identifier of (\<open>model\<close>, model name, function name) for the pairs
  of the log, one per pair, in processing order; each is answered. The \<open>i\<close>-th record of
  the batch is the reference run of the \<open>i\<close>-th pair, with the answer to the \<open>i\<close>-th of
  these requests as its task identifier and with that environment identifier. For each
  pair, the request of its task identifier is the first event of the pair, before its tensors
  are constructed and before any record is built; the reference run that the pair hands on
  carries the answer to that request and the environment identifier of the reference log,
  and a measured run carries the same task identifier and the environment identifier of the
  browser.
\<close>

theorem persisted_runs_reference_task_and_environment:
  "(benchmarkModels w st = (Inr (pyRuns, tfjsRuns), st') \<longrightarrow>
      (\<exists>info suiteLog pyEnvId evs.
         getBrowserEnvironmentInfo w = Inr info \<and>
         fetchSuiteLog w
           (trace st @ [AddEnvironmentInfoToFirestore info,
                        AddVersionSetToFirestore (tfVersion w)])
           BENCHMARKS_JSON_URL = Some suiteLog \<and>
         addEnvironmentInfoToFirestore w
           (trace st @ [AddEnvironmentInfoToFirestore info,
                        AddVersionSetToFirestore (tfVersion w),
                        Fetch BENCHMARKS_JSON_URL])
           (environmentInfo suiteLog) = Some pyEnvId \<and>
         trace st' =
           trace st @
           [AddEnvironmentInfoToFirestore info,
            AddVersionSetToFirestore (tfVersion w),
            Fetch BENCHMARKS_JSON_URL,
            AddEnvironmentInfoToFirestore (environmentInfo suiteLog)] @
           evs @ [AddBenchmarkRunsToFirestore pyRuns] \<and>
         filter isDatastoreEvent evs =
           taskIdRequests (pairsInOrder suiteLog (getChronologicalModelNames suiteLog)) \<and>
         length (taskIdAnswers w (trace st @ prelude w info suiteLog) evs) =
           length (pairsInOrder suiteLog (getChronologicalModelNames suiteLog)) \<and>
         None \<notin> set (taskIdAnswers w (trace st @ prelude w info suiteLog) evs) \<and>
         pyRuns = map2 (stampedRun pyEnvId)
                    (pairsInOrder suiteLog (getChronologicalModelNames suiteLog))
                    (taskIdAnswers w (trace st @ prelude w info suiteLog) evs))) \<and>
   (benchmarkPair w ctx mName model fName pyRun st0 = (Inr (tfjsRun, pyRun'), st1) \<longrightarrow>
      (\<exists>tId evs.
         addOrGetTaskId w (trace st0) taskTypeModel mName fName = Some tId \<and>
         trace st1 = trace st0 @ AddOrGetTaskId taskTypeModel mName fName # evs \<and>
         taskId pyRun' = Some tId \<and> environmentId pyRun' = Some (pyEnvironmentId ctx) \<and>
         (\<forall>run. tfjsRun = Some run \<longrightarrow>
            taskId run = Some tId \<and> environmentId run = Some (tfjsEnvironmentId ctx))))"
proof (intro conjI impI)
  assume "benchmarkModels w st = (Inr (pyRuns, tfjsRuns), st')"
  from benchmarkModels_Inr_stamped[OF this]
  show "\<exists>info suiteLog pyEnvId evs.
         getBrowserEnvironmentInfo w = Inr info \<and>
         fetchSuiteLog w
           (trace st @ [AddEnvironmentInfoToFirestore info,
                        AddVersionSetToFirestore (tfVersion w)])
           BENCHMARKS_JSON_URL = Some suiteLog \<and>
         addEnvironmentInfoToFirestore w
           (trace st @ [AddEnvironmentInfoToFirestore info,
                        AddVersionSetToFirestore (tfVersion w),
                        Fetch BENCHMARKS_JSON_URL])
           (environmentInfo suiteLog) = Some pyEnvId \<and>
         trace st' =
           trace st @
           [AddEnvironmentInfoToFirestore info,
            AddVersionSetToFirestore (tfVersion w),
            Fetch BENCHMARKS_JSON_URL,
            AddEnvironmentInfoToFirestore (environmentInfo suiteLog)] @
           evs @ [AddBenchmarkRunsToFirestore pyRuns] \<and>
         filter isDatastoreEvent evs =
           taskIdRequests (pairsInOrder suiteLog (getChronologicalModelNames suiteLog)) \<and>
         length (taskIdAnswers w (trace st @ prelude w info suiteLog) evs) =
           length (pairsInOrder suiteLog (getChronologicalModelNames suiteLog)) \<and>
         None \<notin> set (taskIdAnswers w (trace st @ prelude w info suiteLog) evs) \<and>
         pyRuns = map2 (stampedRun pyEnvId)
                    (pairsInOrder suiteLog (getChronologicalModelNames suiteLog))
                    (taskIdAnswers w (trace st @ prelude w info suiteLog) evs)"
    by (simp add: prelude_def)
next
  assume a: "benchmarkPair w ctx mName model fName pyRun st0 = (Inr (tfjsRun, pyRun'), st1)"
  from benchmarkPair_Inr_ids[OF a] obtain tId where
    t: "addOrGetTaskId w (trace st0) taskTypeModel mName fName = Some tId"
       "pyRun' = pyRun\<lparr>taskId := Some tId, environmentId := Some (pyEnvironmentId ctx)\<rparr>"
       "\<forall>run. tfjsRun = Some run \<longrightarrow>
              taskId run = Some tId \<and> environmentId run = Some (tfjsEnvironmentId ctx)"
    by blast
  from benchmarkPair_Inr_state(2)[OF a] obtain evs where
    "trace st1 = trace st0 @ AddOrGetTaskId taskTypeModel mName fName #
       (evs @ [Dispose (inputsAndOutputs model st0)])"
    by auto
  with t show "\<exists>tId evs.
         addOrGetTaskId w (trace st0) taskTypeModel mName fName = Some tId \<and>
         trace st1 = trace st0 @ AddOrGetTaskId taskTypeModel mName fName # evs \<and>
         taskId pyRun' = Some tId \<and> environmentId pyRun' = Some (pyEnvironmentId ctx) \<and>
         (\<forall>run. tfjsRun = Some run \<longrightarrow>
            taskId run = Some tId \<and> environmentId run = Some (tfjsEnvironmentId ctx))"
    by auto
qed

theorem persisted_runs_reference_task_and_environment_witness:
  "(\<exists>pyRuns tfjsRuns st' info suiteLog pyEnvId evs.
      benchmarkModels (sampleWorld suiteFit ReturnsTensor) initialState =
        (Inr (pyRuns, tfjsRuns), st') \<and>
      pyRuns \<noteq> [] \<and> suiteLog = suiteFit \<and> pyEnvId = ''envPy'' \<and>
      getBrowserEnvironmentInfo (sampleWorld suiteFit ReturnsTensor) = Inr info \<and>
      trace st' =
        trace initialState @
        [AddEnvironmentInfoToFirestore info,
         AddVersionSetToFirestore (tfVersion (sampleWorld suiteFit ReturnsTensor)),
         Fetch BENCHMARKS_JSON_URL,
         AddEnvironmentInfoToFirestore (environmentInfo suiteLog)] @
        evs @ [AddBenchmarkRunsToFirestore pyRuns] \<and>
      filter isDatastoreEvent evs =
        taskIdRequests (pairsInOrder suiteLog (getChronologicalModelNames suiteLog)) \<and>
      pyRuns = map2 (stampedRun pyEnvId)
                 (pairsInOrder suiteLog (getChronologicalModelNames suiteLog))
                 (taskIdAnswers (sampleWorld suiteFit ReturnsTensor)
                    (trace initialState @
                     prelude (sampleWorld suiteFit ReturnsTensor) info suiteLog) evs)) \<and>
   (\<exists>run pyRun' st1 tId evs.
      benchmarkPair (sampleWorld suiteFit ReturnsTensor) sampleContext ''m'' sampleModel ''fit''
        (sampleRun ''fit'' 32 2 5 10) initialState = (Inr (Some run, pyRun'), st1) \<and>
      addOrGetTaskId (sampleWorld suiteFit ReturnsTensor) (trace initialState) taskTypeModel
        ''m'' ''fit'' = Some tId \<and>
      trace st1 = trace initialState @ AddOrGetTaskId taskTypeModel ''m'' ''fit'' # evs \<and>
      taskId pyRun' = Some tId \<and> environmentId pyRun' = Some (pyEnvironmentId sampleContext) \<and>
      taskId run = Some tId \<and> environmentId run = Some (tfjsEnvironmentId sampleContext))"
proof -
  let ?w = "sampleWorld suiteFit ReturnsTensor"
  obtain pyRuns tfjsRuns st' where
    r: "benchmarkModels ?w initialState = (Inr (pyRuns, tfjsRuns), st')" and
    ne: "pyRuns \<noteq> []"
    using sample_fit_run by blast
  from sample_fit_pair obtain run pyRun' st1 where
    p: "benchmarkPair ?w sampleContext ''m'' sampleModel
          ''fit'' (sampleRun ''fit'' 32 2 5 10) initialState = (Inr (Some run, pyRun'), st1)"
    by blast
  note T = persisted_runs_reference_task_and_environment
             [of ?w initialState pyRuns tfjsRuns st'
                 sampleContext "''m''" sampleModel "''fit''" "sampleRun ''fit'' 32 2 5 10"
                 initialState "Some run" pyRun' st1]
  from T[THEN conjunct1, THEN mp, OF r] obtain info suiteLog pyEnvId evs where
    a: "getBrowserEnvironmentInfo ?w = Inr info"
       "fetchSuiteLog ?w
           (trace initialState @ [AddEnvironmentInfoToFirestore info,
                        AddVersionSetToFirestore (tfVersion ?w)])
           BENCHMARKS_JSON_URL = Some suiteLog"
       "addEnvironmentInfoToFirestore ?w
           (trace initialState @ [AddEnvironmentInfoToFirestore info,
                        AddVersionSetToFirestore (tfVersion ?w),
                        Fetch BENCHMARKS_JSON_URL])
           (environmentInfo suiteLog) = Some pyEnvId"
       "trace st' =
           trace initialState @
           [AddEnvironmentInfoToFirestore info,
            AddVersionSetToFirestore (tfVersion ?w),
            Fetch BENCHMARKS_JSON_URL,
            AddEnvironmentInfoToFirestore (environmentInfo suiteLog)] @
           evs @ [AddBenchmarkRunsToFirestore pyRuns]"
       "filter isDatastoreEvent evs =
           taskIdRequests (pairsInOrder suiteLog (getChronologicalModelNames suiteLog))"
       "pyRuns = map2 (stampedRun pyEnvId)
                    (pairsInOrder suiteLog (getChronologicalModelNames suiteLog))
                    (taskIdAnswers ?w (trace initialState @ prelude ?w info suiteLog) evs)"
    by blast
  from a(2) have sl: "suiteLog = suiteFit" by (simp add: sampleWorld_def)
  from a(3) sl have pe: "pyEnvId = ''envPy''" by (simp add: sampleWorld_def suiteFit_def)
  from r ne sl pe a(1,4,5,6) have first:
    "\<exists>pyRuns tfjsRuns st' info suiteLog pyEnvId evs.
      benchmarkModels ?w initialState = (Inr (pyRuns, tfjsRuns), st') \<and>
      pyRuns \<noteq> [] \<and> suiteLog = suiteFit \<and> pyEnvId = ''envPy'' \<and>
      getBrowserEnvironmentInfo ?w = Inr info \<and>
      trace st' =
        trace initialState @
        [AddEnvironmentInfoToFirestore info,
         AddVersionSetToFirestore (tfVersion ?w),
         Fetch BENCHMARKS_JSON_URL,
         AddEnvironmentInfoToFirestore (environmentInfo suiteLog)] @
        evs @ [AddBenchmarkRunsToFirestore pyRuns] \<and>
      filter isDatastoreEvent evs =
        taskIdRequests (pairsInOrder suiteLog (getChronologicalModelNames suiteLog)) \<and>
      pyRuns = map2 (stampedRun pyEnvId)
                 (pairsInOrder suiteLog (getChronologicalModelNames suiteLog))
                 (taskIdAnswers ?w (trace initialState @ prelude ?w info suiteLog) evs)"
    by blast
  from T p have second:
    "\<exists>run pyRun' st1 tId evs.
      benchmarkPair ?w sampleContext ''m'' sampleModel ''fit''
        (sampleRun ''fit'' 32 2 5 10) initialState = (Inr (Some run, pyRun'), st1) \<and>
      addOrGetTaskId ?w (trace initialState) taskTypeModel
        ''m'' ''fit'' = Some tId \<and>
      trace st1 = trace initialState @ AddOrGetTaskId taskTypeModel ''m'' ''fit'' # evs \<and>
      taskId pyRun' = Some tId \<and> environmentId pyRun' = Some (pyEnvironmentId sampleContext) \<and>
      taskId run = Some tId \<and> environmentId run = Some (tfjsEnvironmentId sampleContext)"
    by blast
  from first second show ?thesis by blast
qed

section \<open>Reference runs of all pairs\<close>







section \<open>Models without recorded functions\<close>

lemma harmless_Inr [simp]: "harmless st (Inr x, st)"
  by (simp add: harmless_def)

lemma harmless_emit_Inr [simp]: "harmless st (Inr x, emit e st)"
  by (simp add: harmless_def)

lemma harmless_emit_Rejected [simp]: "harmless st (Inl (Rejected name), emit e st)"
  by (simp add: harmless_def)

lemma harmless_bind:
  assumes "harmless st (m st)" "\<And>x st1. m st = (Inr x, st1) \<Longrightarrow> harmless st1 (f x st1)"
  shows "harmless st (case m st of (Inl e, st1) \<Rightarrow> (Inl e, st1) | (Inr x, st1) \<Rightarrow> f x st1)"
proof (cases "m st")
  case (Pair r st1)
  show ?thesis
  proof (cases r)
    case (Inl e)
    with Pair assms(1) show ?thesis by (simp add: harmless_def)
  next
    case (Inr x)
    from Pair Inr assms(1) obtain evs1 where e1: "trace st1 = trace st @ evs1"
      by (auto simp: harmless_def)
    from assms(2)[of x st1] Pair Inr obtain evs2 where
      e2: "trace (snd (f x st1)) = trace st1 @ evs2"
      and n: "\<forall>e. fst (f x st1) = Inl e \<longrightarrow> \<not> isNoTaskError e"
      by (auto simp: harmless_def)
    have "trace (snd (f x st1)) = trace st @ (evs1 @ evs2)" using e1 e2 by simp
    with n Pair Inr show ?thesis unfolding harmless_def by auto
  qed
qed

lemma harmless_trans:
  assumes "\<exists>evs. trace st1 = trace st @ evs" "harmless st1 res"
  shows "harmless st res"
proof -
  from assms obtain evs1 evs2 where
    "trace st1 = trace st @ evs1" "trace (snd res) = trace st1 @ evs2"
    by (auto simp: harmless_def)
  then have "trace (snd res) = trace st @ (evs1 @ evs2)" by simp
  with assms(2) show ?thesis unfolding harmless_def by blast
qed

lemma harmless_after:
  assumes "harmless st (r, st1)" "\<exists>evs. trace st2 = trace st1 @ evs"
  shows "harmless st (r, st2)"
proof -
  from assms obtain evs1 evs2 where
    "trace st1 = trace st @ evs1" "trace st2 = trace st1 @ evs2"
    by (auto simp: harmless_def)
  then have "trace st2 = trace st @ (evs1 @ evs2)" by simp
  with assms(1) show ?thesis unfolding harmless_def by auto
qed

lemma harmless_Inl_after:
  assumes "harmless st (Inl e :: Error + 'a, st1)" "\<exists>evs. trace st2 = trace st1 @ evs"
  shows "harmless st (Inl e :: Error + 'b, st2)"
proof -
  from assms obtain evs1 evs2 where
    "trace st1 = trace st @ evs1" "trace st2 = trace st1 @ evs2"
    by (auto simp: harmless_def)
  then have "trace st2 = trace st @ (evs1 @ evs2)" by simp
  with assms(1) show ?thesis unfolding harmless_def by auto
qed

lemma harmless_randomUniformCall: "harmless st (randomUniformCall w shape st)"
  by (simp add: randomUniformCall_def Let_def harmless_def)

lemma harmless_randomTensors: "harmless st (randomTensors w b shapes st)"
proof (induction shapes arbitrary: st)
  case Nil
  then show ?case by simp
next
  case (Cons shape rest)
  have "harmless st
          (case randomUniformCall w (Some b # drop 1 shape) st of
             (Inl e, st1) \<Rightarrow> (Inl e, st1)
           | (Inr t, st1) \<Rightarrow>
               (case randomTensors w b rest st1 of
                  (Inl e, st2) \<Rightarrow> (Inl e, st2)
                | (Inr ts, st2) \<Rightarrow> (Inr (t # ts), st2)))"
  proof (rule harmless_bind[OF harmless_randomUniformCall])
    fix t st1
    show "harmless st1 (case randomTensors w b rest st1 of
                  (Inl e, st2) \<Rightarrow> (Inl e, st2)
                | (Inr ts, st2) \<Rightarrow> (Inr (t # ts), st2))"
      by (rule harmless_bind[OF Cons.IH]) simp
  qed
  then show ?case by simp
qed

lemma harmless_getRandomInputsAndOutputs:
  "harmless st (getRandomInputsAndOutputs w model b st)"
proof -
  have ab: "harmless s0 (Inl e :: Error + Tensors \<times> Tensors, tidyAbort st s1)"
    if "harmless s0 (Inl e :: Error + Tensor list, s1)" for s0 s1 e
    using that by (rule harmless_Inl_after) (simp add: tidyAbort_def)
  show ?thesis
  proof (cases "randomTensors w b (inputs model) st")
    case (Pair r st1)
    note P1 = Pair
    have h1: "harmless st (r, st1)" using harmless_randomTensors[of st w b "inputs model"] Pair
      by simp
    show ?thesis
    proof (cases r)
      case (Inl e)
      with P1 ab[of st e st1] h1 show ?thesis by (simp add: getRandomInputsAndOutputs_def)
    next
      case (Inr xs)
      from h1 have g1: "\<exists>evs. trace st1 = trace st @ evs" by (simp add: harmless_def)
      show ?thesis
      proof (cases "randomTensors w b (outputs model) st1")
        case (Pair r2 st2)
        have h2: "harmless st1 (r2, st2)"
          using harmless_randomTensors[of st1 w b "outputs model"] Pair by simp
        have h2': "harmless st (r2, st2)" by (rule harmless_trans[OF g1 h2])
        show ?thesis
        proof (cases r2)
          case (Inl e)
          with P1 Pair \<open>r = Inr xs\<close> ab[of st e st2] h2' show ?thesis
            by (simp add: getRandomInputsAndOutputs_def)
        next
          case (Inr ys)
          with P1 Pair \<open>r = Inr xs\<close> h2' show ?thesis
            by (simp add: getRandomInputsAndOutputs_def harmless_def)
        qed
      qed
    qed
  qed
qed

lemma harmless_dataCall: "harmless st (dataCall w t st)"
  by (simp add: dataCall_def harmless_def)

lemma harmless_syncData: "harmless st (syncData w ts st)"
proof (induction ts arbitrary: st)
  case Nil
  then show ?case by simp
next
  case (Cons t ts)
  have "harmless st (case dataCall w t st of
                       (Inl e, st1) \<Rightarrow> (Inl e, st1)
                     | (Inr u, st1) \<Rightarrow> syncData w ts st1)"
    by (rule harmless_bind[OF harmless_dataCall]) (rule Cons.IH)
  then show ?case by simp
qed

lemma harmless_syncDataAndDispose: "harmless st (syncDataAndDispose w out st)"
proof -
  have d: "harmless s (Inr (), dispose ts s)" for s :: State and ts
    by (simp add: harmless_def)
  show ?thesis
  proof (cases out)
    case (Single t)
    have "harmless st (case dataCall w t st of
                       (Inl e, st1) \<Rightarrow> (Inl e, st1)
                     | (Inr u, st1) \<Rightarrow> (Inr (), dispose (tensorList (Single t)) st1))"
      by (rule harmless_bind[OF harmless_dataCall]) (rule d)
    with Single show ?thesis by (simp add: syncDataAndDispose_def)
  next
    case (Many ts)
    have "harmless st (case syncData w ts st of
                       (Inl e, st1) \<Rightarrow> (Inl e, st1)
                     | (Inr u, st1) \<Rightarrow> (Inr (), dispose (tensorList (Many ts)) st1))"
      by (rule harmless_bind[OF harmless_syncData]) (rule d)
    with Many show ?thesis by (simp add: syncDataAndDispose_def)
  qed
qed

lemma harmless_predictCall: "harmless st (predictCall w model xs st)"
  by (simp add: predictCall_def Let_def harmless_def split: PredictResult.splits)

lemma harmless_predictAndSync: "harmless st (predictAndSync w model xs st)"
  unfolding predictAndSync_def
  by (rule harmless_bind[OF harmless_predictCall]) (rule harmless_syncDataAndDispose)

lemma harmless_warmUpPredict: "harmless st (warmUpPredict w model xs n st)"
proof (induction n arbitrary: st)
  case 0
  then show ?case by simp
next
  case (Suc n)
  show ?case
    unfolding warmUpPredict_Suc
    by (rule harmless_bind[OF harmless_predictAndSync]) (rule Suc.IH)
qed

lemma harmless_benchmarkedPredict: "harmless st (benchmarkedPredict w model xs n ts st)"
proof (induction n arbitrary: st ts)
  case 0
  then show ?case by simp
next
  case (Suc n)
  have "harmless (emit Now st)
          (case predictAndSync w model xs (emit Now st) of
             (Inl e, st3) \<Rightarrow> (Inl e, st3)
           | (Inr u, st3) \<Rightarrow>
               benchmarkedPredict w model xs n (ts @ [now w (trace st3) - now w (trace st)])
                 (emit Now st3))"
  proof (rule harmless_bind[OF harmless_predictAndSync])
    fix u st3
    show "harmless st3
            (benchmarkedPredict w model xs n (ts @ [now w (trace st3) - now w (trace st)])
               (emit Now st3))"
      by (rule harmless_trans[OF _ Suc.IH]) simp
  qed
  then show ?case
    unfolding benchmarkedPredict_Suc by (rule harmless_trans[rotated]) simp
qed


lemma harmless_benchmarkPredict:
  "harmless st (benchmarkPredict w ctx model tId mName fName pyRun xs st)"
  unfolding benchmarkPredict_def
proof (rule harmless_bind[OF harmless_warmUpPredict])
  fix u st1
  show "harmless st1
          (case benchmarkedPredict w model xs (numBenchmarkedIterations pyRun) [] st1 of
             (Inl e, st2) \<Rightarrow> (Inl e, st2)
           | (Inr ts, st2) \<Rightarrow>
               (case mean ts of
                  Inl e \<Rightarrow> (Inl e, st2)
                | Inr avg \<Rightarrow>
                    (Inr (Some \<lparr>taskId = Some tId,
                                taskType = taskTypeModel,
                                modelName = mName,
                                functionName = fName,
                                batchSize = batchSize pyRun,
                                versionSetId = Some (ctxVersionSetId ctx),
                                environmentId = Some (tfjsEnvironmentId ctx),
                                numWarmUpIterations = numWarmUpIterations pyRun,
                                numBenchmarkedIterations = numBenchmarkedIterations pyRun,
                                timesMs = Some ts,
                                averageTimeMs = avg,
                                endingTimestampMs = dateNow w (trace st2),
                                loss = None,
                                optimizer = None\<rparr>), st2)))"
    by (rule harmless_bind[OF harmless_benchmarkedPredict])
       (auto simp: harmless_def mean_def)
qed

lemma harmless_compileCall: "harmless st (compileCall w model l opt st)"
  by (simp add: compileCall_def harmless_def)

lemma harmless_fitCall: "harmless st (fitCall w model xs ys epochs st)"
  by (simp add: fitCall_def harmless_def)

lemma harmless_benchmarkFit:
  "harmless st (benchmarkFit w ctx model tId mName fName pyRun xs ys st)"
  unfolding benchmarkFit_def
proof (rule harmless_bind[OF harmless_compileCall])
  fix u st1
  show "harmless st1
          (case fitCall w model xs ys (numWarmUpIterations pyRun) st1 of
             (Inl e, st2) \<Rightarrow> (Inl e, st2)
           | (Inr u, st2) \<Rightarrow>
               (case utilNow w st2 of
                  (t0, st3) \<Rightarrow>
                    (case fitCall w model xs ys (numBenchmarkedIterations pyRun) st3 of
                       (Inl e, st4) \<Rightarrow> (Inl e, st4)
                     | (Inr u, st4) \<Rightarrow>
                         (case utilNow w st4 of
                            (t1, st5) \<Rightarrow>
                              (Inr (Some \<lparr>taskId = Some tId,
                                          taskType = taskTypeModel,
                                          modelName = mName,
                                          functionName = fName,
                                          batchSize = batchSize pyRun,
                                          versionSetId = Some (ctxVersionSetId ctx),
                                          environmentId = Some (tfjsEnvironmentId ctx),
                                          numWarmUpIterations = numWarmUpIterations pyRun,
                                          numBenchmarkedIterations =
                                            numBenchmarkedIterations pyRun,
                                          timesMs = None,
                                          averageTimeMs =
                                            numberDivide (t1 - t0)
                                              (of_nat (numBenchmarkedIterations pyRun)),
                                          endingTimestampMs = dateNow w (trace st5),
                                          loss = None,
                                          optimizer = None\<rparr>), st5)))))"
  proof (rule harmless_bind[OF harmless_fitCall])
    fix u st2
    have "\<exists>evs. trace (emit Now st2) = trace st2 @ evs" by simp
    then show "harmless st2
            (case utilNow w st2 of
                  (t0, st3) \<Rightarrow>
                    (case fitCall w model xs ys (numBenchmarkedIterations pyRun) st3 of
                       (Inl e, st4) \<Rightarrow> (Inl e, st4)
                     | (Inr u, st4) \<Rightarrow>
                         (case utilNow w st4 of
                            (t1, st5) \<Rightarrow>
                              (Inr (Some \<lparr>taskId = Some tId,
                                          taskType = taskTypeModel,
                                          modelName = mName,
                                          functionName = fName,
                                          batchSize = batchSize pyRun,
                                          versionSetId = Some (ctxVersionSetId ctx),
                                          environmentId = Some (tfjsEnvironmentId ctx),
                                          numWarmUpIterations = numWarmUpIterations pyRun,
                                          numBenchmarkedIterations =
                                            numBenchmarkedIterations pyRun,
                                          timesMs = None,
                                          averageTimeMs =
                                            numberDivide (t1 - t0)
                                              (of_nat (numBenchmarkedIterations pyRun)),
                                          endingTimestampMs = dateNow w (trace st5),
                                          loss = None,
                                          optimizer = None\<rparr>), st5))))"
      unfolding utilNow_def prod.case
      by (rule harmless_trans, rule_tac harmless_bind[OF harmless_fitCall])
         (simp add: harmless_def)
  qed
qed

lemma harmless_benchmarkTask:
  "harmless st (benchmarkTask w ctx model tId mName fName pyRun xs ys st)"
  unfolding benchmarkTask_def
  by (simp add: harmless_benchmarkPredict harmless_benchmarkFit skipTask_eq)

lemma harmless_benchmarkPair: "harmless st (benchmarkPair w ctx mName model fName pyRun st)"
proof (cases "addOrGetTaskId w (trace st) taskTypeModel mName fName")
  case None
  then show ?thesis unfolding benchmarkPair_unfold by simp
next
  case (Some tId)
  let ?st1 = "emit (AddOrGetTaskId taskTypeModel mName fName) st"
  have g: "\<exists>evs. trace ?st1 = trace st @ evs" by simp
  show ?thesis
  proof (cases "validBatchSize (batchSize pyRun)")
    case False
    with Some show ?thesis unfolding benchmarkPair_unfold by (simp add: harmless_def)
  next
    case True
    have "harmless ?st1
            (case getRandomInputsAndOutputs w model (batchSize pyRun) ?st1 of
               (Inl e, st2) \<Rightarrow> (Inl e, st2)
             | (Inr (xs, ys), st2) \<Rightarrow>
                 (case benchmarkTask w ctx model tId mName fName pyRun xs ys st2 of
                    (Inl e, st3) \<Rightarrow> (Inl e, st3)
                  | (Inr tfjsRun, st3) \<Rightarrow>
                      (Inr (tfjsRun,
                            pyRun\<lparr>taskId := Some tId,
                                  environmentId := Some (pyEnvironmentId ctx)\<rparr>),
                       dispose (tensorList xs @ tensorList ys) st3)))"
    proof (rule harmless_bind[OF harmless_getRandomInputsAndOutputs])
      fix p :: "Tensors \<times> Tensors" and st2
      obtain xs ys where p: "p = (xs, ys)" by (cases p)
      have "harmless st2
              (case benchmarkTask w ctx model tId mName fName pyRun xs ys st2 of
                    (Inl e, st3) \<Rightarrow> (Inl e, st3)
                  | (Inr tfjsRun, st3) \<Rightarrow>
                      (Inr (tfjsRun,
                            pyRun\<lparr>taskId := Some tId,
                                  environmentId := Some (pyEnvironmentId ctx)\<rparr>),
                       dispose (tensorList xs @ tensorList ys) st3))"
        by (rule harmless_bind[OF harmless_benchmarkTask]) (simp add: harmless_def)
      with p show "harmless st2
              (case p of (xs, ys) \<Rightarrow>
                 (case benchmarkTask w ctx model tId mName fName pyRun xs ys st2 of
                    (Inl e, st3) \<Rightarrow> (Inl e, st3)
                  | (Inr tfjsRun, st3) \<Rightarrow>
                      (Inr (tfjsRun,
                            pyRun\<lparr>taskId := Some tId,
                                  environmentId := Some (pyEnvironmentId ctx)\<rparr>),
                       dispose (tensorList xs @ tensorList ys) st3)))"
        by simp
    qed
    from harmless_trans[OF g this] Some True show ?thesis
      unfolding benchmarkPair_unfold by simp
  qed
qed

lemma harmless_benchmarkFunctions:
  "harmless st (benchmarkFunctions w ctx mName model tgl runs st)"
proof (induction tgl arbitrary: runs st)
  case Nil
  then show ?case by simp
next
  case (Cons entry rest)
  obtain fName pyRun where e: "entry = (fName, pyRun)" by (cases entry)
  obtain pyRuns tfjsRuns where r: "runs = (pyRuns, tfjsRuns)" by (cases runs)
  have "harmless st
          (case benchmarkPair w ctx mName model fName pyRun st of
             (Inl e, st1) \<Rightarrow> (Inl e, st1)
           | (Inr res, st1) \<Rightarrow>
               (case res of (tfjsRun, pyRun') \<Rightarrow>
                  benchmarkFunctions w ctx mName model rest
                    (pyRuns @ [pyRun'], tfjsRuns @ [tfjsRun]) st1))"
    by (rule harmless_bind[OF harmless_benchmarkPair]) (simp add: Cons.IH split: prod.splits)
  then show ?case
    by (simp add: e r split: prod.splits sum.splits)
qed

lemma harmless_loadModel: "harmless st (loadModel w mName st)"
  by (simp add: loadModel_def Let_def harmless_def split: option.splits)

lemma harmless_benchmarkSortedModels:
  assumes "\<forall>mName \<in> set names. map_of (data suiteLog) mName \<noteq> Some []"
  shows "harmless st (benchmarkSortedModels w ctx suiteLog names runs st)"
  using assms
proof (induction names arbitrary: runs st)
  case Nil
  then show ?case by simp
next
  case (Cons mName rest)
  then have ne: "map_of (data suiteLog) mName \<noteq> Some []"
    and IH: "\<And>runs st. harmless st (benchmarkSortedModels w ctx suiteLog rest runs st)"
    by simp_all
  have "harmless st
          (case loadModel w mName st of
             (Inl e, st1) \<Rightarrow> (Inl e, st1)
           | (Inr model, st1) \<Rightarrow>
               (case map_of (data suiteLog) mName of
                  None \<Rightarrow> (Inl (TypeError ''Object.keys''), st1)
                | Some taskGroupLog \<Rightarrow>
                    if length (map fst taskGroupLog) = 0
                    then (Inl (NoTaskError mName), st1)
                    else (case benchmarkFunctions w ctx mName model taskGroupLog runs st1 of
                            (Inl e, st2) \<Rightarrow> (Inl e, st2)
                          | (Inr runs', st2) \<Rightarrow>
                              benchmarkSortedModels w ctx suiteLog rest runs' st2)))"
  proof (rule harmless_bind[OF harmless_loadModel])
    fix model st1
    show "harmless st1
            (case map_of (data suiteLog) mName of
                  None \<Rightarrow> (Inl (TypeError ''Object.keys''), st1)
                | Some taskGroupLog \<Rightarrow>
                    if length (map fst taskGroupLog) = 0
                    then (Inl (NoTaskError mName), st1)
                    else (case benchmarkFunctions w ctx mName model taskGroupLog runs st1 of
                            (Inl e, st2) \<Rightarrow> (Inl e, st2)
                          | (Inr runs', st2) \<Rightarrow>
                              benchmarkSortedModels w ctx suiteLog rest runs' st2))"
    proof (cases "map_of (data suiteLog) mName")
      case None
      then show ?thesis by (simp add: harmless_def)
    next
      case (Some tgl)
      with ne have "tgl \<noteq> []" by simp
      moreover have "harmless st1
            (case benchmarkFunctions w ctx mName model tgl runs st1 of
                            (Inl e, st2) \<Rightarrow> (Inl e, st2)
                          | (Inr runs', st2) \<Rightarrow>
                              benchmarkSortedModels w ctx suiteLog rest runs' st2)"
        by (rule harmless_bind[OF harmless_benchmarkFunctions]) (rule IH)
      ultimately show ?thesis using Some by simp
    qed
  qed
  then show ?case by simp
qed


lemma harmless_grows: "harmless st res \<Longrightarrow> grows st res"
  by (simp add: harmless_def grows_def)

lemma grows_bind:
  assumes "grows st (m st)" "\<And>x st1. grows st1 (f x st1)"
  shows "grows st (case m st of (Inl e, st1) \<Rightarrow> (Inl e, st1) | (Inr x, st1) \<Rightarrow> f x st1)"
proof (cases "m st")
  case (Pair r st1)
  show ?thesis
  proof (cases r)
    case (Inl e)
    with Pair assms(1) show ?thesis by (simp add: grows_def)
  next
    case (Inr x)
    from Pair Inr assms(1) obtain evs1 where e1: "trace st1 = trace st @ evs1"
      by (auto simp: grows_def)
    from assms(2)[of st1 x] obtain evs2 where
      e2: "trace (snd (f x st1)) = trace st1 @ evs2"
      by (auto simp: grows_def)
    have "trace (snd (f x st1)) = trace st @ (evs1 @ evs2)" using e1 e2 by simp
    with Pair Inr show ?thesis unfolding grows_def by auto
  qed
qed

lemma grows_benchmarkSortedModels:
  "grows st (benchmarkSortedModels w ctx suiteLog names runs st)"
proof (induction names arbitrary: runs st)
  case Nil
  then show ?case by (simp add: grows_def)
next
  case (Cons mName rest)
  have "grows st
          (case loadModel w mName st of
             (Inl e, st1) \<Rightarrow> (Inl e, st1)
           | (Inr model, st1) \<Rightarrow>
               (case map_of (data suiteLog) mName of
                  None \<Rightarrow> (Inl (TypeError ''Object.keys''), st1)
                | Some taskGroupLog \<Rightarrow>
                    if length (map fst taskGroupLog) = 0
                    then (Inl (NoTaskError mName), st1)
                    else (case benchmarkFunctions w ctx mName model taskGroupLog runs st1 of
                            (Inl e, st2) \<Rightarrow> (Inl e, st2)
                          | (Inr runs', st2) \<Rightarrow>
                              benchmarkSortedModels w ctx suiteLog rest runs' st2)))"
  proof (rule grows_bind[OF harmless_grows[OF harmless_loadModel]])
    fix model st1
    have "grows st1
            (case benchmarkFunctions w ctx mName model tgl runs st1 of
                            (Inl e, st2) \<Rightarrow> (Inl e, st2)
                          | (Inr runs', st2) \<Rightarrow>
                              benchmarkSortedModels w ctx suiteLog rest runs' st2)" for tgl
      by (rule grows_bind[OF harmless_grows[OF harmless_benchmarkFunctions]]) (rule Cons.IH)
    then show "grows st1
            (case map_of (data suiteLog) mName of
                  None \<Rightarrow> (Inl (TypeError ''Object.keys''), st1)
                | Some taskGroupLog \<Rightarrow>
                    if length (map fst taskGroupLog) = 0
                    then (Inl (NoTaskError mName), st1)
                    else (case benchmarkFunctions w ctx mName model taskGroupLog runs st1 of
                            (Inl e, st2) \<Rightarrow> (Inl e, st2)
                          | (Inr runs', st2) \<Rightarrow>
                              benchmarkSortedModels w ctx suiteLog rest runs' st2))"
      by (simp add: grows_def split: option.splits)
  qed
  then show ?case by simp
qed

lemma benchmarkModels_unfold:
  "benchmarkModels w st =
     (case getBrowserEnvironmentInfo w of
        Inl e \<Rightarrow> (Inl e, st)
      | Inr info \<Rightarrow>
          (case addEnvironmentInfoCall w info st of
             (Inl e, st1) \<Rightarrow> (Inl e, st1)
           | (Inr tfjsEnvId, st1) \<Rightarrow> afterBrowserEnvironment w tfjsEnvId st1))"
  unfolding benchmarkModels_def afterBrowserEnvironment_def ..

lemma harmless_addEnvironmentInfoCall: "harmless st (addEnvironmentInfoCall w info st)"
  by (simp add: addEnvironmentInfoCall_def harmless_def split: option.splits)

lemma harmless_addVersionSetCall: "harmless st (addVersionSetCall w v st)"
  by (simp add: addVersionSetCall_def harmless_def split: option.splits)

lemma harmless_fetchSuiteLogCall: "harmless st (fetchSuiteLogCall w st)"
  by (simp add: fetchSuiteLogCall_def harmless_def split: option.splits)

lemma harmless_addBenchmarkRunsCall: "harmless st (addBenchmarkRunsCall w runs st)"
  by (simp add: addBenchmarkRunsCall_def harmless_def)

lemma sorted_names_have_functions:
  assumes "distinct (map fst (data suiteLog))"
  shows "\<forall>mName \<in> set (getChronologicalModelNames suiteLog).
           map_of (data suiteLog) mName \<noteq> Some []"
proof
  fix mName assume "mName \<in> set (getChronologicalModelNames suiteLog)"
  then obtain t where "(mName, t) \<in> set (modelNamesAndTimestamps (data suiteLog))"
    by (auto simp: set_getChronologicalModelNames)
  from timestamp_of_modelNamesAndTimestamps[OF assms this]
  show "map_of (data suiteLog) mName \<noteq> Some []" by auto
qed

lemma empty_model_not_listed:
  assumes "distinct (map fst (data suiteLog))" "(mName, []) \<in> set (data suiteLog)"
  shows "mName \<notin> set (getChronologicalModelNames suiteLog)"
proof -
  from assms have "map_of (data suiteLog) mName = Some []" by simp
  with sorted_names_have_functions[OF assms(1)] show ?thesis by blast
qed

lemma fetchSuiteLogCall_Inr:
  "fetchSuiteLogCall w st = (Inr suiteLog, st') \<Longrightarrow>
   fetchSuiteLog w (trace st) BENCHMARKS_JSON_URL = Some suiteLog"
  by (auto simp: fetchSuiteLogCall_def split: option.splits)

lemma harmless_afterBrowserEnvironment:
  assumes "\<forall>h url s. fetchSuiteLog w h url = Some s \<longrightarrow> distinct (map fst (data s))"
  shows "harmless st (afterBrowserEnvironment w tfjsEnvId st)"
  unfolding afterBrowserEnvironment_def
proof (rule harmless_bind[OF harmless_addVersionSetCall],
       rule harmless_bind[OF harmless_fetchSuiteLogCall],
       rule harmless_bind[OF harmless_addEnvironmentInfoCall])
  fix vId st2 suiteLog st3 pyEnvId st4
  assume "fetchSuiteLogCall w st2 = (Inr suiteLog, st3)"
  from fetchSuiteLogCall_Inr[OF this] assms have "distinct (map fst (data suiteLog))"
    by blast
  note names = sorted_names_have_functions[OF this]
  let ?ctx = "\<lparr>ctxVersionSetId = vId, tfjsEnvironmentId = tfjsEnvId, pyEnvironmentId = pyEnvId\<rparr>"
  show "harmless st4
          (case benchmarkSortedModels w ?ctx suiteLog (getChronologicalModelNames suiteLog)
                  ([], []) st4 of
             (Inl e, st5) \<Rightarrow> (Inl e, st5)
           | (Inr (pyRuns, tfjsRuns), st5) \<Rightarrow>
               (case addBenchmarkRunsCall w pyRuns st5 of
                  (Inl e, st6) \<Rightarrow> (Inl e, st6)
                | (Inr u, st6) \<Rightarrow> (Inr (pyRuns, tfjsRuns), st6)))"
  proof (rule harmless_bind[OF harmless_benchmarkSortedModels[OF names]])
    fix runs :: Runs and st5
    obtain pyRuns tfjsRuns where r: "runs = (pyRuns, tfjsRuns)" by (cases runs)
    have "harmless st5 (case addBenchmarkRunsCall w pyRuns st5 of
                (Inl e, st6) \<Rightarrow> (Inl e, st6)
              | (Inr u, st6) \<Rightarrow> (Inr (pyRuns, tfjsRuns), st6))"
      by (rule harmless_bind[OF harmless_addBenchmarkRunsCall]) simp
    with r show "harmless st5
            (case runs of
               (pyRuns, tfjsRuns) \<Rightarrow>
                 (case addBenchmarkRunsCall w pyRuns st5 of
                    (Inl e, st6) \<Rightarrow> (Inl e, st6)
                  | (Inr u, st6) \<Rightarrow> (Inr (pyRuns, tfjsRuns), st6)))"
      by simp
  qed
qed

lemma getBrowserEnvironmentInfo_Inl:
  "getBrowserEnvironmentInfo w = Inl e \<Longrightarrow> \<not> isNoTaskError e"
  by (auto simp: getBrowserEnvironmentInfo_def getBrowserEnvironmentType_def
           split: sum.splits option.splits)

lemma harmless_benchmarkModels:
  assumes "\<forall>h url s. fetchSuiteLog w h url = Some s \<longrightarrow> distinct (map fst (data s))"
  shows "harmless st (benchmarkModels w st)"
proof (cases "getBrowserEnvironmentInfo w")
  case (Inl e)
  with getBrowserEnvironmentInfo_Inl[OF Inl] show ?thesis
    by (simp add: benchmarkModels_unfold harmless_def)
next
  case (Inr info)
  have "harmless st
          (case addEnvironmentInfoCall w info st of
             (Inl e, st1) \<Rightarrow> (Inl e, st1)
           | (Inr tfjsEnvId, st1) \<Rightarrow> afterBrowserEnvironment w tfjsEnvId st1)"
    by (rule harmless_bind[OF harmless_addEnvironmentInfoCall])
       (rule harmless_afterBrowserEnvironment[OF assms])
  with Inr show ?thesis by (simp add: benchmarkModels_unfold)
qed

lemma sample_empty_model_run:
  "benchmarkModels (sampleWorld suiteEmptyModel ReturnsTensor) initialState =
   (Inr ([], []),
    \<lparr>trace =
       [AddEnvironmentInfoToFirestore (BrowserEnvironmentInfo ''chrome-linux'' ''UA''),
        AddVersionSetToFirestore ''1.0'',
        Fetch ''./base/data/benchmarks.json'',
        AddEnvironmentInfoToFirestore (PythonEnvironmentInfo ''py''),
        AddBenchmarkRunsToFirestore []],
     nextTensorId = 0, liveTensors = []\<rparr>)"
  by (simp add: run_eval_defs suiteEmptyModel_def)

text \<open>
  Claim C2 fails on the code. The chronological ordering leaves out a model without recorded
  functions, so the loop over the models never sees it and the missing-task error is not
  raised; and the datastore is contacted before the reference log is fetched. Here the
  reference log holds one model, with no function: the run completes, after two requests to
  the datastore, the fetch, and a third request, by writing an empty batch.
\<close>

theorem empty_model_run_completes:
  "benchmarkModels (sampleWorld suiteEmptyModel ReturnsTensor) initialState =
   (Inr ([], []),
    \<lparr>trace =
       [AddEnvironmentInfoToFirestore (BrowserEnvironmentInfo ''chrome-linux'' ''UA''),
        AddVersionSetToFirestore ''1.0'',
        Fetch ''./base/data/benchmarks.json'',
        AddEnvironmentInfoToFirestore (PythonEnvironmentInfo ''py''),
        AddBenchmarkRunsToFirestore []],
     nextTensorId = 0, liveTensors = []\<rparr>)"
  by (rule sample_empty_model_run)

lemma grows_afterFetch:
  "grows st3
     (case addEnvironmentInfoCall w (environmentInfo suiteLog) st3 of
        (Inl e, st4) \<Rightarrow> (Inl e, st4)
      | (Inr pyEnvId, st4) \<Rightarrow>
     (case benchmarkSortedModels w
             \<lparr>ctxVersionSetId = vId, tfjsEnvironmentId = tfjsEnvId, pyEnvironmentId = pyEnvId\<rparr>
             suiteLog (getChronologicalModelNames suiteLog) ([], []) st4 of
        (Inl e, st5) \<Rightarrow> (Inl e, st5)
      | (Inr (pyRuns, tfjsRuns), st5) \<Rightarrow>
     (case addBenchmarkRunsCall w pyRuns st5 of
        (Inl e, st6) \<Rightarrow> (Inl e, st6)
      | (Inr u, st6) \<Rightarrow> (Inr (pyRuns, tfjsRuns), st6))))"
proof (rule grows_bind[OF harmless_grows[OF harmless_addEnvironmentInfoCall]],
       rule grows_bind[OF grows_benchmarkSortedModels])
  fix pyEnvId st4 and runs :: Runs and st5
  obtain pyRuns tfjsRuns where r: "runs = (pyRuns, tfjsRuns)" by (cases runs)
  have "grows st5 (case addBenchmarkRunsCall w pyRuns st5 of
              (Inl e, st6) \<Rightarrow> (Inl e, st6)
            | (Inr u, st6) \<Rightarrow> (Inr (pyRuns, tfjsRuns), st6))"
    by (rule grows_bind[OF harmless_grows[OF harmless_addBenchmarkRunsCall]])
       (simp add: grows_def)
  with r show "grows st5
          (case runs of
             (pyRuns, tfjsRuns) \<Rightarrow>
               (case addBenchmarkRunsCall w pyRuns st5 of
                  (Inl e, st6) \<Rightarrow> (Inl e, st6)
                | (Inr u, st6) \<Rightarrow> (Inr (pyRuns, tfjsRuns), st6)))"
    by simp
qed

lemma benchmarkModels_first_events:
  assumes "getBrowserEnvironmentInfo w = Inr info"
  shows "\<exists>evs. trace (snd (benchmarkModels w st)) = trace st @ evs \<and>
           (evs = [AddEnvironmentInfoToFirestore info] \<or>
            evs = [AddEnvironmentInfoToFirestore info, AddVersionSetToFirestore (tfVersion w)] \<or>
            (\<exists>rest. evs = AddEnvironmentInfoToFirestore info #
                           AddVersionSetToFirestore (tfVersion w) #
                           Fetch BENCHMARKS_JSON_URL # rest))"
proof (cases "addEnvironmentInfoToFirestore w (trace st) info")
  case None
  with assms have "trace (snd (benchmarkModels w st)) =
                   trace st @ [AddEnvironmentInfoToFirestore info]"
    by (simp add: benchmarkModels_unfold addEnvironmentInfoCall_def)
  then show ?thesis by blast
next
  case (Some tfjsEnvId)
  let ?st1 = "emit (AddEnvironmentInfoToFirestore info) st"
  have m: "benchmarkModels w st = afterBrowserEnvironment w tfjsEnvId ?st1"
    using assms Some by (simp add: benchmarkModels_unfold addEnvironmentInfoCall_def)
  show ?thesis
  proof (cases "addVersionSetToFirestore w (trace ?st1) (tfVersion w)")
    case None
    then have "trace (snd (afterBrowserEnvironment w tfjsEnvId ?st1)) =
               trace st @ [AddEnvironmentInfoToFirestore info,
                           AddVersionSetToFirestore (tfVersion w)]"
      by (simp add: afterBrowserEnvironment_def addVersionSetCall_def)
    with m show ?thesis by auto
  next
    case (Some vId)
    note v = this
    let ?st2 = "emit (AddVersionSetToFirestore (tfVersion w)) ?st1"
    let ?st3 = "emit (Fetch BENCHMARKS_JSON_URL) ?st2"
    have "\<exists>rest. trace (snd (afterBrowserEnvironment w tfjsEnvId ?st1)) = trace ?st3 @ rest"
    proof (cases "fetchSuiteLog w (trace ?st2) BENCHMARKS_JSON_URL")
      case None
      with v have "trace (snd (afterBrowserEnvironment w tfjsEnvId ?st1)) = trace ?st3 @ []"
        by (simp add: afterBrowserEnvironment_def addVersionSetCall_def fetchSuiteLogCall_def)
      then show ?thesis by blast
    next
      case (Some suiteLog)
      with v have "afterBrowserEnvironment w tfjsEnvId ?st1 =
        (case addEnvironmentInfoCall w (environmentInfo suiteLog) ?st3 of
           (Inl e, st4) \<Rightarrow> (Inl e, st4)
         | (Inr pyEnvId, st4) \<Rightarrow>
        (case benchmarkSortedModels w
                \<lparr>ctxVersionSetId = vId, tfjsEnvironmentId = tfjsEnvId,
                   pyEnvironmentId = pyEnvId\<rparr>
                suiteLog (getChronologicalModelNames suiteLog) ([], []) st4 of
           (Inl e, st5) \<Rightarrow> (Inl e, st5)
         | (Inr (pyRuns, tfjsRuns), st5) \<Rightarrow>
        (case addBenchmarkRunsCall w pyRuns st5 of
           (Inl e, st6) \<Rightarrow> (Inl e, st6)
         | (Inr u, st6) \<Rightarrow> (Inr (pyRuns, tfjsRuns), st6))))"
        by (simp add: afterBrowserEnvironment_def addVersionSetCall_def fetchSuiteLogCall_def)
      with grows_afterFetch[where ?st3.0 = ?st3 and w = w and suiteLog = suiteLog and vId = vId
             and tfjsEnvId = tfjsEnvId] show ?thesis
        by (simp add: grows_def)
    qed
    then obtain rest where
      "trace (snd (afterBrowserEnvironment w tfjsEnvId ?st1)) = trace ?st3 @ rest" by blast
    then have "trace (snd (benchmarkModels w st)) =
               trace st @ (AddEnvironmentInfoToFirestore info #
                           AddVersionSetToFirestore (tfVersion w) #
                           Fetch BENCHMARKS_JSON_URL # rest)"
      using m by simp
    then show ?thesis by blast
  qed
qed

lemma benchmarkModels_no_environment:
  "getBrowserEnvironmentInfo w = Inl e \<Longrightarrow> benchmarkModels w st = (Inl e, st)"
  by (simp add: benchmarkModels_unfold)


text \<open>
  Claim C2, amended. In a reference log with distinct model names, a model without recorded
  functions is not among the names that the chronological ordering returns, and the loop over
  these names never ends in the missing-task error; so a run whose reference log has distinct
  model names never ends in the missing-task error. Whatever the reference log holds, the
  datastore is contacted before the reference log is fetched: the events of a run start with
  the request that stores the browser environment, then the request that stores the version
  set, then the fetch of the reference log, as far as the run gets (a rejected request ends
  the run there); and a run that cannot determine the browser environment ends at once, with
  no event at all.
\<close>

theorem empty_model_skipped_datastore_first:
  "(distinct (map fst (data suiteLog)) \<longrightarrow>
      (\<forall>mName. (mName, []) \<in> set (data suiteLog) \<longrightarrow>
                mName \<notin> set (getChronologicalModelNames suiteLog)) \<and>
      (\<forall>mName. fst (benchmarkSortedModels w ctx suiteLog (getChronologicalModelNames suiteLog)
                       runs st) \<noteq> Inl (NoTaskError mName))) \<and>
   ((\<forall>h url s. fetchSuiteLog w h url = Some s \<longrightarrow> distinct (map fst (data s))) \<longrightarrow>
      (\<forall>mName. fst (benchmarkModels w st) \<noteq> Inl (NoTaskError mName))) \<and>
   (\<forall>info. getBrowserEnvironmentInfo w = Inr info \<longrightarrow>
      (\<exists>evs. trace (snd (benchmarkModels w st)) = trace st @ evs \<and>
         (evs = [AddEnvironmentInfoToFirestore info] \<or>
          evs = [AddEnvironmentInfoToFirestore info, AddVersionSetToFirestore (tfVersion w)] \<or>
          (\<exists>rest. evs = AddEnvironmentInfoToFirestore info #
                         AddVersionSetToFirestore (tfVersion w) #
                         Fetch BENCHMARKS_JSON_URL # rest)))) \<and>
   (\<forall>e. getBrowserEnvironmentInfo w = Inl e \<longrightarrow> benchmarkModels w st = (Inl e, st))"
proof (intro conjI impI allI)
  fix mName
  assume d: "distinct (map fst (data suiteLog))"
  show "mName \<notin> set (getChronologicalModelNames suiteLog)"
    if "(mName, []) \<in> set (data suiteLog)"
    using empty_model_not_listed[OF d that] .
  from harmless_benchmarkSortedModels[OF sorted_names_have_functions[OF d],
         of st w ctx runs]
  show "fst (benchmarkSortedModels w ctx suiteLog (getChronologicalModelNames suiteLog)
               runs st) \<noteq> Inl (NoTaskError mName)"
    by (auto simp: harmless_def)
next
  fix mName
  assume "\<forall>h url s. fetchSuiteLog w h url = Some s \<longrightarrow> distinct (map fst (data s))"
  from harmless_benchmarkModels[OF this, of st]
  show "fst (benchmarkModels w st) \<noteq> Inl (NoTaskError mName)"
    by (auto simp: harmless_def)
next
  fix info
  assume "getBrowserEnvironmentInfo w = Inr info"
  from benchmarkModels_first_events[OF this]
  show "\<exists>evs. trace (snd (benchmarkModels w st)) = trace st @ evs \<and>
         (evs = [AddEnvironmentInfoToFirestore info] \<or>
          evs = [AddEnvironmentInfoToFirestore info, AddVersionSetToFirestore (tfVersion w)] \<or>
          (\<exists>rest. evs = AddEnvironmentInfoToFirestore info #
                         AddVersionSetToFirestore (tfVersion w) #
                         Fetch BENCHMARKS_JSON_URL # rest))" .
next
  fix e
  assume "getBrowserEnvironmentInfo w = Inl e"
  then show "benchmarkModels w st = (Inl e, st)" by (rule benchmarkModels_no_environment)
qed

theorem empty_model_skipped_datastore_first_witness:
  "distinct (map fst (data suiteEmptyModel)) \<and>
   (''m'', []) \<in> set (data suiteEmptyModel) \<and>
   (\<forall>h url. fetchSuiteLog (sampleWorld suiteEmptyModel ReturnsTensor) h url =
             Some suiteEmptyModel) \<and>
   getBrowserEnvironmentInfo (sampleWorld suiteEmptyModel ReturnsTensor) =
     Inr (BrowserEnvironmentInfo ''chrome-linux'' ''UA'') \<and>
   ''m'' \<notin> set (getChronologicalModelNames suiteEmptyModel) \<and>
   fst (benchmarkSortedModels (sampleWorld suiteEmptyModel ReturnsTensor) sampleContext
          suiteEmptyModel (getChronologicalModelNames suiteEmptyModel) ([], []) initialState) \<noteq>
     Inl (NoTaskError ''m'') \<and>
   fst (benchmarkModels (sampleWorld suiteEmptyModel ReturnsTensor) initialState) \<noteq>
     Inl (NoTaskError ''m'') \<and>
   (\<exists>rest. trace (snd (benchmarkModels (sampleWorld suiteEmptyModel ReturnsTensor)
                         initialState)) =
            trace initialState @
            AddEnvironmentInfoToFirestore (BrowserEnvironmentInfo ''chrome-linux'' ''UA'') #
            AddVersionSetToFirestore (tfVersion (sampleWorld suiteEmptyModel ReturnsTensor)) #
            Fetch BENCHMARKS_JSON_URL # rest) \<and>
   getBrowserEnvironmentInfo ((sampleWorld suiteEmptyModel ReturnsTensor)\<lparr>detect := None\<rparr>) =
     Inl (TypeError ''name'') \<and>
   benchmarkModels ((sampleWorld suiteEmptyModel ReturnsTensor)\<lparr>detect := None\<rparr>)
     initialState = (Inl (TypeError ''name''), initialState)"
proof -
  let ?w = "sampleWorld suiteEmptyModel ReturnsTensor"
  have d: "distinct (map fst (data suiteEmptyModel))"
    and m: "(''m'', []) \<in> set (data suiteEmptyModel)"
    by (simp_all add: suiteEmptyModel_def)
  have f: "\<forall>h url. fetchSuiteLog ?w h url = Some suiteEmptyModel"
    by (simp add: sampleWorld_def)
  then have f': "\<forall>h url s. fetchSuiteLog ?w h url = Some s \<longrightarrow> distinct (map fst (data s))"
    using d by simp
  have g: "getBrowserEnvironmentInfo ?w = Inr (BrowserEnvironmentInfo ''chrome-linux'' ''UA'')"
    by (simp add: getBrowserEnvironmentInfo_def getBrowserEnvironmentType_def
          toLowerCase_def sampleWorld_def)
  have g': "getBrowserEnvironmentInfo (?w\<lparr>detect := None\<rparr>) = Inl (TypeError ''name'')"
    by (simp add: getBrowserEnvironmentInfo_def getBrowserEnvironmentType_def sampleWorld_def)
  note T = empty_model_skipped_datastore_first
             [of suiteEmptyModel ?w sampleContext "([], [])" initialState]
  from T d m have a: "''m'' \<notin> set (getChronologicalModelNames suiteEmptyModel)" by blast
  from T d have b: "fst (benchmarkSortedModels ?w sampleContext suiteEmptyModel
          (getChronologicalModelNames suiteEmptyModel) ([], []) initialState) \<noteq>
          Inl (NoTaskError ''m'')"
    by blast
  from T f' have c: "fst (benchmarkModels ?w initialState) \<noteq> Inl (NoTaskError ''m'')"
    by blast
  from T g obtain evs where
    e: "trace (snd (benchmarkModels ?w initialState)) = trace initialState @ evs"
       "evs = [AddEnvironmentInfoToFirestore (BrowserEnvironmentInfo ''chrome-linux'' ''UA'')] \<or>
        evs = [AddEnvironmentInfoToFirestore (BrowserEnvironmentInfo ''chrome-linux'' ''UA''),
               AddVersionSetToFirestore (tfVersion ?w)] \<or>
        (\<exists>rest. evs = AddEnvironmentInfoToFirestore
                         (BrowserEnvironmentInfo ''chrome-linux'' ''UA'') #
                       AddVersionSetToFirestore (tfVersion ?w) #
                       Fetch BENCHMARKS_JSON_URL # rest)"
    by blast
  have "length (trace (snd (benchmarkModels ?w initialState))) = 5"
    by (simp add: sample_empty_model_run)
  with e(1) have "length evs = 5" by (simp add: initialState_def)
  with e(2) obtain rest where
    "evs = AddEnvironmentInfoToFirestore (BrowserEnvironmentInfo ''chrome-linux'' ''UA'') #
           AddVersionSetToFirestore (tfVersion ?w) # Fetch BENCHMARKS_JSON_URL # rest"
    by auto
  with e(1) have h: "\<exists>rest. trace (snd (benchmarkModels ?w initialState)) =
            trace initialState @
            AddEnvironmentInfoToFirestore (BrowserEnvironmentInfo ''chrome-linux'' ''UA'') #
            AddVersionSetToFirestore (tfVersion ?w) # Fetch BENCHMARKS_JSON_URL # rest"
    by blast
  from empty_model_skipped_datastore_first
         [of suiteEmptyModel "?w\<lparr>detect := None\<rparr>" sampleContext "([], [])" initialState] g'
  have k: "benchmarkModels (?w\<lparr>detect := None\<rparr>) initialState =
             (Inl (TypeError ''name''), initialState)"
    by blast
  from d m f g a b c h g' k show ?thesis by blast
qed

end
